theory Spec2Isabelle
  imports Complex_Main "HOL-Library.AList" "HOL-Library.Sublist"
begin

section \<open>Relaxation of thermodynamic models (pytfa/optim/relaxation.py)\<close>

text \<open>
  The two procedures of \<^verbatim>\<open>relaxation.py\<close>, \<^verbatim>\<open>relax_dgo\<close> and \<^verbatim>\<open>relax_lc\<close>, are
  embedded as functions over an explicit model value. Python floats are idealised as
  \<^typ>\<open>real\<close>. Exceptions are values of type \<open>error\<close>; a function that may raise returns
  \<open>error + 'a\<close>. The logger is a list of entries returned with the result.
\<close>

subsection \<open>Collaborators: errors, expressions, models, the solver\<close>

datatype error = SolverError string | KeyError string | ValueError string

text \<open>
  Modelled from the spec: the solver-expression layer (optlang/sympy), "abstract syntax
  over variable-identifier references" supporting substitution and symbolic addition.
  An expression is a constant and a list of terms (coefficient, variable name).
\<close>

datatype expr = Expr (e_const: real) (e_terms: "(real \<times> string) list")

definition zero_expr :: expr where
  "zero_expr = Expr 0 []"

definition var_expr :: "string \<Rightarrow> expr" where
  "var_expr n = Expr 0 [(1, n)]"

fun add_expr :: "expr \<Rightarrow> expr \<Rightarrow> expr" where
  "add_expr (Expr c ts) (Expr d us) = Expr (c + d) (ts @ us)"

fun scale_expr :: "real \<Rightarrow> expr \<Rightarrow> expr" where
  "scale_expr k (Expr c ts) = Expr (k * c) (map (\<lambda>t. (k * fst t, snd t)) ts)"

definition sub_expr :: "expr \<Rightarrow> expr \<Rightarrow> expr" where
  "sub_expr a b = add_expr a (scale_expr (- 1) b)"

text \<open>The coefficient of a variable: the sum over the terms that name it.\<close>

definition coeff :: "expr \<Rightarrow> string \<Rightarrow> real" where
  "coeff e n = sum_list (map fst (filter (\<lambda>t. snd t = n) (e_terms e)))"

text \<open>
  \<^verbatim>\<open>constraint.variables\<close>: the variables that occur in the expression, each once
  (a variable whose terms cancel does not occur).
\<close>

definition expr_variables :: "expr \<Rightarrow> string list" where
  "expr_variables e = filter (\<lambda>n. coeff e n \<noteq> 0) (remdups (map snd (e_terms e)))"

text \<open>\<^verbatim>\<open>expression.subs(subs_dict)\<close>: every variable in the dictionary is replaced.\<close>

fun subs :: "expr \<Rightarrow> (string \<times> string) list \<Rightarrow> expr" where
  "subs (Expr c ts) d =
     Expr c (map (\<lambda>t. (fst t, case map_of d (snd t) of Some n \<Rightarrow> n | None \<Rightarrow> snd t)) ts)"

text \<open>
  Modelled from the spec: the typed variables and constraints of \<^verbatim>\<open>variables.py\<close> and
  \<^verbatim>\<open>constraints.py\<close>: "a decision variable tagged with a semantic role, associated with
  an owning entity via a stable identifier, and carrying numeric lower/upper bounds".
\<close>

datatype var_kind = DeltaGstd | LogConcentration | NegSlackVariable | PosSlackVariable
  | NegSlackLC | PosSlackLC | OtherVariable string

datatype cons_kind = NegativeDeltaG | OtherConstraint string

record variable =
  v_kind :: var_kind
  v_id :: string
  v_lb :: real
  v_ub :: real

record metabolite =
  m_id :: string

text \<open>\<^verbatim>\<open>reaction.metabolites\<close> is the dictionary metabolite \<open>\<rightarrow>\<close> stoichiometric coefficient.\<close>

record reaction =
  r_id :: string
  r_metabolites :: "(string \<times> real) list"

record constr =
  c_kind :: cons_kind
  c_reaction :: reaction
  c_expression :: expr
  c_lb :: real
  c_ub :: real

text \<open>A reaction constraint is keyed by the identifier of its reaction.\<close>

definition c_id :: "constr \<Rightarrow> string" where
  "c_id c = r_id (c_reaction c)"

text \<open>
  Modelled from the spec: the model, a "mutable container of variables, constraints,
  and a solver binding". \<^verbatim>\<open>deepcopy\<close> is the identity on this value.
\<close>

record tmodel =
  reactions :: "reaction list"
  metabolites :: "metabolite list"
  variables :: "variable list"
  constraints :: "constr list"
  obj_expression :: expr
  obj_direction :: string
  solver :: string
  RT :: real

type_synonym solution = "string \<Rightarrow> real"

text \<open>
  What \<^verbatim>\<open>relaxation.py\<close> takes from elsewhere is a parameter of the embedding: the
  solver (\<^verbatim>\<open>model.optimize()\<close>, which returns a solution or raises, and
  \<^verbatim>\<open>model.solver.status\<close>), the naming scheme of the typed variables
  (\<^verbatim>\<open>variable.name\<close>, from the kind and the id of the owner, where \<^verbatim>\<open>variable.id\<close> is the id
  of the owner), and the constants \<^verbatim>\<open>numerics.EPSILON\<close> and \<^verbatim>\<open>numerics.BIGM_DG\<close>.
\<close>

record env =
  optimize :: "tmodel \<Rightarrow> error + solution"
  status :: "tmodel \<Rightarrow> string"
  name_of :: "var_kind \<Rightarrow> string \<Rightarrow> string"
  EPSILON :: real
  BIGM_DG :: real

definition v_name :: "env \<Rightarrow> variable \<Rightarrow> string" where
  "v_name env v = name_of env (v_kind v) (v_id v)"

subsection \<open>Typed lookup and structural edits of a model\<close>

text \<open>
  Modelled from the spec: \<^verbatim>\<open>get_variables_of_type(kind)\<close>, "indexed collection keyed by
  owning-entity id", with membership by id and \<^verbatim>\<open>get_by_id\<close>, which raises KeyError.
\<close>

definition get_variables_of_type :: "var_kind \<Rightarrow> tmodel \<Rightarrow> variable list" where
  "get_variables_of_type k m = filter (\<lambda>v. v_kind v = k) (variables m)"

definition get_constraints_of_type :: "cons_kind \<Rightarrow> tmodel \<Rightarrow> constr list" where
  "get_constraints_of_type k m = filter (\<lambda>c. c_kind c = k) (constraints m)"

definition contains_id :: "variable list \<Rightarrow> string \<Rightarrow> bool" where
  "contains_id vs i = (i \<in> set (map v_id vs))"

definition get_by_id :: "variable list \<Rightarrow> string \<Rightarrow> error + variable" where
  "get_by_id vs i = (case find (\<lambda>v. v_id v = i) vs of
                       None \<Rightarrow> Inl (KeyError i) | Some v \<Rightarrow> Inr v)"

text \<open>
  Modelled from the spec: the structural edits required of the model,
  \<^verbatim>\<open>add_variable(kind, owner, lower_bound, upper_bound)\<close>, \<^verbatim>\<open>remove_constraint(c)\<close>,
  \<^verbatim>\<open>add_constraint(kind, owner, expression, lower_bound, upper_bound)\<close>,
  \<^verbatim>\<open>set_objective\<close> and \<^verbatim>\<open>repair()\<close>. The variables of a kind are keyed by their owner:
  storing a variable replaces the entry of the same kind and owner where it stands, and
  a new entry goes to the end. Removing a constraint retracts the entry of its kind and
  owner; adding one appends it.
\<close>

fun put_variable :: "variable \<Rightarrow> variable list \<Rightarrow> variable list" where
  "put_variable v [] = [v]"
| "put_variable v (w # ws) =
     (if v_kind w = v_kind v \<and> v_id w = v_id v then v # ws else w # put_variable v ws)"

definition add_variable ::
  "var_kind \<Rightarrow> string \<Rightarrow> real \<Rightarrow> real \<Rightarrow> tmodel \<Rightarrow> variable \<times> tmodel" where
  "add_variable k hook lb ub m =
     (let v = \<lparr>v_kind = k, v_id = hook, v_lb = lb, v_ub = ub\<rparr>
      in (v, m\<lparr>variables := put_variable v (variables m)\<rparr>))"

definition remove_constraint :: "constr \<Rightarrow> tmodel \<Rightarrow> tmodel" where
  "remove_constraint c m =
     m\<lparr>constraints := filter (\<lambda>d. \<not> (c_kind d = c_kind c \<and> c_id d = c_id c)) (constraints m)\<rparr>"

definition add_constraint ::
  "cons_kind \<Rightarrow> reaction \<Rightarrow> expr \<Rightarrow> real \<Rightarrow> real \<Rightarrow> tmodel \<Rightarrow> tmodel" where
  "add_constraint k r e lb ub m =
     m\<lparr>constraints := constraints m @
          [\<lparr>c_kind = k, c_reaction = r, c_expression = e, c_lb = lb, c_ub = ub\<rparr>]\<rparr>"

definition set_objective :: "tmodel \<Rightarrow> expr \<Rightarrow> tmodel" where
  "set_objective m e = m\<lparr>obj_expression := e\<rparr>"

text \<open>\<^verbatim>\<open>repair()\<close> re-syncs the typed views; here they are computed from the lists, so
  there is nothing to do.\<close>

definition repair :: "tmodel \<Rightarrow> tmodel" where
  "repair m = m"

text \<open>
  \<^verbatim>\<open>slack_model.variables.get(k.name)\<close>: the variable of that name in the slack model.
  The constraints rewritten are the slack model's own, so the namesake is the variable.
\<close>

definition variables_get :: "tmodel \<Rightarrow> string \<Rightarrow> string" where
  "variables_get m n = n"

text \<open>
  Modelled from the spec: \<^verbatim>\<open>get_solution_value_for_variables\<close> of \<^verbatim>\<open>optim/utils.py\<close>,
  "extract slack values from the solution": the values of the given variables, by name.
\<close>

definition get_solution_value_for_variables ::
  "env \<Rightarrow> solution \<Rightarrow> variable list \<Rightarrow> (string \<times> real) list" where
  "get_solution_value_for_variables env sol vs =
     map (\<lambda>v. (v_name env v, sol (v_name env v))) vs"

definition getitem :: "(string \<times> 'a) list \<Rightarrow> string \<Rightarrow> error + 'a" where
  "getitem d k = (case map_of d k of None \<Rightarrow> Inl (KeyError k) | Some x \<Rightarrow> Inr x)"

subsection \<open>The report table (pandas)\<close>

text \<open>
  \<^verbatim>\<open>pd.DataFrame.from_dict(changes, orient = 'index')\<close> makes one row per key, in the
  order of the dictionary, and as many positional columns as the longest row: none for
  an empty dictionary. Assigning \<^verbatim>\<open>.columns\<close> a list of another length raises ValueError
  ("Length mismatch").
\<close>

datatype label = Position nat | Name string

record dataframe =
  df_index :: "string list"
  df_columns :: "label list"
  df_rows :: "real list list"

definition from_dict :: "(string \<times> real list) list \<Rightarrow> dataframe" where
  "from_dict d =
     \<lparr>df_index = map fst d,
      df_columns = map Position [0 ..< fold (\<lambda>r n. max (length r) n) (map snd d) 0],
      df_rows = map snd d\<rparr>"

definition set_columns :: "dataframe \<Rightarrow> string list \<Rightarrow> error + dataframe" where
  "set_columns df names =
     (if length names \<noteq> length (df_columns df) then Inl (ValueError ''Length mismatch'')
      else Inr (df\<lparr>df_columns := map Name names\<rparr>))"

definition report_columns :: "string list" where
  "report_columns = [''lb_in'', ''ub_in'', ''lb_change'', ''ub_change'', ''lb_out'', ''ub_out'']"

text \<open>The row of an entity in a table, if it has one.\<close>

definition row_of :: "dataframe \<Rightarrow> string \<Rightarrow> real list option" where
  "row_of df i = map_of (zip (df_index df) (df_rows df)) i"

subsection \<open>Loops and the logger\<close>

datatype log_entry = LogError error | LogWarning string | LogInfo dataframe

text \<open>A \<^verbatim>\<open>for\<close> loop over a list whose body may raise: the first exception ends it.\<close>

fun for_each :: "('a \<Rightarrow> 's \<Rightarrow> error + 's) \<Rightarrow> 'a list \<Rightarrow> 's \<Rightarrow> error + 's" where
  "for_each body [] s = Inr s"
| "for_each body (x # xs) s =
     (case body x s of Inl e \<Rightarrow> Inl e | Inr s' \<Rightarrow> for_each body xs s')"

text \<open>
  Lines 50-55 and 197-202: the probe solve of the input model. Only \<^verbatim>\<open>SolverError\<close> is
  caught; it is logged as an error, the solver status as a warning.
\<close>

definition probe :: "env \<Rightarrow> tmodel \<Rightarrow> error + log_entry list" where
  "probe env tm =
     (case optimize env tm of
        Inr solution \<Rightarrow> Inr []
      | Inl (SolverError se) \<Rightarrow>
          Inr [LogError (SolverError se), LogWarning (''Solver status: '' @ status env tm)]
      | Inl e \<Rightarrow> Inl e)"

subsection \<open>Reading the slacks back: lines 126-159 and 290-323\<close>

text \<open>
  The two read-back loops are the same text up to the kinds of the variables: the
  target kind (\<^verbatim>\<open>DeltaGstd\<close>, \<^verbatim>\<open>LogConcentration\<close>) and the entity list (reactions,
  metabolites). The collection \<^verbatim>\<open>my_dgo\<close> (\<^verbatim>\<open>my_lc\<close>) holds the relaxed model's own
  variable objects, so it is read from the relaxed model in the state. The state is
  the relaxed model and the ordered dictionary \<^verbatim>\<open>changes\<close>.
\<close>

definition widen_step ::
  "env \<Rightarrow> var_kind \<Rightarrow> string list \<Rightarrow> variable list \<Rightarrow> variable list \<Rightarrow>
   (string \<times> real) list \<Rightarrow> (string \<times> real) list \<Rightarrow> string \<Rightarrow>
   tmodel \<times> (string \<times> real list) list \<Rightarrow> error + tmodel \<times> (string \<times> real list) list" where
  "widen_step env kind to_ignore my_neg_slacks my_pos_slacks neg_slack_values pos_slack_values
      this_id st =
     (let relaxed_model = fst st; changes = snd st;
          my_dgo = get_variables_of_type kind relaxed_model
      in if this_id \<in> set to_ignore \<or> \<not> contains_id my_dgo this_id then Inr st
         else
           case get_by_id my_dgo this_id of Inl e \<Rightarrow> Inl e | Inr the_dgo \<Rightarrow>
           case get_by_id my_neg_slacks this_id of Inl e \<Rightarrow> Inl e | Inr ns \<Rightarrow>
           case getitem neg_slack_values (v_name env ns) of Inl e \<Rightarrow> Inl e | Inr dgo_delta_lb \<Rightarrow>
           case get_by_id my_pos_slacks this_id of Inl e \<Rightarrow> Inl e | Inr ps \<Rightarrow>
           case getitem pos_slack_values (v_name env ps) of Inl e \<Rightarrow> Inl e | Inr dgo_delta_ub \<Rightarrow>
           if dgo_delta_lb > 0 \<or> dgo_delta_ub > 0 then
             let previous_dgo_lb = v_lb the_dgo;
                 previous_dgo_ub = v_ub the_dgo;
                 the_dgo1 = the_dgo\<lparr>v_lb := v_lb the_dgo - (dgo_delta_lb + EPSILON env)\<rparr>;
                 the_dgo2 = the_dgo1\<lparr>v_ub := v_ub the_dgo1 + (dgo_delta_ub + EPSILON env)\<rparr>
             in Inr (relaxed_model\<lparr>variables := put_variable the_dgo2 (variables relaxed_model)\<rparr>,
                     AList.update this_id
                       [previous_dgo_lb, previous_dgo_ub, dgo_delta_lb, dgo_delta_ub,
                        v_lb the_dgo2, v_ub the_dgo2] changes)
           else Inr st)"

text \<open>
  Lines 116-159 and 280-323: the slack variables of the slack model by kind, their
  values in the solution, and the loop over the entities of the relaxed model.
\<close>

definition read_back ::
  "env \<Rightarrow> var_kind \<Rightarrow> var_kind \<Rightarrow> var_kind \<Rightarrow> string list \<Rightarrow> tmodel \<Rightarrow> solution \<Rightarrow>
   string list \<Rightarrow> tmodel \<Rightarrow> error + tmodel \<times> (string \<times> real list) list" where
  "read_back env kind neg_kind pos_kind to_ignore slack_model relaxation ids relaxed_model =
     (let my_neg_slacks = get_variables_of_type neg_kind slack_model;
          my_pos_slacks = get_variables_of_type pos_kind slack_model;
          neg_slack_values = get_solution_value_for_variables env relaxation my_neg_slacks;
          pos_slack_values = get_solution_value_for_variables env relaxation my_pos_slacks
      in for_each (widen_step env kind to_ignore my_neg_slacks my_pos_slacks
                     neg_slack_values pos_slack_values) ids (relaxed_model, []))"

text \<open>
  Lines 161-176 and 325-340: the final solve of the relaxed model, whose failure is not
  caught, then the table, its six column names, and the log line.
\<close>

definition finish ::
  "env \<Rightarrow> log_entry list \<Rightarrow> tmodel \<Rightarrow> tmodel \<Rightarrow> (string \<times> real list) list \<Rightarrow>
   log_entry list \<times> (error + tmodel \<times> tmodel \<times> dataframe)" where
  "finish env lg relaxed_model slack_model changes =
     (case optimize env relaxed_model of Inl e \<Rightarrow> (lg, Inl e) | Inr s \<Rightarrow>
      case set_columns (from_dict changes) report_columns of Inl e \<Rightarrow> (lg, Inl e)
      | Inr relax_table \<Rightarrow>
          (lg @ [LogInfo relax_table], Inr (relaxed_model, slack_model, relax_table)))"

subsection \<open>\<^verbatim>\<open>relax_dgo\<close>: lines 32-176\<close>

text \<open>Lines 68-104: the body of the slack-injection loop; the state is the slack model
  and the objective.\<close>

definition dgo_inject_step ::
  "env \<Rightarrow> string list \<Rightarrow> variable list \<Rightarrow> constr \<Rightarrow> tmodel \<times> expr \<Rightarrow> error + tmodel \<times> expr" where
  "dgo_inject_step env reactions_to_ignore my_dgo this_neg_dg st =
     (let slack_model = fst st; objective = snd st
      in if c_id this_neg_dg \<in> set reactions_to_ignore \<or> \<not> contains_id my_dgo (c_id this_neg_dg)
         then Inr st
         else
           let (neg_slack, slack_model1) =
                 add_variable NegSlackVariable (r_id (c_reaction this_neg_dg)) 0 (BIGM_DG env)
                   slack_model;
               (pos_slack, slack_model2) =
                 add_variable PosSlackVariable (r_id (c_reaction this_neg_dg)) 0 (BIGM_DG env)
                   slack_model1;
               subs_dict = map (\<lambda>k. (k, variables_get slack_model2 k))
                             (expr_variables (c_expression this_neg_dg));
               new_expr = subs (c_expression this_neg_dg) subs_dict;
               new_expr1 = add_expr new_expr
                             (sub_expr (var_expr (v_name env pos_slack))
                                       (var_expr (v_name env neg_slack)));
               slack_model3 = remove_constraint this_neg_dg slack_model2;
               slack_model4 = add_constraint NegativeDeltaG (c_reaction this_neg_dg) new_expr1 0 0
                                slack_model3
           in Inr (slack_model4,
                   add_expr objective
                     (add_expr (var_expr (v_name env neg_slack)) (var_expr (v_name env pos_slack)))))"

text \<open>Lines 42-43 and 59-113: the slack model, up to the direction of its objective.\<close>

definition dgo_slack_model :: "env \<Rightarrow> tmodel \<Rightarrow> string list \<Rightarrow> string \<Rightarrow> error + tmodel" where
  "dgo_slack_model env tm reactions_to_ignore solver_name =
     (let slack_model = tm\<lparr>solver := solver_name\<rparr>;
          relaxed_model = tm\<lparr>solver := solver_name\<rparr>;
          my_dgo = get_variables_of_type DeltaGstd relaxed_model;
          my_neg_dg = get_constraints_of_type NegativeDeltaG slack_model
      in case for_each (dgo_inject_step env reactions_to_ignore my_dgo) my_neg_dg
                (slack_model, zero_expr) of
           Inl e \<Rightarrow> Inl e
         | Inr (slack_model1, objective) \<Rightarrow>
             Inr ((repair (set_objective slack_model1 objective))\<lparr>obj_direction := ''min''\<rparr>))"

text \<open>Lines 59-176, with the log so far: what runs once the probe solve is over.\<close>

definition relax_dgo_body ::
  "env \<Rightarrow> tmodel \<Rightarrow> string list \<Rightarrow> string \<Rightarrow> log_entry list \<Rightarrow>
   log_entry list \<times> (error + tmodel \<times> tmodel \<times> dataframe)" where
  "relax_dgo_body env tm reactions_to_ignore solver_name lg =
     (let relaxed_model = tm\<lparr>solver := solver_name\<rparr>
      in case dgo_slack_model env tm reactions_to_ignore solver_name of
           Inl e \<Rightarrow> (lg, Inl e)
         | Inr slack_model \<Rightarrow>
      case optimize env slack_model of Inl e \<Rightarrow> (lg, Inl e) | Inr relaxation \<Rightarrow>
      case read_back env DeltaGstd NegSlackVariable PosSlackVariable reactions_to_ignore
             slack_model relaxation (map r_id (reactions relaxed_model)) relaxed_model of
           Inl e \<Rightarrow> (lg, Inl e)
         | Inr (relaxed_model1, changes) \<Rightarrow> finish env lg relaxed_model1 slack_model changes)"

definition relax_dgo ::
  "env \<Rightarrow> tmodel \<Rightarrow> string list \<Rightarrow> string \<Rightarrow>
   log_entry list \<times> (error + tmodel \<times> tmodel \<times> dataframe)" where
  "relax_dgo env tm reactions_to_ignore solver_name =
     (case probe env tm of
        Inl e \<Rightarrow> ([], Inl e)
      | Inr lg \<Rightarrow> relax_dgo_body env tm reactions_to_ignore solver_name lg)"

subsection \<open>\<^verbatim>\<open>relax_lc\<close>: lines 178-340\<close>

definition metabolites_get_by_id :: "tmodel \<Rightarrow> string \<Rightarrow> error + metabolite" where
  "metabolites_get_by_id m i = (case find (\<lambda>x. m_id x = i) (metabolites m) of
                                  None \<Rightarrow> Inl (KeyError i) | Some x \<Rightarrow> Inr x)"

text \<open>Membership of an id in a collection of constraints (\<^verbatim>\<open>x.id in my_neg_dg\<close>).\<close>

definition contains_cid :: "constr list \<Rightarrow> string \<Rightarrow> bool" where
  "contains_cid cs i = (i \<in> set (map c_id cs))"

text \<open>
  Lines 218-233: one slack pair per log-concentration variable. The state is the slack
  model, the objective and the dictionaries \<^verbatim>\<open>pos_slack\<close> and \<^verbatim>\<open>neg_slack\<close>, keyed by
  the name of the log-concentration variable. The test of line 219 is on that name.
\<close>

definition lc_slack_step ::
  "env \<Rightarrow> string list \<Rightarrow> variable \<Rightarrow>
   tmodel \<times> expr \<times> (string \<times> variable) list \<times> (string \<times> variable) list \<Rightarrow>
   error + tmodel \<times> expr \<times> (string \<times> variable) list \<times> (string \<times> variable) list" where
  "lc_slack_step env metabolites_to_ignore this_lc st =
     (let slack_model = fst st; objective = fst (snd st);
          pos_slack = fst (snd (snd st)); neg_slack = snd (snd (snd st))
      in if v_name env this_lc \<in> set metabolites_to_ignore then Inr st
         else
           let (ns, slack_model1) =
                 add_variable NegSlackLC (v_id this_lc) 0 (BIGM_DG env) slack_model;
               neg_slack1 = AList.update (v_name env this_lc) ns neg_slack;
               (ps, slack_model2) =
                 add_variable PosSlackLC (v_id this_lc) 0 (BIGM_DG env) slack_model1;
               pos_slack1 = AList.update (v_name env this_lc) ps pos_slack
           in Inr (slack_model2,
                   add_expr objective (add_expr (var_expr (v_name env ns)) (var_expr (v_name env ps))),
                   pos_slack1, neg_slack1))"

text \<open>Lines 249-257: the body of the loop over the variables of one constraint.\<close>

definition lc_term_step ::
  "env \<Rightarrow> tmodel \<Rightarrow> (string \<times> variable) list \<Rightarrow> (string \<times> variable) list \<Rightarrow> constr \<Rightarrow>
   string \<Rightarrow> expr \<Rightarrow> error + expr" where
  "lc_term_step env slack_model pos_slack neg_slack this_neg_dg this_var new_expr =
     (if this_var \<notin> set (map fst neg_slack) then Inr new_expr
      else
        case getitem pos_slack this_var of Inl e \<Rightarrow> Inl e | Inr ps \<Rightarrow>
        let met_id = v_id ps in
        case metabolites_get_by_id slack_model met_id of Inl e \<Rightarrow> Inl e | Inr the_met \<Rightarrow>
        case getitem (r_metabolites (c_reaction this_neg_dg)) (m_id the_met) of
          Inl e \<Rightarrow> Inl e | Inr stoich \<Rightarrow>
        case getitem neg_slack this_var of Inl e \<Rightarrow> Inl e | Inr ns \<Rightarrow>
        Inr (add_expr new_expr
               (scale_expr (RT slack_model * stoich)
                  (sub_expr (var_expr (v_name env ps)) (var_expr (v_name env ns))))))"

text \<open>
  Lines 235-267: the body of the loop over the constraints; the state is the slack
  model. \<open>lc_rewrite\<close> is lines 242-267, what the body does past the test of line 238.
\<close>

definition lc_rewrite ::
  "env \<Rightarrow> (string \<times> variable) list \<Rightarrow> (string \<times> variable) list \<Rightarrow> constr \<Rightarrow>
   tmodel \<Rightarrow> error + tmodel" where
  "lc_rewrite env pos_slack neg_slack this_neg_dg slack_model =
       (let subs_dict = map (\<lambda>k. (k, variables_get slack_model k))
                          (expr_variables (c_expression this_neg_dg));
            new_expr = subs (c_expression this_neg_dg) subs_dict
        in case for_each (lc_term_step env slack_model pos_slack neg_slack this_neg_dg)
                  (expr_variables (c_expression this_neg_dg)) new_expr of
             Inl e \<Rightarrow> Inl e
           | Inr new_expr1 \<Rightarrow>
               Inr (add_constraint NegativeDeltaG (c_reaction this_neg_dg) new_expr1 0 0
                      (remove_constraint this_neg_dg slack_model)))"

definition lc_rewrite_step ::
  "env \<Rightarrow> constr list \<Rightarrow> (string \<times> variable) list \<Rightarrow> (string \<times> variable) list \<Rightarrow> constr \<Rightarrow>
   tmodel \<Rightarrow> error + tmodel" where
  "lc_rewrite_step env my_neg_dg pos_slack neg_slack this_neg_dg slack_model =
     (if \<not> contains_cid my_neg_dg (c_id this_neg_dg) then Inr slack_model
      else lc_rewrite env pos_slack neg_slack this_neg_dg slack_model)"

text \<open>Lines 189-190 and 207-277: the slack model, up to the direction of its objective.\<close>

definition lc_slack_model :: "env \<Rightarrow> tmodel \<Rightarrow> string list \<Rightarrow> string \<Rightarrow> error + tmodel" where
  "lc_slack_model env tm metabolites_to_ignore solver_name =
     (let slack_model = tm\<lparr>solver := solver_name\<rparr>;
          relaxed_model = tm\<lparr>solver := solver_name\<rparr>;
          my_lc = get_variables_of_type LogConcentration relaxed_model;
          my_neg_dg = get_constraints_of_type NegativeDeltaG slack_model
      in case for_each (lc_slack_step env metabolites_to_ignore) my_lc
                (slack_model, zero_expr, [], []) of
           Inl e \<Rightarrow> Inl e
         | Inr (slack_model1, objective, pos_slack, neg_slack) \<Rightarrow>
      case for_each (lc_rewrite_step env my_neg_dg pos_slack neg_slack) my_neg_dg slack_model1 of
           Inl e \<Rightarrow> Inl e
         | Inr slack_model2 \<Rightarrow>
             Inr ((repair (set_objective slack_model2 objective))\<lparr>obj_direction := ''min''\<rparr>))"

text \<open>Lines 207-340, with the log so far: what runs once the probe solve is over.\<close>

definition relax_lc_body ::
  "env \<Rightarrow> tmodel \<Rightarrow> string list \<Rightarrow> string \<Rightarrow> log_entry list \<Rightarrow>
   log_entry list \<times> (error + tmodel \<times> tmodel \<times> dataframe)" where
  "relax_lc_body env tm metabolites_to_ignore solver_name lg =
     (let relaxed_model = tm\<lparr>solver := solver_name\<rparr>
      in case lc_slack_model env tm metabolites_to_ignore solver_name of
           Inl e \<Rightarrow> (lg, Inl e)
         | Inr slack_model \<Rightarrow>
      case optimize env slack_model of Inl e \<Rightarrow> (lg, Inl e) | Inr relaxation \<Rightarrow>
      case read_back env LogConcentration NegSlackLC PosSlackLC metabolites_to_ignore
             slack_model relaxation (map m_id (metabolites relaxed_model)) relaxed_model of
           Inl e \<Rightarrow> (lg, Inl e)
         | Inr (relaxed_model1, changes) \<Rightarrow> finish env lg relaxed_model1 slack_model changes)"

definition relax_lc ::
  "env \<Rightarrow> tmodel \<Rightarrow> string list \<Rightarrow> string \<Rightarrow>
   log_entry list \<times> (error + tmodel \<times> tmodel \<times> dataframe)" where
  "relax_lc env tm metabolites_to_ignore solver_name =
     (case probe env tm of
        Inl e \<Rightarrow> ([], Inl e)
      | Inr lg \<Rightarrow> relax_lc_body env tm metabolites_to_ignore solver_name lg)"

section \<open>Notions used to state the properties\<close>

text \<open>The variable of a kind owned by an entity, as the typed views find it.\<close>

definition lookup_var :: "var_kind \<Rightarrow> string \<Rightarrow> variable list \<Rightarrow> variable option" where
  "lookup_var k i vs = find (\<lambda>v. v_kind v = k \<and> v_id v = i) vs"

text \<open>Line 142 (306), on the two slack values the solution holds for an entity.\<close>

definition positive_slack :: "env \<Rightarrow> var_kind \<Rightarrow> var_kind \<Rightarrow> solution \<Rightarrow> string \<Rightarrow> bool" where
  "positive_slack env nk pk sol i \<longleftrightarrow> 0 < sol (name_of env nk i) \<or> 0 < sol (name_of env pk i)"

text \<open>Lines 149-150 (313-314) and 153-159 (317-323), for the deltas \<open>dlb\<close> and \<open>dub\<close>.\<close>

definition widened :: "env \<Rightarrow> real \<Rightarrow> real \<Rightarrow> variable \<Rightarrow> variable" where
  "widened env dlb dub d =
     d\<lparr>v_lb := v_lb d - (dlb + EPSILON env), v_ub := v_ub d + (dub + EPSILON env)\<rparr>"

definition report_row :: "env \<Rightarrow> real \<Rightarrow> real \<Rightarrow> variable \<Rightarrow> real list" where
  "report_row env dlb dub d =
     [v_lb d, v_ub d, dlb, dub, v_lb d - (dlb + EPSILON env), v_ub d + (dub + EPSILON env)]"

text \<open>The read-back loop of \<open>read_back\<close>, from any state.\<close>

definition read_loop ::
  "env \<Rightarrow> var_kind \<Rightarrow> var_kind \<Rightarrow> var_kind \<Rightarrow> string list \<Rightarrow> tmodel \<Rightarrow> solution \<Rightarrow>
   string list \<Rightarrow> tmodel \<times> (string \<times> real list) list \<Rightarrow>
   error + tmodel \<times> (string \<times> real list) list" where
  "read_loop env kind nk pk ign sm sol ids st =
     for_each (widen_step env kind ign (get_variables_of_type nk sm) (get_variables_of_type pk sm)
       (get_solution_value_for_variables env sol (get_variables_of_type nk sm))
       (get_solution_value_for_variables env sol (get_variables_of_type pk sm))) ids st"

text \<open>
  The contract of the solver on a model: the point it returns lies within the bounds of
  every variable of the model.
\<close>

definition within_bounds :: "env \<Rightarrow> tmodel \<Rightarrow> solution \<Rightarrow> bool" where
  "within_bounds env m sol \<longleftrightarrow>
     list_all (\<lambda>v. v_lb v \<le> sol (v_name env v) \<and> sol (v_name env v) \<le> v_ub v) (variables m)"

text \<open>
  The invariant of the data model on slack variables, "slack variables are always
  non-negative", for the slack variables a model may already hold.
\<close>

definition is_slack_kind :: "var_kind \<Rightarrow> bool" where
  "is_slack_kind k \<longleftrightarrow> k \<in> {NegSlackVariable, PosSlackVariable, NegSlackLC, PosSlackLC}"

definition slack_lbs_nonneg :: "tmodel \<Rightarrow> bool" where
  "slack_lbs_nonneg m \<longleftrightarrow> list_all (\<lambda>v. is_slack_kind (v_kind v) \<longrightarrow> 0 \<le> v_lb v) (variables m)"

text \<open>The bounds of the variable of a kind owned by an entity.\<close>

definition var_bounds :: "var_kind \<Rightarrow> string \<Rightarrow> tmodel \<Rightarrow> (real \<times> real) option" where
  "var_bounds k i m = map_option (\<lambda>v. (v_lb v, v_ub v)) (lookup_var k i (variables m))"

text \<open>
  What line 256 adds to the coefficient of the variable \<open>y\<close> for the variable \<open>x\<close> of a
  constraint, in the words of the specification: \<open>RT \<times> stoichiometric_coefficient \<times>
  (positive_slack - negative_slack)\<close> where \<open>x\<close> has a slack pair, nothing otherwise.
\<close>

definition stoichiometric_coefficient :: "reaction \<Rightarrow> string \<Rightarrow> real" where
  "stoichiometric_coefficient r met =
     (case map_of (r_metabolites r) met of Some c \<Rightarrow> c | None \<Rightarrow> 0)"

definition slack_pair_coeff ::
  "env \<Rightarrow> real \<Rightarrow> reaction \<Rightarrow> (string \<times> variable) list \<Rightarrow> (string \<times> variable) list \<Rightarrow>
   string \<Rightarrow> string \<Rightarrow> real" where
  "slack_pair_coeff env rt r pos_slack neg_slack x y =
     (case map_of neg_slack x of
        None \<Rightarrow> 0
      | Some n \<Rightarrow>
         (case map_of pos_slack x of
            None \<Rightarrow> 0
          | Some p \<Rightarrow>
              rt * stoichiometric_coefficient r (v_id p) *
                ((if y = v_name env p then 1 else 0) - (if y = v_name env n then 1 else 0))))"

text \<open>
  The same for a whole run of \<^verbatim>\<open>relax_lc\<close>. The log-concentration variable whose slack
  pair lines 218-233 leave under the name \<open>x\<close> is the last variable of \<^verbatim>\<open>my_lc\<close> of that
  name that line 219 does not skip; its owner is the metabolite of the pair.
\<close>

definition injected :: "env \<Rightarrow> string list \<Rightarrow> variable list \<Rightarrow> string \<Rightarrow> variable option" where
  "injected env metabolites_to_ignore my_lc x =
     find (\<lambda>v. v_name env v = x)
       (rev (filter (\<lambda>v. v_name env v \<notin> set metabolites_to_ignore) my_lc))"

definition lc_slack_coeff ::
  "env \<Rightarrow> real \<Rightarrow> reaction \<Rightarrow> string list \<Rightarrow> variable list \<Rightarrow> string \<Rightarrow> string \<Rightarrow> real" where
  "lc_slack_coeff env rt r metabolites_to_ignore my_lc x y =
     (case injected env metabolites_to_ignore my_lc x of
        None \<Rightarrow> 0
      | Some v \<Rightarrow>
          rt * stoichiometric_coefficient r (v_id v) *
            ((if y = name_of env PosSlackLC (v_id v) then 1 else 0) -
             (if y = name_of env NegSlackLC (v_id v) then 1 else 0)))"

text \<open>
  The constraint \<open>c'\<close> that replaces the constraint \<open>c\<close>: of the same kind and reaction,
  with the bounds \<open>[0, 0]\<close>, and an expression that has the constant of the original
  and, for every variable \<open>y\<close>, the coefficient of the original plus what each variable
  of the original adds.
\<close>

definition rewritten ::
  "env \<Rightarrow> real \<Rightarrow> string list \<Rightarrow> variable list \<Rightarrow> constr \<Rightarrow> constr \<Rightarrow> bool" where
  "rewritten env rt metabolites_to_ignore my_lc c c' \<longleftrightarrow>
     c_kind c' = NegativeDeltaG \<and> c_reaction c' = c_reaction c \<and> c_lb c' = 0 \<and> c_ub c' = 0 \<and>
     e_const (c_expression c') = e_const (c_expression c) \<and>
     (\<forall>y. coeff (c_expression c') y =
            coeff (c_expression c) y +
            (\<Sum>x\<leftarrow>expr_variables (c_expression c).
                lc_slack_coeff env rt (c_reaction c) metabolites_to_ignore my_lc x y))"

text \<open>
  Lines 189-190 and 207-277 without the test of lines 238-239: the loop over the
  constraints as the specification reads it, unconditional per constraint.
\<close>

definition lc_slack_model_unguarded ::
  "env \<Rightarrow> tmodel \<Rightarrow> string list \<Rightarrow> string \<Rightarrow> error + tmodel" where
  "lc_slack_model_unguarded env tm metabolites_to_ignore solver_name =
     (let slack_model = tm\<lparr>solver := solver_name\<rparr>;
          relaxed_model = tm\<lparr>solver := solver_name\<rparr>;
          my_lc = get_variables_of_type LogConcentration relaxed_model;
          my_neg_dg = get_constraints_of_type NegativeDeltaG slack_model
      in case for_each (lc_slack_step env metabolites_to_ignore) my_lc
                (slack_model, zero_expr, [], []) of
           Inl e \<Rightarrow> Inl e
         | Inr (slack_model1, objective, pos_slack, neg_slack) \<Rightarrow>
      case for_each (lc_rewrite env pos_slack neg_slack) my_neg_dg slack_model1 of
           Inl e \<Rightarrow> Inl e
         | Inr slack_model2 \<Rightarrow>
             Inr ((repair (set_objective slack_model2 objective))\<lparr>obj_direction := ''min''\<rparr>))"

text \<open>What a run returned, if it returned: a variable of the slack model, a row of the
  report.\<close>

definition slack_var_of ::
  "log_entry list \<times> (error + tmodel \<times> tmodel \<times> dataframe) \<Rightarrow> var_kind \<Rightarrow> string \<Rightarrow>
   variable option" where
  "slack_var_of r k i =
     (case snd r of Inl e \<Rightarrow> None | Inr (rm, sm, tab) \<Rightarrow> lookup_var k i (variables sm))"

definition report_row_of ::
  "log_entry list \<times> (error + tmodel \<times> tmodel \<times> dataframe) \<Rightarrow> string \<Rightarrow> real list option" where
  "report_row_of r i =
     (case snd r of Inl e \<Rightarrow> None | Inr (rm, sm, tab) \<Rightarrow> row_of tab i)"

section \<open>A model to run the procedures on\<close>

text \<open>
  Two reactions and two metabolites; \<open>M1\<close> has the stoichiometric coefficient \<open>-2\<close> in
  \<open>R2\<close>. The names are the prefixes of \<^verbatim>\<open>variables.py\<close> before the owner's id. The solver
  finds the model as it stands infeasible and gives the slacks \<open>3\<close>, \<open>2\<close> and \<open>1\<close>.
\<close>

definition ex_name_of :: "var_kind \<Rightarrow> string \<Rightarrow> string" where
  "ex_name_of k i =
     (case k of DeltaGstd \<Rightarrow> ''DGo_'' | LogConcentration \<Rightarrow> ''LC_''
      | NegSlackVariable \<Rightarrow> ''NegSlack_'' | PosSlackVariable \<Rightarrow> ''PosSlack_''
      | NegSlackLC \<Rightarrow> ''NegSlackLC_'' | PosSlackLC \<Rightarrow> ''PosSlackLC_''
      | OtherVariable p \<Rightarrow> p) @ i"

definition ex_R1 :: reaction where
  "ex_R1 = \<lparr>r_id = ''R1'', r_metabolites = [(''M1'', - 1), (''M2'', 1)]\<rparr>"

definition ex_R2 :: reaction where
  "ex_R2 = \<lparr>r_id = ''R2'', r_metabolites = [(''M1'', - 2), (''M2'', 1)]\<rparr>"

definition ex_variables :: "variable list" where
  "ex_variables =
     [\<lparr>v_kind = DeltaGstd, v_id = ''R1'', v_lb = - 50, v_ub = 50\<rparr>,
      \<lparr>v_kind = DeltaGstd, v_id = ''R2'', v_lb = - 10, v_ub = 10\<rparr>,
      \<lparr>v_kind = LogConcentration, v_id = ''M1'', v_lb = - 5, v_ub = 5\<rparr>,
      \<lparr>v_kind = LogConcentration, v_id = ''M2'', v_lb = - 5, v_ub = 5\<rparr>]"

definition ex_C1 :: constr where
  "ex_C1 = \<lparr>c_kind = NegativeDeltaG, c_reaction = ex_R1,
            c_expression = Expr 0 [(- 1, ''DGo_R1''), (2, ''LC_M1''), (- 2, ''LC_M2'')],
            c_lb = 0, c_ub = 0\<rparr>"

definition ex_C2 :: constr where
  "ex_C2 = \<lparr>c_kind = NegativeDeltaG, c_reaction = ex_R2,
            c_expression = Expr 0 [(- 1, ''DGo_R2''), (4, ''LC_M1''), (- 2, ''LC_M2'')],
            c_lb = 0, c_ub = 0\<rparr>"

definition ex_model :: tmodel where
  "ex_model =
     \<lparr>reactions = [ex_R1, ex_R2],
      metabolites = [\<lparr>m_id = ''M1''\<rparr>, \<lparr>m_id = ''M2''\<rparr>],
      variables = ex_variables,
      constraints = [ex_C1, ex_C2],
      obj_expression = Expr 0 [],
      obj_direction = ''max'',
      solver = ''optlang-glpk'',
      RT = 2\<rparr>"

definition ex_sol :: solution where
  "ex_sol n = (if n = ''NegSlack_R1'' then 3 else if n = ''NegSlackLC_M1'' then 2
               else if n = ''PosSlackLC_M2'' then 1 else 0)"

definition ex_optimize :: "tmodel \<Rightarrow> error + solution" where
  "ex_optimize m =
     (if variables m = ex_variables \<and> obj_direction m \<noteq> ''min''
      then Inl (SolverError ''infeasible'') else Inr ex_sol)"

definition ex_status :: "tmodel \<Rightarrow> string" where
  "ex_status m = ''infeasible''"

definition ex_env :: env where
  "ex_env = \<lparr>optimize = ex_optimize, status = ex_status, name_of = ex_name_of,
             EPSILON = 1 / 1000000, BIGM_DG = 1000\<rparr>"

text \<open>
  What the two procedures return on this model: \<^verbatim>\<open>relax_dgo\<close> with \<open>R2\<close> excluded,
  \<^verbatim>\<open>relax_lc\<close> with \<open>M1\<close> excluded.
\<close>

definition ex_dgo_table :: dataframe where
  "ex_dgo_table =
     \<lparr>df_index = [''R1''],
      df_columns = [Name ''lb_in'', Name ''ub_in'', Name ''lb_change'', Name ''ub_change'',
                    Name ''lb_out'', Name ''ub_out''],
      df_rows = [[- 50, 50, 3, 0, - (53000001 / 1000000), 50000001 / 1000000]]\<rparr>"

definition ex_dgo_relaxed :: tmodel where
  "ex_dgo_relaxed =
     ex_model\<lparr>variables :=
       [\<lparr>v_kind = DeltaGstd, v_id = ''R1'', v_lb = - (53000001 / 1000000),
          v_ub = 50000001 / 1000000\<rparr>,
        \<lparr>v_kind = DeltaGstd, v_id = ''R2'', v_lb = - 10, v_ub = 10\<rparr>,
        \<lparr>v_kind = LogConcentration, v_id = ''M1'', v_lb = - 5, v_ub = 5\<rparr>,
        \<lparr>v_kind = LogConcentration, v_id = ''M2'', v_lb = - 5, v_ub = 5\<rparr>]\<rparr>"

definition ex_dgo_slack :: tmodel where
  "ex_dgo_slack =
     ex_model\<lparr>variables := ex_variables @
         [\<lparr>v_kind = NegSlackVariable, v_id = ''R1'', v_lb = 0, v_ub = 1000\<rparr>,
          \<lparr>v_kind = PosSlackVariable, v_id = ''R1'', v_lb = 0, v_ub = 1000\<rparr>],
       constraints :=
         [ex_C2,
          ex_C1\<lparr>c_expression :=
            Expr 0 [(- 1, ''DGo_R1''), (2, ''LC_M1''), (- 2, ''LC_M2''),
                    (1, ''PosSlack_R1''), (- 1, ''NegSlack_R1'')]\<rparr>],
       obj_expression := Expr 0 [(1, ''NegSlack_R1''), (1, ''PosSlack_R1'')],
       obj_direction := ''min''\<rparr>"

definition ex_probe_log :: "log_entry list" where
  "ex_probe_log = [LogError (SolverError ''infeasible''), LogWarning ''Solver status: infeasible'']"

definition ex_lc_table :: dataframe where
  "ex_lc_table =
     \<lparr>df_index = [''M2''],
      df_columns = [Name ''lb_in'', Name ''ub_in'', Name ''lb_change'', Name ''ub_change'',
                    Name ''lb_out'', Name ''ub_out''],
      df_rows = [[- 5, 5, 0, 1, - (5000001 / 1000000), 6000001 / 1000000]]\<rparr>"

definition ex_lc_relaxed :: tmodel where
  "ex_lc_relaxed =
     ex_model\<lparr>variables :=
       [\<lparr>v_kind = DeltaGstd, v_id = ''R1'', v_lb = - 50, v_ub = 50\<rparr>,
        \<lparr>v_kind = DeltaGstd, v_id = ''R2'', v_lb = - 10, v_ub = 10\<rparr>,
        \<lparr>v_kind = LogConcentration, v_id = ''M1'', v_lb = - 5, v_ub = 5\<rparr>,
        \<lparr>v_kind = LogConcentration, v_id = ''M2'', v_lb = - (5000001 / 1000000),
          v_ub = 6000001 / 1000000\<rparr>]\<rparr>"

definition ex_lc_slack :: tmodel where
  "ex_lc_slack =
     ex_model\<lparr>variables := ex_variables @
         [\<lparr>v_kind = NegSlackLC, v_id = ''M1'', v_lb = 0, v_ub = 1000\<rparr>,
          \<lparr>v_kind = PosSlackLC, v_id = ''M1'', v_lb = 0, v_ub = 1000\<rparr>,
          \<lparr>v_kind = NegSlackLC, v_id = ''M2'', v_lb = 0, v_ub = 1000\<rparr>,
          \<lparr>v_kind = PosSlackLC, v_id = ''M2'', v_lb = 0, v_ub = 1000\<rparr>],
       constraints :=
         [ex_C1\<lparr>c_expression :=
            Expr 0 [(- 1, ''DGo_R1''), (2, ''LC_M1''), (- 2, ''LC_M2''),
                    (- 2, ''PosSlackLC_M1''), (2, ''NegSlackLC_M1''),
                    (2, ''PosSlackLC_M2''), (- 2, ''NegSlackLC_M2'')]\<rparr>,
          ex_C2\<lparr>c_expression :=
            Expr 0 [(- 1, ''DGo_R2''), (4, ''LC_M1''), (- 2, ''LC_M2''),
                    (- 4, ''PosSlackLC_M1''), (4, ''NegSlackLC_M1''),
                    (2, ''PosSlackLC_M2''), (- 2, ''NegSlackLC_M2'')]\<rparr>],
       obj_expression := Expr 0 [(1, ''NegSlackLC_M1''), (1, ''PosSlackLC_M1''),
                                 (1, ''NegSlackLC_M2''), (1, ''PosSlackLC_M2'')],
       obj_direction := ''min''\<rparr>"

text \<open>
  Other solvers for the same model: one that always fails, one that solves the
  minimisation of the slacks and nothing else, one that finds every model feasible
  with all values zero.
\<close>

definition ex_failing_optimize :: "tmodel \<Rightarrow> error + solution" where
  "ex_failing_optimize m = Inl (SolverError ''no solution'')"

definition ex_env_failing :: env where
  "ex_env_failing = ex_env\<lparr>optimize := ex_failing_optimize\<rparr>"

definition ex_min_only_optimize :: "tmodel \<Rightarrow> error + solution" where
  "ex_min_only_optimize m =
     (if obj_direction m = ''min'' then Inr ex_sol else Inl (SolverError ''infeasible''))"

definition ex_env_min_only :: env where
  "ex_env_min_only = ex_env\<lparr>optimize := ex_min_only_optimize\<rparr>"

definition ex_failing_log :: "log_entry list" where
  "ex_failing_log = [LogError (SolverError ''no solution''), LogWarning ''Solver status: infeasible'']"

definition ex_dgo_changes :: "(string \<times> real list) list" where
  "ex_dgo_changes = [(''R1'', [- 50, 50, 3, 0, - (53000001 / 1000000), 50000001 / 1000000])]"

definition ex_lc_changes :: "(string \<times> real list) list" where
  "ex_lc_changes = [(''M2'', [- 5, 5, 0, 1, - (5000001 / 1000000), 6000001 / 1000000])]"

definition ex_zero_sol :: solution where
  "ex_zero_sol n = 0"

definition ex_feasible_optimize :: "tmodel \<Rightarrow> error + solution" where
  "ex_feasible_optimize m = Inr ex_zero_sol"

definition ex_env_feasible :: env where
  "ex_env_feasible = ex_env\<lparr>optimize := ex_feasible_optimize\<rparr>"

text \<open>
  A solver that finds every model feasible and returns a point outside the bounds of
  the slack variables of \<open>R1\<close>: \<open>-1/2\<close> for the negative slack, \<open>2\<close> for the positive one.
\<close>

definition ex_neg_sol :: solution where
  "ex_neg_sol n = (if n = ''NegSlack_R1'' then - (1 / 2) else if n = ''PosSlack_R1'' then 2 else 0)"

definition ex_negative_optimize :: "tmodel \<Rightarrow> error + solution" where
  "ex_negative_optimize m = Inr ex_neg_sol"

definition ex_env_negative :: env where
  "ex_env_negative = ex_env\<lparr>optimize := ex_negative_optimize\<rparr>"

text \<open>What \<^verbatim>\<open>relax_lc\<close> returns on the model with nothing excluded: a report of two rows.\<close>

definition ex_lc_table_all :: dataframe where
  "ex_lc_table_all =
     \<lparr>df_index = [''M1'', ''M2''],
      df_columns = [Name ''lb_in'', Name ''ub_in'', Name ''lb_change'', Name ''ub_change'',
                    Name ''lb_out'', Name ''ub_out''],
      df_rows = [[- 5, 5, 2, 0, - (7000001 / 1000000), 5000001 / 1000000],
                 [- 5, 5, 0, 1, - (5000001 / 1000000), 6000001 / 1000000]]\<rparr>"

definition ex_lc_relaxed_all :: tmodel where
  "ex_lc_relaxed_all =
     ex_model\<lparr>variables :=
       [\<lparr>v_kind = DeltaGstd, v_id = ''R1'', v_lb = - 50, v_ub = 50\<rparr>,
        \<lparr>v_kind = DeltaGstd, v_id = ''R2'', v_lb = - 10, v_ub = 10\<rparr>,
        \<lparr>v_kind = LogConcentration, v_id = ''M1'', v_lb = - (7000001 / 1000000),
          v_ub = 5000001 / 1000000\<rparr>,
        \<lparr>v_kind = LogConcentration, v_id = ''M2'', v_lb = - (5000001 / 1000000),
          v_ub = 6000001 / 1000000\<rparr>]\<rparr>"

text \<open>
  The dictionaries \<^verbatim>\<open>neg_slack\<close> and \<^verbatim>\<open>pos_slack\<close> that lines 218-233 build on the model
  with nothing excluded, and the constraint of \<open>R2\<close> as lines 242-267 rewrite it.
\<close>

definition ex_neg_slack :: "(string \<times> variable) list" where
  "ex_neg_slack =
     [(''LC_M1'', \<lparr>v_kind = NegSlackLC, v_id = ''M1'', v_lb = 0, v_ub = 1000\<rparr>),
      (''LC_M2'', \<lparr>v_kind = NegSlackLC, v_id = ''M2'', v_lb = 0, v_ub = 1000\<rparr>)]"

definition ex_pos_slack :: "(string \<times> variable) list" where
  "ex_pos_slack =
     [(''LC_M1'', \<lparr>v_kind = PosSlackLC, v_id = ''M1'', v_lb = 0, v_ub = 1000\<rparr>),
      (''LC_M2'', \<lparr>v_kind = PosSlackLC, v_id = ''M2'', v_lb = 0, v_ub = 1000\<rparr>)]"

definition ex_new_expr :: expr where
  "ex_new_expr =
     Expr 0 [(- 1, ''DGo_R2''), (4, ''LC_M1''), (- 2, ''LC_M2''),
             (- 4, ''PosSlackLC_M1''), (4, ''NegSlackLC_M1''),
             (2, ''PosSlackLC_M2''), (- 2, ''NegSlackLC_M2'')]"

definition ex_rewritten :: tmodel where
  "ex_rewritten = ex_model\<lparr>constraints := [ex_C1, ex_C2\<lparr>c_expression := ex_new_expr\<rparr>]\<rparr>"

section \<open>Lemmas on the typed views and the read-back loop\<close>


lemma get_by_id_lookup:
  "get_by_id (get_variables_of_type k m) i =
     (case lookup_var k i (variables m) of None \<Rightarrow> Inl (KeyError i) | Some v \<Rightarrow> Inr v)"
proof -
  have *: "find (\<lambda>v. v_id v = i) (filter (\<lambda>v. v_kind v = k) vs) = find (\<lambda>v. v_kind v = k \<and> v_id v = i) vs" for vs
    by (induction vs) auto
  show ?thesis
    by (simp add: get_by_id_def get_variables_of_type_def lookup_var_def *)
qed

lemma contains_id_lookup:
  "contains_id (get_variables_of_type k m) i \<longleftrightarrow> lookup_var k i (variables m) \<noteq> None"
  by (auto simp: contains_id_def get_variables_of_type_def lookup_var_def find_None_iff)

lemma lookup_var_SomeD:
  "lookup_var k i vs = Some v \<Longrightarrow> v_kind v = k \<and> v_id v = i \<and> v \<in> set vs"
  by (auto simp: lookup_var_def find_Some_iff)

lemma lookup_var_put:
  "lookup_var k i (put_variable v vs) =
     (if v_kind v = k \<and> v_id v = i then Some v else lookup_var k i vs)"
  by (induction vs) (auto simp: lookup_var_def)

lemma getitem_solution:
  "v \<in> set vs \<Longrightarrow>
   getitem (get_solution_value_for_variables env sol vs) (v_name env v) = Inr (sol (v_name env v))"
proof -
  assume "v \<in> set vs"
  then have "map_of (map (\<lambda>v. (v_name env v, sol (v_name env v))) vs) (v_name env v) = Some (sol (v_name env v))"
    by (induction vs) auto
  then show ?thesis
    by (simp add: getitem_def get_solution_value_for_variables_def)
qed

lemma slack_lookup:
  assumes "lookup_var nk i (variables sm) = Some v"
  shows "get_by_id (get_variables_of_type nk sm) i = Inr v"
    and "getitem (get_solution_value_for_variables env sol (get_variables_of_type nk sm)) (v_name env v)
         = Inr (sol (name_of env nk i))"
proof -
  show "get_by_id (get_variables_of_type nk sm) i = Inr v"
    using assms by (simp add: get_by_id_lookup)
  from assms have in_vs: "v \<in> set (get_variables_of_type nk sm)" and nm: "v_name env v = name_of env nk i"
    by (auto dest: lookup_var_SomeD simp: get_variables_of_type_def v_name_def)
  show "getitem (get_solution_value_for_variables env sol (get_variables_of_type nk sm)) (v_name env v)
         = Inr (sol (name_of env nk i))"
    using getitem_solution [OF in_vs, of env sol] nm by simp
qed

lemma widen_step_eq:
  "widen_step env kind ign (get_variables_of_type nk sm) (get_variables_of_type pk sm)
     (get_solution_value_for_variables env sol (get_variables_of_type nk sm))
     (get_solution_value_for_variables env sol (get_variables_of_type pk sm)) i (m, ch) =
   (if i \<in> set ign then Inr (m, ch)
    else case lookup_var kind i (variables m) of None \<Rightarrow> Inr (m, ch) | Some d \<Rightarrow>
      if lookup_var nk i (variables sm) = None then Inl (KeyError i)
      else if lookup_var pk i (variables sm) = None then Inl (KeyError i)
      else if positive_slack env nk pk sol i then
        Inr (m\<lparr>variables := put_variable
                   (widened env (sol (name_of env nk i)) (sol (name_of env pk i)) d) (variables m)\<rparr>,
             AList.update i (report_row env (sol (name_of env nk i)) (sol (name_of env pk i)) d) ch)
      else Inr (m, ch))"
proof (cases "i \<in> set ign")
  case True
  then show ?thesis by (simp add: widen_step_def)
next
  case notign: False
  show ?thesis
  proof (cases "lookup_var kind i (variables m)")
    case None
    then show ?thesis using notign by (simp add: widen_step_def contains_id_lookup)
  next
    case (Some d)
    note d = this
    show ?thesis
    proof (cases "lookup_var nk i (variables sm)")
      case None
      then show ?thesis using notign d
        by (simp add: widen_step_def contains_id_lookup get_by_id_lookup)
    next
      case (Some ns)
      note ns = this
      show ?thesis
      proof (cases "lookup_var pk i (variables sm)")
        case None
        then show ?thesis using notign d ns slack_lookup [OF ns]
          by (simp add: widen_step_def contains_id_lookup get_by_id_lookup)
      next
        case (Some ps)
        then show ?thesis
          using notign d ns slack_lookup [OF ns] slack_lookup [OF Some]
          by (simp add: widen_step_def contains_id_lookup get_by_id_lookup positive_slack_def
                widened_def report_row_def Let_def)
      qed
    qed
  qed
qed


lemma read_back_loop:
  "read_back env kind nk pk ign sm sol ids m = read_loop env kind nk pk ign sm sol ids (m, [])"
  by (simp add: read_back_def read_loop_def Let_def)

lemma read_loop_Nil: "read_loop env kind nk pk ign sm sol [] st = Inr st"
  by (simp add: read_loop_def)

lemma read_loop_Cons:
  "read_loop env kind nk pk ign sm sol (i # ids) (m, ch) =
   (if i \<in> set ign then read_loop env kind nk pk ign sm sol ids (m, ch)
    else case lookup_var kind i (variables m) of
      None \<Rightarrow> read_loop env kind nk pk ign sm sol ids (m, ch)
    | Some d \<Rightarrow>
      if lookup_var nk i (variables sm) = None then Inl (KeyError i)
      else if lookup_var pk i (variables sm) = None then Inl (KeyError i)
      else if positive_slack env nk pk sol i then
        read_loop env kind nk pk ign sm sol ids
          (m\<lparr>variables := put_variable
                (widened env (sol (name_of env nk i)) (sol (name_of env pk i)) d) (variables m)\<rparr>,
           AList.update i (report_row env (sol (name_of env nk i)) (sol (name_of env pk i)) d) ch)
      else read_loop env kind nk pk ign sm sol ids (m, ch))"
  by (auto simp: read_loop_def widen_step_eq split: option.splits)

lemma widened_key: "v_kind (widened env a b d) = v_kind d" "v_id (widened env a b d) = v_id d"
  by (simp_all add: widened_def)

text \<open>The loop changes nothing but the variable list, and there only the bounds.\<close>

lemma read_loop_lookup_None:
  "read_loop env kind nk pk ign sm sol ids (m, ch) = Inr (m', ch') \<Longrightarrow>
   (lookup_var k j (variables m') = None) = (lookup_var k j (variables m) = None)"
proof (induction ids arbitrary: m ch)
  case Nil
  then show ?case by (simp add: read_loop_Nil)
next
  case (Cons i ids)
  show ?case
  proof (cases "i \<notin> set ign \<and> lookup_var kind i (variables m) \<noteq> None \<and> positive_slack env nk pk sol i")
    case False
    then have "read_loop env kind nk pk ign sm sol ids (m, ch) = Inr (m', ch')"
      using Cons.prems by (auto simp: read_loop_Cons split: if_splits option.splits)
    then show ?thesis by (rule Cons.IH)
  next
    case True
    then obtain d where d: "lookup_var kind i (variables m) = Some d" by auto
    let ?w = "widened env (sol (name_of env nk i)) (sol (name_of env pk i)) d"
    have "read_loop env kind nk pk ign sm sol ids
            (m\<lparr>variables := put_variable ?w (variables m)\<rparr>,
             AList.update i (report_row env (sol (name_of env nk i)) (sol (name_of env pk i)) d) ch)
          = Inr (m', ch')"
      using Cons.prems True d by (auto simp: read_loop_Cons split: if_splits)
    from Cons.IH [OF this]
    have "(lookup_var k j (variables m') = None) = (lookup_var k j (put_variable ?w (variables m)) = None)"
      by simp
    also have "\<dots> = (lookup_var k j (variables m) = None)"
      using d lookup_var_SomeD [OF d] by (auto simp: lookup_var_put widened_key)
    finally show ?thesis .
  qed
qed


lemma read_loop_Cons_cases [consumes 1, case_names skip relax]:
  assumes "read_loop env kind nk pk ign sm sol (i # ids) (m, ch) = Inr r"
  obtains
    "i \<in> set ign \<or> lookup_var kind i (variables m) = None \<or> \<not> positive_slack env nk pk sol i"
    "read_loop env kind nk pk ign sm sol ids (m, ch) = Inr r"
    "i \<in> set ign \<or> lookup_var kind i (variables m) = None \<or>
       lookup_var nk i (variables sm) \<noteq> None \<and> lookup_var pk i (variables sm) \<noteq> None"
  | d where "i \<notin> set ign" "lookup_var kind i (variables m) = Some d"
      "lookup_var nk i (variables sm) \<noteq> None" "lookup_var pk i (variables sm) \<noteq> None"
      "positive_slack env nk pk sol i"
      "read_loop env kind nk pk ign sm sol ids
         (m\<lparr>variables := put_variable
               (widened env (sol (name_of env nk i)) (sol (name_of env pk i)) d) (variables m)\<rparr>,
          AList.update i (report_row env (sol (name_of env nk i)) (sol (name_of env pk i)) d) ch)
       = Inr r"
  using assms by (auto simp: read_loop_Cons split: if_splits option.splits)

lemma lookup_var_put_widened:
  assumes "lookup_var kind i vs = Some d"
  shows "lookup_var k j (put_variable (widened env a b d) vs) =
           (if k = kind \<and> j = i then Some (widened env a b d) else lookup_var k j vs)"
  using lookup_var_SomeD [OF assms] by (auto simp: lookup_var_put widened_key)

lemma read_loop_lookup_other:
  "read_loop env kind nk pk ign sm sol ids (m, ch) = Inr (m', ch') \<Longrightarrow>
   \<not> (k = kind \<and> j \<in> set ids \<and> j \<notin> set ign \<and> positive_slack env nk pk sol j) \<Longrightarrow>
   lookup_var k j (variables m') = lookup_var k j (variables m)"
proof (induction ids arbitrary: m ch)
  case Nil
  then show ?case by (simp add: read_loop_Nil)
next
  case (Cons i ids)
  from Cons.prems(1) show ?case
  proof (cases rule: read_loop_Cons_cases)
    case skip
    from Cons.IH [OF skip(2)] Cons.prems(2) show ?thesis by auto
  next
    case (relax d)
    from Cons.IH [OF relax(6)] Cons.prems(2) relax(1,5)
    show ?thesis by (auto simp: lookup_var_put_widened [OF relax(2)])
  qed
qed

lemma read_loop_frame:
  "read_loop env kind nk pk ign sm sol ids (m, ch) = Inr (m', ch') \<Longrightarrow>
   m' = m\<lparr>variables := variables m'\<rparr>"
proof (induction ids arbitrary: m ch)
  case Nil
  then show ?case by (simp add: read_loop_Nil)
next
  case (Cons i ids)
  from Cons.prems(1) show ?case
  proof (cases rule: read_loop_Cons_cases)
    case skip
    from Cons.IH [OF skip(2)] show ?thesis .
  next
    case (relax d)
    from Cons.IH [OF relax(6)] show ?thesis by simp
  qed
qed

text \<open>The keys of the report: the entities that are processed and have a positive slack.\<close>

lemma read_loop_keys:
  "read_loop env kind nk pk ign sm sol ids (m, ch) = Inr (m', ch') \<Longrightarrow>
   set (map fst ch') = set (map fst ch) \<union>
     {i \<in> set ids. i \<notin> set ign \<and> lookup_var kind i (variables m) \<noteq> None
        \<and> positive_slack env nk pk sol i}"
proof (induction ids arbitrary: m ch)
  case Nil
  then show ?case by (simp add: read_loop_Nil)
next
  case (Cons i ids)
  from Cons.prems(1) show ?case
  proof (cases rule: read_loop_Cons_cases)
    case skip
    from Cons.IH [OF skip(2)] skip(1) show ?thesis by auto
  next
    case (relax d)
    have keys: "set (map fst (AList.update i r ch)) = insert i (set (map fst ch))" for r
      by (simp add: AList.dom_update)
    have "set (map fst ch') = insert i (set (map fst ch)) \<union>
            {j \<in> set ids. j \<notin> set ign \<and> lookup_var kind j (variables m) \<noteq> None
               \<and> positive_slack env nk pk sol j}"
      using Cons.IH [OF relax(6)] relax(2) unfolding keys
      by (auto simp: lookup_var_put_widened [OF relax(2)])
    then show ?thesis using relax(1,2,5) by auto
  qed
qed


lemma read_loop_slack_present:
  "read_loop env kind nk pk ign sm sol ids (m, ch) = Inr (m', ch') \<Longrightarrow>
   i \<in> set ids \<Longrightarrow> i \<notin> set ign \<Longrightarrow> lookup_var kind i (variables m) \<noteq> None \<Longrightarrow>
   lookup_var nk i (variables sm) \<noteq> None \<and> lookup_var pk i (variables sm) \<noteq> None"
proof (induction ids arbitrary: m ch)
  case Nil
  then show ?case by simp
next
  case (Cons j ids)
  from Cons.prems(1) show ?case
  proof (cases rule: read_loop_Cons_cases)
    case skip
    show ?thesis
    proof (cases "i = j")
      case True
      then show ?thesis using skip(3) Cons.prems(3,4) by auto
    next
      case False
      then show ?thesis using Cons.IH [OF skip(2)] Cons.prems(2,3,4) by auto
    qed
  next
    case (relax d)
    show ?thesis
    proof (cases "i = j")
      case True
      then show ?thesis using relax(3,4) by auto
    next
      case False
      then show ?thesis using Cons.IH [OF relax(6)] Cons.prems(2,3,4)
        by (auto simp: lookup_var_put_widened [OF relax(2)])
    qed
  qed
qed

lemma read_loop_map_of_other:
  "read_loop env kind nk pk ign sm sol ids (m, ch) = Inr (m', ch') \<Longrightarrow>
   j \<notin> set ids \<Longrightarrow> map_of ch' j = map_of ch j"
proof (induction ids arbitrary: m ch)
  case Nil
  then show ?case by (simp add: read_loop_Nil)
next
  case (Cons i ids)
  from Cons.prems(1) show ?case
  proof (cases rule: read_loop_Cons_cases)
    case skip
    from Cons.IH [OF skip(2)] Cons.prems(2) show ?thesis by auto
  next
    case (relax d)
    from Cons.IH [OF relax(6)] Cons.prems(2) show ?thesis
      by (auto simp: AList.update_conv')
  qed
qed

text \<open>With distinct entity ids, a relaxed entity is widened exactly once.\<close>

lemma read_loop_relaxed:
  "read_loop env kind nk pk ign sm sol ids (m, ch) = Inr (m', ch') \<Longrightarrow> distinct ids \<Longrightarrow>
   i \<in> set ids \<Longrightarrow> i \<notin> set ign \<Longrightarrow> positive_slack env nk pk sol i \<Longrightarrow>
   lookup_var kind i (variables m) = Some d \<Longrightarrow>
   lookup_var kind i (variables m') =
     Some (widened env (sol (name_of env nk i)) (sol (name_of env pk i)) d) \<and>
   map_of ch' i = Some (report_row env (sol (name_of env nk i)) (sol (name_of env pk i)) d)"
proof (induction ids arbitrary: m ch)
  case Nil
  then show ?case by simp
next
  case (Cons j ids)
  from Cons.prems(1) show ?case
  proof (cases rule: read_loop_Cons_cases)
    case skip
    with Cons.prems have "i \<noteq> j" by auto
    with Cons.prems have "i \<in> set ids" "distinct ids" by auto
    from Cons.IH [OF skip(2) this(2) this(1) Cons.prems(4,5,6)] show ?thesis .
  next
    case (relax d')
    show ?thesis
    proof (cases "i = j")
      case True
      with Cons.prems(2) have notin: "i \<notin> set ids" by simp
      from True relax(2) Cons.prems(6) have dd: "d' = d" by simp
      have "lookup_var kind i (variables m') =
              lookup_var kind i (put_variable
                (widened env (sol (name_of env nk j)) (sol (name_of env pk j)) d') (variables m))"
        using read_loop_lookup_other [OF relax(6), of kind i] notin by simp
      moreover have "map_of ch' i =
              map_of (AList.update j
                (report_row env (sol (name_of env nk j)) (sol (name_of env pk j)) d') ch) i"
        using read_loop_map_of_other [OF relax(6) notin] .
      moreover have "lookup_var kind j (put_variable
                (widened env (sol (name_of env nk j)) (sol (name_of env pk j)) d') (variables m))
              = Some (widened env (sol (name_of env nk j)) (sol (name_of env pk j)) d')"
        by (simp add: lookup_var_put_widened [OF relax(2)])
      ultimately show ?thesis using True dd
        by (simp add: AList.update_conv')
    next
      case False
      with Cons.prems have "i \<in> set ids" "distinct ids" by auto
      moreover have "lookup_var kind i (variables (m\<lparr>variables := put_variable
               (widened env (sol (name_of env nk j)) (sol (name_of env pk j)) d') (variables m)\<rparr>))
           = Some d"
        using False Cons.prems(6) by (simp add: lookup_var_put_widened [OF relax(2)])
      ultimately show ?thesis
        using Cons.IH [OF relax(6) _ _ Cons.prems(4,5)] by blast
    qed
  qed
qed

lemma set_alist_update:
  "p \<in> set (AList.update k v al) \<Longrightarrow> p = (k, v) \<or> p \<in> set al"
  by (induction al) (auto split: if_splits)

text \<open>Every row of the report was written by the loop or was there before.\<close>

lemma read_loop_rows:
  "read_loop env kind nk pk ign sm sol ids (m, ch) = Inr (m', ch') \<Longrightarrow>
   \<forall>r \<in> set (map snd ch). Q r \<Longrightarrow> (\<And>a b d. Q (report_row env a b d)) \<Longrightarrow>
   \<forall>r \<in> set (map snd ch'). Q r"
proof (induction ids arbitrary: m ch)
  case Nil
  then show ?case by (simp add: read_loop_Nil)
next
  case (Cons i ids)
  from Cons.prems(1) show ?case
  proof (cases rule: read_loop_Cons_cases)
    case skip
    from Cons.IH [OF skip(2) Cons.prems(2,3)] show ?thesis .
  next
    case (relax d)
    have "\<forall>r \<in> set (map snd (AList.update i
             (report_row env (sol (name_of env nk i)) (sol (name_of env pk i)) d) ch)). Q r"
      using Cons.prems(2,3) by (auto dest!: set_alist_update)
    from Cons.IH [OF relax(6) this Cons.prems(3)] show ?thesis .
  qed
qed

text \<open>The keys of the report come in the order of the entity list.\<close>

lemma read_loop_order:
  "read_loop env kind nk pk ign sm sol ids (m, ch) = Inr (m', ch') \<Longrightarrow>
   \<exists>ks. map fst ch' = map fst ch @ ks \<and> subseq ks ids"
proof (induction ids arbitrary: m ch)
  case Nil
  then show ?case by (simp add: read_loop_Nil)
next
  case (Cons i ids)
  from Cons.prems(1) show ?case
  proof (cases rule: read_loop_Cons_cases)
    case skip
    from Cons.IH [OF skip(2)] show ?thesis by auto
  next
    case (relax d)
    from Cons.IH [OF relax(6)] obtain ks where
      ks: "map fst ch' = map fst (AList.update i
             (report_row env (sol (name_of env nk i)) (sol (name_of env pk i)) d) ch) @ ks"
      "subseq ks ids" by blast
    show ?thesis
    proof (cases "i \<in> set (map fst ch)")
      case True
      with ks show ?thesis by (auto simp: AList.update_keys)
    next
      case False
      with ks have "map fst ch' = map fst ch @ (i # ks)" "subseq (i # ks) (i # ids)"
        by (auto simp: AList.update_keys)
      then show ?thesis by blast
    qed
  qed
qed

lemma read_loop_distinct:
  "read_loop env kind nk pk ign sm sol ids (m, ch) = Inr (m', ch') \<Longrightarrow>
   distinct (map fst ch) \<Longrightarrow> distinct (map fst ch')"
proof (induction ids arbitrary: m ch)
  case Nil
  then show ?case by (simp add: read_loop_Nil)
next
  case (Cons i ids)
  from Cons.prems(1) show ?case
  proof (cases rule: read_loop_Cons_cases)
    case skip
    from Cons.IH [OF skip(2) Cons.prems(2)] show ?thesis .
  next
    case (relax d)
    from Cons.IH [OF relax(6)] Cons.prems(2) show ?thesis
      by (simp add: AList.distinct_update)
  qed
qed


section \<open>Lemmas on the table, the whole runs and the slack models\<close>


lemma from_dict_columns:
  "set_columns (from_dict ch) report_columns = Inr tab \<Longrightarrow>
   df_index tab = map fst ch \<and> df_rows tab = map snd ch \<and> df_columns tab = map Name report_columns"
  by (auto simp: set_columns_def from_dict_def split: if_splits)

lemma from_dict_row_of:
  "set_columns (from_dict ch) report_columns = Inr tab \<Longrightarrow> row_of tab i = map_of ch i"
  by (auto simp: set_columns_def from_dict_def row_of_def zip_map_fst_snd split: if_splits)

lemma from_dict_empty: "set_columns (from_dict []) report_columns = Inl (ValueError ''Length mismatch'')"
  by (simp add: set_columns_def from_dict_def report_columns_def)

lemma finish_Inr:
  assumes "finish env lg rm sm ch = (lg', Inr (rm', sm', tab))"
  shows "rm' = rm" "sm' = sm" "\<exists>s. optimize env rm = Inr s"
    "set_columns (from_dict ch) report_columns = Inr tab" "lg' = lg @ [LogInfo tab]"
  using assms by (auto simp: finish_def split: sum.splits)

lemma relax_dgo_body_Inr:
  assumes "relax_dgo_body env tm ign s lg0 = (lg, Inr (rm, sm, tab))"
  obtains sol ch where "dgo_slack_model env tm ign s = Inr sm" "optimize env sm = Inr sol"
    "read_loop env DeltaGstd NegSlackVariable PosSlackVariable ign sm sol (map r_id (reactions tm))
       (tm\<lparr>solver := s\<rparr>, []) = Inr (rm, ch)"
    "set_columns (from_dict ch) report_columns = Inr tab"
    "\<exists>x. optimize env rm = Inr x" "lg = lg0 @ [LogInfo tab]"
proof -
  from assms obtain sm0 sol rm0 ch where
    a: "dgo_slack_model env tm ign s = Inr sm0" "optimize env sm0 = Inr sol"
    and b: "read_loop env DeltaGstd NegSlackVariable PosSlackVariable ign sm0 sol (map r_id (reactions tm))
       (tm\<lparr>solver := s\<rparr>, []) = Inr (rm0, ch)"
    and c: "finish env lg0 rm0 sm0 ch = (lg, Inr (rm, sm, tab))"
    by (auto simp: relax_dgo_body_def read_back_loop Let_def split: sum.splits)
  from finish_Inr [OF c] a b show ?thesis by (auto intro: that)
qed

lemma relax_dgo_Inr:
  assumes "relax_dgo env tm ign s = (lg, Inr (rm, sm, tab))"
  obtains sol ch where "dgo_slack_model env tm ign s = Inr sm" "optimize env sm = Inr sol"
    "read_loop env DeltaGstd NegSlackVariable PosSlackVariable ign sm sol (map r_id (reactions tm))
       (tm\<lparr>solver := s\<rparr>, []) = Inr (rm, ch)"
    "set_columns (from_dict ch) report_columns = Inr tab"
proof -
  from assms obtain lg0 where "relax_dgo_body env tm ign s lg0 = (lg, Inr (rm, sm, tab))"
    by (auto simp: relax_dgo_def split: sum.splits)
  then show ?thesis by (rule relax_dgo_body_Inr) (rule that)
qed

lemma relax_lc_body_Inr:
  assumes "relax_lc_body env tm ign s lg0 = (lg, Inr (rm, sm, tab))"
  obtains sol ch where "lc_slack_model env tm ign s = Inr sm" "optimize env sm = Inr sol"
    "read_loop env LogConcentration NegSlackLC PosSlackLC ign sm sol (map m_id (metabolites tm))
       (tm\<lparr>solver := s\<rparr>, []) = Inr (rm, ch)"
    "set_columns (from_dict ch) report_columns = Inr tab"
    "\<exists>x. optimize env rm = Inr x" "lg = lg0 @ [LogInfo tab]"
proof -
  from assms obtain sm0 sol rm0 ch where
    a: "lc_slack_model env tm ign s = Inr sm0" "optimize env sm0 = Inr sol"
    and b: "read_loop env LogConcentration NegSlackLC PosSlackLC ign sm0 sol (map m_id (metabolites tm))
       (tm\<lparr>solver := s\<rparr>, []) = Inr (rm0, ch)"
    and c: "finish env lg0 rm0 sm0 ch = (lg, Inr (rm, sm, tab))"
    by (auto simp: relax_lc_body_def read_back_loop Let_def split: sum.splits)
  from finish_Inr [OF c] a b show ?thesis by (auto intro: that)
qed

lemma relax_lc_Inr:
  assumes "relax_lc env tm ign s = (lg, Inr (rm, sm, tab))"
  obtains sol ch where "lc_slack_model env tm ign s = Inr sm" "optimize env sm = Inr sol"
    "read_loop env LogConcentration NegSlackLC PosSlackLC ign sm sol (map m_id (metabolites tm))
       (tm\<lparr>solver := s\<rparr>, []) = Inr (rm, ch)"
    "set_columns (from_dict ch) report_columns = Inr tab"
proof -
  from assms obtain lg0 where "relax_lc_body env tm ign s lg0 = (lg, Inr (rm, sm, tab))"
    by (auto simp: relax_lc_def split: sum.splits)
  then show ?thesis by (rule relax_lc_body_Inr) (rule that)
qed

lemma for_each_invariant:
  "for_each body xs s = Inr s' \<Longrightarrow> I s \<Longrightarrow>
   (\<And>x s s'. x \<in> set xs \<Longrightarrow> I s \<Longrightarrow> body x s = Inr s' \<Longrightarrow> I s') \<Longrightarrow> I s'"
proof (induction xs arbitrary: s)
  case Nil
  then show ?case by simp
next
  case (Cons x xs)
  from Cons.prems(1) obtain s1 where s1: "body x s = Inr s1" "for_each body xs s1 = Inr s'"
    by (auto split: sum.splits)
  have i1: "I s1" using Cons.prems(3) [OF _ Cons.prems(2) s1(1)] by simp
  show ?case
  proof (rule Cons.IH [OF s1(2) i1])
    fix y t t'
    assume "y \<in> set xs" "I t" "body y t = Inr t'"
    then show "I t'" using Cons.prems(3) [of y t t'] by simp
  qed
qed

lemma set_put_variable: "set (put_variable v vs) \<subseteq> insert v (set vs)"
  by (induction vs) auto

lemma slack_lbs_nonneg_put:
  "list_all (\<lambda>v. is_slack_kind (v_kind v) \<longrightarrow> 0 \<le> v_lb v) vs \<Longrightarrow> 0 \<le> v_lb v \<Longrightarrow>
   list_all (\<lambda>v. is_slack_kind (v_kind v) \<longrightarrow> 0 \<le> v_lb v) (put_variable v vs)"
  using set_put_variable [of v vs] by (auto simp: list_all_iff)

lemma dgo_inject_step_nonneg:
  "dgo_inject_step env ign my_dgo c st = Inr st' \<Longrightarrow> slack_lbs_nonneg (fst st) \<Longrightarrow>
   slack_lbs_nonneg (fst st')"
  by (auto simp: dgo_inject_step_def slack_lbs_nonneg_def add_variable_def Let_def
        remove_constraint_def add_constraint_def
      intro!: slack_lbs_nonneg_put split: if_splits)

lemma dgo_slack_model_nonneg:
  assumes "dgo_slack_model env tm ign s = Inr sm" "slack_lbs_nonneg tm"
  shows "slack_lbs_nonneg sm"
proof -
  from assms(1) obtain sm1 obj where
    loop: "for_each (dgo_inject_step env ign (get_variables_of_type DeltaGstd (tm\<lparr>solver := s\<rparr>)))
             (get_constraints_of_type NegativeDeltaG (tm\<lparr>solver := s\<rparr>)) (tm\<lparr>solver := s\<rparr>, zero_expr)
           = Inr (sm1, obj)"
    and sm: "sm = (repair (set_objective sm1 obj))\<lparr>obj_direction := ''min''\<rparr>"
    by (auto simp: dgo_slack_model_def Let_def split: sum.splits)
  have "slack_lbs_nonneg (fst (sm1, obj))"
    using loop
  proof (rule for_each_invariant [where I = "\<lambda>st. slack_lbs_nonneg (fst st)"])
    show "slack_lbs_nonneg (fst (tm\<lparr>solver := s\<rparr>, zero_expr))"
      using assms(2) by (simp add: slack_lbs_nonneg_def)
  qed (rule dgo_inject_step_nonneg)
  then show ?thesis by (simp add: sm slack_lbs_nonneg_def repair_def set_objective_def)
qed

lemma lc_slack_step_nonneg:
  "lc_slack_step env ign v st = Inr st' \<Longrightarrow> slack_lbs_nonneg (fst st) \<Longrightarrow>
   slack_lbs_nonneg (fst st')"
  by (auto simp: lc_slack_step_def slack_lbs_nonneg_def add_variable_def Let_def
      intro!: slack_lbs_nonneg_put split: if_splits)

lemma lc_rewrite_step_variables:
  "lc_rewrite_step env cs ps ns c m = Inr m' \<Longrightarrow> variables m' = variables m"
  by (auto simp: lc_rewrite_step_def lc_rewrite_def Let_def remove_constraint_def add_constraint_def
      split: if_splits sum.splits)

lemma lc_slack_model_nonneg:
  assumes "lc_slack_model env tm ign s = Inr sm" "slack_lbs_nonneg tm"
  shows "slack_lbs_nonneg sm"
proof -
  from assms(1) obtain sm1 obj ps ns sm2 where
    loop1: "for_each (lc_slack_step env ign) (get_variables_of_type LogConcentration (tm\<lparr>solver := s\<rparr>))
             (tm\<lparr>solver := s\<rparr>, zero_expr, [], []) = Inr (sm1, obj, ps, ns)"
    and loop2: "for_each (lc_rewrite_step env (get_constraints_of_type NegativeDeltaG (tm\<lparr>solver := s\<rparr>)) ps ns)
             (get_constraints_of_type NegativeDeltaG (tm\<lparr>solver := s\<rparr>)) sm1 = Inr sm2"
    and sm: "sm = (repair (set_objective sm2 obj))\<lparr>obj_direction := ''min''\<rparr>"
    by (auto simp: lc_slack_model_def Let_def split: sum.splits)
  have "slack_lbs_nonneg (fst (sm1, obj, ps, ns))"
    using loop1
  proof (rule for_each_invariant [where I = "\<lambda>st. slack_lbs_nonneg (fst st)"])
    show "slack_lbs_nonneg (fst (tm\<lparr>solver := s\<rparr>, zero_expr, [], []))"
      using assms(2) by (simp add: slack_lbs_nonneg_def)
  qed (rule lc_slack_step_nonneg)
  then have 1: "slack_lbs_nonneg sm1" by simp
  have "variables sm2 = variables sm1"
    using loop2
    by (rule for_each_invariant [where I = "\<lambda>m. variables m = variables sm1"])
       (auto dest: lc_rewrite_step_variables)
  with 1 show ?thesis by (simp add: sm slack_lbs_nonneg_def repair_def set_objective_def)
qed

text \<open>A slack value read from a solution within the bounds is non-negative.\<close>

lemma slack_value_nonneg:
  assumes "within_bounds env sm sol" "slack_lbs_nonneg sm" "is_slack_kind k"
    "lookup_var k i (variables sm) \<noteq> None"
  shows "0 \<le> sol (name_of env k i)"
proof -
  from assms(4) obtain v where v: "lookup_var k i (variables sm) = Some v" by auto
  from lookup_var_SomeD [OF v] have kv: "v_kind v = k" "v_id v = i" "v \<in> set (variables sm)" by auto
  from assms(1) kv(3) have "v_lb v \<le> sol (v_name env v)" by (auto simp: within_bounds_def list_all_iff)
  moreover from assms(2,3) kv have "0 \<le> v_lb v" by (auto simp: slack_lbs_nonneg_def list_all_iff)
  ultimately show ?thesis using kv by (simp add: v_name_def)
qed


lemma read_loop_report:
  assumes loop: "read_loop env kind nk pk ign sm sol ids (m, []) = Inr (rm, ch)"
    and tab: "set_columns (from_dict ch) report_columns = Inr tab"
  shows "i \<in> set (df_index tab) \<longleftrightarrow>
           i \<in> set ids \<and> i \<notin> set ign \<and> lookup_var kind i (variables m) \<noteq> None \<and>
           positive_slack env nk pk sol i"
  using read_loop_keys [OF loop] from_dict_columns [OF tab] by auto

lemma read_loop_exact:
  assumes loop: "read_loop env kind nk pk ign sm sol ids (m, []) = Inr (rm, ch)"
    and tab: "set_columns (from_dict ch) report_columns = Inr tab"
    and dist: "distinct ids"
    and sk: "is_slack_kind nk" "is_slack_kind pk"
    and row: "i \<in> set (df_index tab)"
  shows "\<exists>old. lookup_var kind i (variables m) = Some old \<and>
           var_bounds kind i rm =
             Some (v_lb old - (sol (name_of env nk i) + EPSILON env),
                   v_ub old + (sol (name_of env pk i) + EPSILON env)) \<and>
           row_of tab i =
             Some [v_lb old, v_ub old, sol (name_of env nk i), sol (name_of env pk i),
                   v_lb old - (sol (name_of env nk i) + EPSILON env),
                   v_ub old + (sol (name_of env pk i) + EPSILON env)] \<and>
           (within_bounds env sm sol \<and> slack_lbs_nonneg sm \<longrightarrow>
              0 \<le> sol (name_of env nk i) \<and> 0 \<le> sol (name_of env pk i))"
proof -
  from row read_loop_report [OF loop tab, of i]
  have i: "i \<in> set ids" "i \<notin> set ign" "lookup_var kind i (variables m) \<noteq> None"
    "positive_slack env nk pk sol i" by auto
  then obtain old where old: "lookup_var kind i (variables m) = Some old" by auto
  from read_loop_slack_present [OF loop i(1,2,3)]
  have present: "lookup_var nk i (variables sm) \<noteq> None" "lookup_var pk i (variables sm) \<noteq> None"
    by auto
  have nonneg: "0 \<le> sol (name_of env nk i) \<and> 0 \<le> sol (name_of env pk i)"
    if "within_bounds env sm sol" "slack_lbs_nonneg sm"
    using slack_value_nonneg [OF that sk(1) present(1)] slack_value_nonneg [OF that sk(2) present(2)]
    by simp
  from read_loop_relaxed [OF loop dist i(1,2,4) old]
  have "lookup_var kind i (variables rm) =
          Some (widened env (sol (name_of env nk i)) (sol (name_of env pk i)) old)"
    and "map_of ch i = Some (report_row env (sol (name_of env nk i)) (sol (name_of env pk i)) old)"
    by auto
  then show ?thesis using old nonneg from_dict_row_of [OF tab, of i]
    by (simp add: var_bounds_def widened_def report_row_def)
qed

lemma read_loop_row_shape:
  assumes loop: "read_loop env kind nk pk ign sm sol ids (m, []) = Inr (rm, ch)"
    and tab: "set_columns (from_dict ch) report_columns = Inr tab"
    and row: "row_of tab i = Some r"
  shows "\<exists>lb_in ub_in lb_change ub_change.
           r = [lb_in, ub_in, lb_change, ub_change,
                lb_in - (lb_change + EPSILON env), ub_in + (ub_change + EPSILON env)]"
proof -
  let ?Q = "\<lambda>r. \<exists>lb_in ub_in lb_change ub_change.
           r = [lb_in, ub_in, lb_change, ub_change,
                lb_in - (lb_change + EPSILON env), ub_in + (ub_change + EPSILON env)]"
  have "\<forall>r \<in> set (map snd ch). ?Q r"
    by (rule read_loop_rows [OF loop]) (auto simp: report_row_def)
  moreover from row from_dict_row_of [OF tab, of i] have "r \<in> set (map snd ch)"
    by (auto dest: map_of_SomeD intro: rev_image_eqI)
  ultimately show ?thesis by blast
qed

lemma read_loop_ignored:
  assumes loop: "read_loop env kind nk pk ign sm sol ids (m, []) = Inr (rm, ch)"
    and tab: "set_columns (from_dict ch) report_columns = Inr tab"
    and e: "e \<in> set ign"
  shows "e \<notin> set (df_index tab) \<and> row_of tab e = None \<and>
         (\<forall>k. lookup_var k e (variables rm) = lookup_var k e (variables m))"
proof -
  have 1: "e \<notin> set (df_index tab)" using read_loop_report [OF loop tab, of e] e by simp
  then have "map_of ch e = None" using from_dict_columns [OF tab]
    by (simp add: map_of_eq_None_iff)
  then have 2: "row_of tab e = None" by (simp add: from_dict_row_of [OF tab])
  have "lookup_var k e (variables rm) = lookup_var k e (variables m)" for k
    using read_loop_lookup_other [OF loop, of k e] e by simp
  with 1 2 show ?thesis by simp
qed

lemma read_loop_index_order:
  assumes loop: "read_loop env kind nk pk ign sm sol ids (m, []) = Inr (rm, ch)"
    and tab: "set_columns (from_dict ch) report_columns = Inr tab"
  shows "subseq (df_index tab) ids \<and> distinct (df_index tab)"
  using read_loop_order [OF loop] read_loop_distinct [OF loop] from_dict_columns [OF tab]
  by auto

lemma read_loop_entities:
  assumes "read_loop env kind nk pk ign sm sol ids (m, ch) = Inr (rm, ch')"
  shows "reactions rm = reactions m" "metabolites rm = metabolites m"
proof -
  from read_loop_frame [OF assms] have "rm = m\<lparr>variables := variables rm\<rparr>" .
  then have "reactions rm = reactions (m\<lparr>variables := variables rm\<rparr>)"
    "metabolites rm = metabolites (m\<lparr>variables := variables rm\<rparr>)" by simp_all
  then show "reactions rm = reactions m" "metabolites rm = metabolites m" by simp_all
qed

section \<open>Lemmas on the probe, the guard of line 238 and the expressions\<close>

lemma probe_SolverError:
  "optimize env tm = Inl (SolverError se) \<Longrightarrow>
   probe env tm = Inr [LogError (SolverError se), LogWarning (''Solver status: '' @ status env tm)]"
  by (simp add: probe_def)

lemma lc_guard_false:
  "this_neg_dg \<in> set my_neg_dg \<Longrightarrow> contains_cid my_neg_dg (c_id this_neg_dg)"
  by (simp add: contains_cid_def)

lemma for_each_cong_set:
  "(\<And>x s. x \<in> set xs \<Longrightarrow> f x s = g x s) \<Longrightarrow> for_each f xs s = for_each g xs s"
  by (induction xs arbitrary: s) (auto split: sum.splits)

lemma coeff_add_expr: "coeff (add_expr a b) y = coeff a y + coeff b y"
  by (cases a; cases b) (simp add: coeff_def)

lemma coeff_scale_expr: "coeff (scale_expr k a) y = k * coeff a y"
proof (cases a)
  case (Expr c ts)
  have "sum_list (map fst (filter (\<lambda>t. snd t = y) (map (\<lambda>t. (k * fst t, snd t)) ts)))
        = k * sum_list (map fst (filter (\<lambda>t. snd t = y) ts))"
    by (induction ts) (auto simp: algebra_simps)
  then show ?thesis using Expr by (simp add: coeff_def)
qed

lemma coeff_var_expr: "coeff (var_expr n) y = (if y = n then 1 else 0)"
  by (simp add: coeff_def var_expr_def)

lemma coeff_sub_expr: "coeff (sub_expr a b) y = coeff a y - coeff b y"
  by (simp add: sub_expr_def coeff_add_expr coeff_scale_expr)

lemma e_const_simps:
  "e_const (add_expr a b) = e_const a + e_const b"
  "e_const (scale_expr k a) = k * e_const a"
  "e_const (var_expr n) = 0"
  "e_const (sub_expr a b) = e_const a - e_const b"
  by (cases a; cases b; simp add: var_expr_def sub_expr_def)+

lemma subs_identity: "subs e (map (\<lambda>k. (k, k)) ks) = e"
proof (cases e)
  case (Expr c ts)
  have "(case map_of (map (\<lambda>k. (k, k)) ks) n of Some n' \<Rightarrow> n' | None \<Rightarrow> n) = n" for n
    by (induction ks) auto
  then show ?thesis using Expr by (simp add: map_idI)
qed

lemma getitem_Inr: "getitem d k = Inr x \<longleftrightarrow> map_of d k = Some x"
  by (simp add: getitem_def split: option.splits)

lemma metabolites_get_by_id_Inr:
  "metabolites_get_by_id m i = Inr x \<Longrightarrow> m_id x = i"
  by (auto simp: metabolites_get_by_id_def find_Some_iff split: option.splits)

lemma lc_term_step_coeff:
  assumes "lc_term_step env sm ps ns c x e = Inr e'"
  shows "coeff e' y = coeff e y + slack_pair_coeff env (RT sm) (c_reaction c) ps ns x y"
    and "e_const e' = e_const e"
proof -
  show "coeff e' y = coeff e y + slack_pair_coeff env (RT sm) (c_reaction c) ps ns x y"
  proof (cases "x \<in> set (map fst ns)")
    case False
    then have "map_of ns x = None" by (simp add: map_of_eq_None_iff)
    with assms False show ?thesis by (simp add: lc_term_step_def slack_pair_coeff_def)
  next
    case True
    with assms obtain p met stoich n where
      p: "map_of ps x = Some p" and met: "metabolites_get_by_id sm (v_id p) = Inr met"
      and st: "map_of (r_metabolites (c_reaction c)) (m_id met) = Some stoich"
      and n: "map_of ns x = Some n"
      and e': "e' = add_expr e (scale_expr (RT sm * stoich)
                 (sub_expr (var_expr (v_name env p)) (var_expr (v_name env n))))"
      by (auto simp: lc_term_step_def getitem_Inr Let_def split: sum.splits)
    from metabolites_get_by_id_Inr [OF met] st
    have "stoichiometric_coefficient (c_reaction c) (v_id p) = stoich"
      by (simp add: stoichiometric_coefficient_def)
    then show ?thesis using p n
      by (simp add: e' slack_pair_coeff_def coeff_add_expr coeff_scale_expr coeff_sub_expr
            coeff_var_expr)
  qed
  show "e_const e' = e_const e"
    using assms
    by (auto simp: lc_term_step_def e_const_simps Let_def split: if_splits sum.splits)
qed

lemma lc_terms_coeff:
  "for_each (lc_term_step env sm ps ns c) xs e = Inr e' \<Longrightarrow>
   coeff e' y = coeff e y + (\<Sum>x\<leftarrow>xs. slack_pair_coeff env (RT sm) (c_reaction c) ps ns x y) \<and>
   e_const e' = e_const e"
proof (induction xs arbitrary: e)
  case Nil
  then show ?case by simp
next
  case (Cons x xs)
  from Cons.prems obtain e1 where
    e1: "lc_term_step env sm ps ns c x e = Inr e1"
    and rest: "for_each (lc_term_step env sm ps ns c) xs e1 = Inr e'"
    by (auto split: sum.splits)
  from Cons.IH [OF rest] lc_term_step_coeff [OF e1] show ?case by simp
qed

text \<open>A table whose columns could be named has a row: no run returns an empty report.\<close>

lemma returned_report_nonempty:
  "set_columns (from_dict ch) report_columns = Inr tab \<Longrightarrow> df_index tab \<noteq> []"
  by (cases ch) (auto simp: from_dict_empty dest: from_dict_columns)

lemma relax_dgo_report_nonempty:
  assumes "relax_dgo env tm ign s = (lg, Inr (rm, sm, tab))"
  shows "df_index tab \<noteq> []"
proof -
  from assms obtain ch where "set_columns (from_dict ch) report_columns = Inr tab"
    by (rule relax_dgo_Inr)
  then show ?thesis by (rule returned_report_nonempty)
qed

lemma relax_lc_report_nonempty:
  assumes "relax_lc env tm ign s = (lg, Inr (rm, sm, tab))"
  shows "df_index tab \<noteq> []"
proof -
  from assms obtain ch where "set_columns (from_dict ch) report_columns = Inr tab"
    by (rule relax_lc_Inr)
  then show ?thesis by (rule returned_report_nonempty)
qed

text \<open>
  Where the passes skip an entity, the state passes through unchanged and nothing is
  raised: both passes of \<^verbatim>\<open>relax_dgo\<close> and the read-back pass of \<^verbatim>\<open>relax_lc\<close> on the id,
  the injection pass of \<^verbatim>\<open>relax_lc\<close> on the name of the variable.
\<close>

lemma dgo_inject_step_skip:
  "c_id this_neg_dg \<in> set reactions_to_ignore \<or> \<not> contains_id my_dgo (c_id this_neg_dg) \<Longrightarrow>
   dgo_inject_step env reactions_to_ignore my_dgo this_neg_dg st = Inr st"
  by (simp add: dgo_inject_step_def)

lemma widen_step_skip:
  "this_id \<in> set to_ignore \<or>
     \<not> contains_id (get_variables_of_type kind (fst st)) this_id \<Longrightarrow>
   widen_step env kind to_ignore my_neg_slacks my_pos_slacks neg_slack_values pos_slack_values
     this_id st = Inr st"
  by (simp add: widen_step_def)

lemma lc_slack_step_skip:
  "v_name env this_lc \<in> set metabolites_to_ignore \<Longrightarrow>
   lc_slack_step env metabolites_to_ignore this_lc st = Inr st"
  by (simp add: lc_slack_step_def)

section \<open>Lemmas on the slack models\<close>

text \<open>The slack dictionaries that lines 218-233 leave.\<close>

lemma find_append_case:
  "find P (xs @ ys) = (case find P xs of None \<Rightarrow> find P ys | Some a \<Rightarrow> Some a)"
  by (induction xs) auto

lemma injected_Nil: "injected env ign [] x = None"
  by (simp add: injected_def)

lemma injected_Cons:
  "injected env ign (v # vs) x =
     (case injected env ign vs x of
        Some w \<Rightarrow> Some w
      | None \<Rightarrow> if v_name env v \<notin> set ign \<and> v_name env v = x then Some v else None)"
  by (auto simp: injected_def find_append_case split: option.splits)

lemma lc_slack_step_inject:
  "v_name env v \<notin> set ign \<Longrightarrow>
   lc_slack_step env ign v (m, obj, ps, ns) =
     Inr (m\<lparr>variables :=
              put_variable \<lparr>v_kind = PosSlackLC, v_id = v_id v, v_lb = 0, v_ub = BIGM_DG env\<rparr>
                (put_variable \<lparr>v_kind = NegSlackLC, v_id = v_id v, v_lb = 0, v_ub = BIGM_DG env\<rparr>
                   (variables m))\<rparr>,
          add_expr obj (add_expr (var_expr (name_of env NegSlackLC (v_id v)))
                                 (var_expr (name_of env PosSlackLC (v_id v)))),
          AList.update (v_name env v)
            \<lparr>v_kind = PosSlackLC, v_id = v_id v, v_lb = 0, v_ub = BIGM_DG env\<rparr> ps,
          AList.update (v_name env v)
            \<lparr>v_kind = NegSlackLC, v_id = v_id v, v_lb = 0, v_ub = BIGM_DG env\<rparr> ns)"
  by (simp add: lc_slack_step_def add_variable_def Let_def v_name_def)

lemma lc_slack_loop:
  "for_each (lc_slack_step env ign) vs (m, obj, ps, ns) = Inr (m', obj', ps', ns') \<Longrightarrow>
   constraints m' = constraints m \<and> RT m' = RT m \<and> metabolites m' = metabolites m \<and>
   (\<forall>x. map_of ns' x =
          (case injected env ign vs x of
             Some v \<Rightarrow> Some \<lparr>v_kind = NegSlackLC, v_id = v_id v, v_lb = 0, v_ub = BIGM_DG env\<rparr>
           | None \<Rightarrow> map_of ns x)) \<and>
   (\<forall>x. map_of ps' x =
          (case injected env ign vs x of
             Some v \<Rightarrow> Some \<lparr>v_kind = PosSlackLC, v_id = v_id v, v_lb = 0, v_ub = BIGM_DG env\<rparr>
           | None \<Rightarrow> map_of ps x))"
proof (induction vs arbitrary: m obj ps ns)
  case Nil
  then show ?case by (simp add: injected_Nil)
next
  case (Cons v vs)
  show ?case
  proof (cases "v_name env v \<in> set ign")
    case True
    with Cons.prems have "for_each (lc_slack_step env ign) vs (m, obj, ps, ns) = Inr (m', obj', ps', ns')"
      by (simp add: lc_slack_step_skip)
    from Cons.IH [OF this] True show ?thesis
      by (auto simp: injected_Cons split: option.splits)
  next
    case False
    let ?n = "\<lparr>v_kind = NegSlackLC, v_id = v_id v, v_lb = 0, v_ub = BIGM_DG env\<rparr>"
    let ?p = "\<lparr>v_kind = PosSlackLC, v_id = v_id v, v_lb = 0, v_ub = BIGM_DG env\<rparr>"
    from False Cons.prems obtain m1 obj1 where
      rest: "for_each (lc_slack_step env ign) vs
               (m1, obj1, AList.update (v_name env v) ?p ps, AList.update (v_name env v) ?n ns)
             = Inr (m', obj', ps', ns')"
      and m1: "m1 = m\<lparr>variables := put_variable ?p (put_variable ?n (variables m))\<rparr>"
      by (simp add: lc_slack_step_inject)
    from Cons.IH [OF rest] False m1 show ?thesis
      by (auto simp: injected_Cons AList.update_conv' split: option.splits)
  qed
qed

lemma slack_pair_lc_slack_coeff:
  assumes "map_of ns x =
             map_option (\<lambda>v. \<lparr>v_kind = NegSlackLC, v_id = v_id v, v_lb = 0, v_ub = BIGM_DG env\<rparr>)
               (injected env ign my_lc x)"
    and "map_of ps x =
             map_option (\<lambda>v. \<lparr>v_kind = PosSlackLC, v_id = v_id v, v_lb = 0, v_ub = BIGM_DG env\<rparr>)
               (injected env ign my_lc x)"
  shows "slack_pair_coeff env rt r ps ns x y = lc_slack_coeff env rt r ign my_lc x y"
  using assms
  by (cases "injected env ign my_lc x") (simp_all add: slack_pair_coeff_def lc_slack_coeff_def v_name_def)

text \<open>One pass of the loop of lines 235-267 on a constraint of \<^verbatim>\<open>my_neg_dg\<close>, then the loop.\<close>

lemma lc_rewrite_step_expression:
  assumes step: "lc_rewrite_step env my_neg_dg pos_slack neg_slack this_neg_dg slack_model
                  = Inr slack_model'"
    and mem: "this_neg_dg \<in> set my_neg_dg"
  obtains new_expr where
    "constraints slack_model' =
       filter (\<lambda>d. \<not> (c_kind d = c_kind this_neg_dg \<and> c_id d = c_id this_neg_dg))
         (constraints slack_model) @
       [\<lparr>c_kind = NegativeDeltaG, c_reaction = c_reaction this_neg_dg,
         c_expression = new_expr, c_lb = 0, c_ub = 0\<rparr>]"
    "RT slack_model' = RT slack_model"
    "e_const new_expr = e_const (c_expression this_neg_dg)"
    "\<And>y. coeff new_expr y =
           coeff (c_expression this_neg_dg) y +
           (\<Sum>x\<leftarrow>expr_variables (c_expression this_neg_dg).
               slack_pair_coeff env (RT slack_model) (c_reaction this_neg_dg)
                 pos_slack neg_slack x y)"
proof -
  from step mem have "lc_rewrite env pos_slack neg_slack this_neg_dg slack_model = Inr slack_model'"
    by (simp add: lc_rewrite_step_def lc_guard_false)
  then obtain new_expr where
    loop: "for_each (lc_term_step env slack_model pos_slack neg_slack this_neg_dg)
             (expr_variables (c_expression this_neg_dg)) (c_expression this_neg_dg) = Inr new_expr"
    and sm': "slack_model' = add_constraint NegativeDeltaG (c_reaction this_neg_dg) new_expr 0 0
                (remove_constraint this_neg_dg slack_model)"
    by (auto simp: lc_rewrite_def Let_def variables_get_def subs_identity split: sum.splits)
  show ?thesis
  proof (rule that [of new_expr])
    show "constraints slack_model' =
       filter (\<lambda>d. \<not> (c_kind d = c_kind this_neg_dg \<and> c_id d = c_id this_neg_dg))
         (constraints slack_model) @
       [\<lparr>c_kind = NegativeDeltaG, c_reaction = c_reaction this_neg_dg,
         c_expression = new_expr, c_lb = 0, c_ub = 0\<rparr>]"
      by (simp add: sm' add_constraint_def remove_constraint_def)
    show "RT slack_model' = RT slack_model"
      by (simp add: sm' add_constraint_def remove_constraint_def)
    show "e_const new_expr = e_const (c_expression this_neg_dg)"
      using lc_terms_coeff [OF loop] by simp
    show "coeff new_expr y =
           coeff (c_expression this_neg_dg) y +
           (\<Sum>x\<leftarrow>expr_variables (c_expression this_neg_dg).
               slack_pair_coeff env (RT slack_model) (c_reaction this_neg_dg)
                 pos_slack neg_slack x y)" for y
      using lc_terms_coeff [OF loop, of y] by simp
  qed
qed

lemma lc_rewrite_loop:
  assumes "for_each (lc_rewrite_step env my ps ns) xs m = Inr m'"
    and "set xs \<subseteq> set my"
    and "list_all (\<lambda>c. c_kind c = NegativeDeltaG) xs"
    and "distinct (map c_id xs)"
    and dict: "\<And>r x y. slack_pair_coeff env (RT m) r ps ns x y = lc_slack_coeff env (RT m) r ign my_lc x y"
  shows "\<exists>rebuilt.
           constraints m' =
             filter (\<lambda>d. \<not> (c_kind d = NegativeDeltaG \<and> c_id d \<in> set (map c_id xs))) (constraints m) @
             rebuilt \<and>
           list_all2 (rewritten env (RT m) ign my_lc) xs rebuilt"
  using assms
proof (induction xs arbitrary: m)
  case Nil
  then show ?case by simp
next
  case (Cons c xs)
  from Cons.prems(1) obtain m1 where
    step: "lc_rewrite_step env my ps ns c m = Inr m1"
    and rest: "for_each (lc_rewrite_step env my ps ns) xs m1 = Inr m'"
    by (auto split: sum.splits)
  from Cons.prems(2) have mem: "c \<in> set my" and sub: "set xs \<subseteq> set my" by simp_all
  from Cons.prems(3) have kind: "c_kind c = NegativeDeltaG"
    and kinds: "list_all (\<lambda>c. c_kind c = NegativeDeltaG) xs" by simp_all
  from Cons.prems(4) have fresh: "c_id c \<notin> set (map c_id xs)" and dist: "distinct (map c_id xs)"
    by simp_all
  from lc_rewrite_step_expression [OF step mem] obtain new_expr where
    cs1: "constraints m1 =
       filter (\<lambda>d. \<not> (c_kind d = c_kind c \<and> c_id d = c_id c)) (constraints m) @
       [\<lparr>c_kind = NegativeDeltaG, c_reaction = c_reaction c,
         c_expression = new_expr, c_lb = 0, c_ub = 0\<rparr>]"
    and rt: "RT m1 = RT m"
    and const: "e_const new_expr = e_const (c_expression c)"
    and co: "\<And>y. coeff new_expr y =
           coeff (c_expression c) y +
           (\<Sum>x\<leftarrow>expr_variables (c_expression c).
               slack_pair_coeff env (RT m) (c_reaction c) ps ns x y)"
    by blast
  let ?c' = "\<lparr>c_kind = NegativeDeltaG, c_reaction = c_reaction c,
         c_expression = new_expr, c_lb = 0, c_ub = 0\<rparr>"
  have rw: "rewritten env (RT m) ign my_lc c ?c'"
    by (simp add: rewritten_def const co Cons.prems(5))
  have dict1: "\<And>r x y. slack_pair_coeff env (RT m1) r ps ns x y = lc_slack_coeff env (RT m1) r ign my_lc x y"
    by (simp add: rt Cons.prems(5))
  from Cons.IH [OF rest sub kinds dist dict1] obtain rebuilt where
    cs': "constraints m' =
             filter (\<lambda>d. \<not> (c_kind d = NegativeDeltaG \<and> c_id d \<in> set (map c_id xs))) (constraints m1) @
             rebuilt"
    and all: "list_all2 (rewritten env (RT m) ign my_lc) xs rebuilt"
    unfolding rt by blast
  have keep: "\<not> (c_kind ?c' = NegativeDeltaG \<and> c_id ?c' \<in> set (map c_id xs))"
    using fresh by (simp add: c_id_def)
  have "constraints m' =
          filter (\<lambda>d. \<not> (c_kind d = NegativeDeltaG \<and> c_id d \<in> set (map c_id (c # xs)))) (constraints m) @
          (?c' # rebuilt)"
    unfolding cs' cs1 using keep kind
    by (auto intro!: filter_cong)
  moreover have "list_all2 (rewritten env (RT m) ign my_lc) (c # xs) (?c' # rebuilt)"
    using rw all by simp
  ultimately show ?case by blast
qed

lemma rewritten_all:
  "list_all2 (rewritten env rt ign my_lc) xs ys \<Longrightarrow>
   map c_reaction ys = map c_reaction xs \<and>
   list_all (\<lambda>c'. c_kind c' = NegativeDeltaG \<and> c_lb c' = 0 \<and> c_ub c' = 0) ys"
  by (induction rule: list_all2_induct) (simp_all add: rewritten_def)

text \<open>
  The constraints of the slack model of \<^verbatim>\<open>relax_lc\<close>: those of the input that are not
  of the kind \<^verbatim>\<open>NegativeDeltaG\<close>, then one rebuilt constraint for each one that is, in
  their order. Constraint ids are distinct in the container of the model.
\<close>

lemma lc_slack_model_constraints:
  assumes sm: "lc_slack_model env tm ign s = Inr sm"
    and dist: "distinct (map c_id (get_constraints_of_type NegativeDeltaG tm))"
  obtains rebuilt where
    "constraints sm = filter (\<lambda>d. c_kind d \<noteq> NegativeDeltaG) (constraints tm) @ rebuilt"
    "list_all2
       (rewritten env (RT tm) ign (get_variables_of_type LogConcentration tm))
       (get_constraints_of_type NegativeDeltaG tm) rebuilt"
proof -
  let ?my_lc = "get_variables_of_type LogConcentration tm"
  let ?my = "get_constraints_of_type NegativeDeltaG tm"
  have lc: "get_variables_of_type LogConcentration (tm\<lparr>solver := s\<rparr>) = ?my_lc"
    and my: "get_constraints_of_type NegativeDeltaG (tm\<lparr>solver := s\<rparr>) = ?my"
    by (simp_all add: get_variables_of_type_def get_constraints_of_type_def)
  from sm obtain sm1 obj ps ns sm2 where
    loop1: "for_each (lc_slack_step env ign) ?my_lc (tm\<lparr>solver := s\<rparr>, zero_expr, [], [])
              = Inr (sm1, obj, ps, ns)"
    and loop2: "for_each (lc_rewrite_step env ?my ps ns) ?my sm1 = Inr sm2"
    and sm_eq: "sm = (repair (set_objective sm2 obj))\<lparr>obj_direction := ''min''\<rparr>"
    unfolding lc_slack_model_def Let_def lc my by (auto split: sum.splits)
  from lc_slack_loop [OF loop1] have
    cs1: "constraints sm1 = constraints tm" and rt1: "RT sm1 = RT tm"
    and ns: "\<And>x. map_of ns x =
          map_option (\<lambda>v. \<lparr>v_kind = NegSlackLC, v_id = v_id v, v_lb = 0, v_ub = BIGM_DG env\<rparr>)
            (injected env ign ?my_lc x)"
    and ps: "\<And>x. map_of ps x =
          map_option (\<lambda>v. \<lparr>v_kind = PosSlackLC, v_id = v_id v, v_lb = 0, v_ub = BIGM_DG env\<rparr>)
            (injected env ign ?my_lc x)"
    by (auto split: option.splits)
  have dict: "\<And>r x y. slack_pair_coeff env (RT sm1) r ps ns x y
                = lc_slack_coeff env (RT sm1) r ign ?my_lc x y"
    by (rule slack_pair_lc_slack_coeff [OF ns ps])
  have kinds: "list_all (\<lambda>c. c_kind c = NegativeDeltaG) ?my"
    by (simp add: get_constraints_of_type_def list_all_iff)
  from lc_rewrite_loop [OF loop2 subset_refl kinds dist dict] obtain rebuilt where
    cs2: "constraints sm2 =
            filter (\<lambda>d. \<not> (c_kind d = NegativeDeltaG \<and> c_id d \<in> set (map c_id ?my))) (constraints sm1) @
            rebuilt"
    and all: "list_all2 (rewritten env (RT tm) ign ?my_lc) ?my rebuilt"
    unfolding rt1 by blast
  have "filter (\<lambda>d. \<not> (c_kind d = NegativeDeltaG \<and> c_id d \<in> set (map c_id ?my))) (constraints tm)
          = filter (\<lambda>d. c_kind d \<noteq> NegativeDeltaG) (constraints tm)"
    by (rule filter_cong) (auto simp: get_constraints_of_type_def)
  with cs2 cs1 have "constraints sm = filter (\<lambda>d. c_kind d \<noteq> NegativeDeltaG) (constraints tm) @ rebuilt"
    by (simp add: sm_eq repair_def set_objective_def)
  then show ?thesis using all by (rule that)
qed

text \<open>The test of lines 238-239 changes nothing in the slack model.\<close>

lemma lc_slack_model_unguarded_eq:
  "lc_slack_model env tm ign s = lc_slack_model_unguarded env tm ign s"
proof -
  have *: "for_each (lc_rewrite_step env my ps ns) my m = for_each (lc_rewrite env ps ns) my m"
    for my ps ns m
    by (rule for_each_cong_set) (simp add: lc_rewrite_step_def lc_guard_false)
  show ?thesis
    unfolding lc_slack_model_def lc_slack_model_unguarded_def Let_def * ..
qed

text \<open>
  The slack variables of the slack model of \<^verbatim>\<open>relax_dgo\<close> that the input did not hold
  come from a constraint of a reaction that is not excluded and has its variable.
\<close>

lemma dgo_inject_step_origin:
  assumes step: "dgo_inject_step env ign my_dgo c st = Inr st'"
    and new: "lookup_var k i (variables (fst st')) \<noteq> None"
    and k: "k = NegSlackVariable \<or> k = PosSlackVariable"
  shows "lookup_var k i (variables (fst st)) \<noteq> None \<or>
         (i = c_id c \<and> i \<notin> set ign \<and> contains_id my_dgo i)"
proof (cases "c_id c \<in> set ign \<or> \<not> contains_id my_dgo (c_id c)")
  case True
  with step new show ?thesis by (simp add: dgo_inject_step_skip)
next
  case False
  with step have "variables (fst st') =
      put_variable \<lparr>v_kind = PosSlackVariable, v_id = c_id c, v_lb = 0, v_ub = BIGM_DG env\<rparr>
        (put_variable \<lparr>v_kind = NegSlackVariable, v_id = c_id c, v_lb = 0, v_ub = BIGM_DG env\<rparr>
           (variables (fst st)))"
    by (auto simp: dgo_inject_step_def add_variable_def Let_def remove_constraint_def
        add_constraint_def c_id_def)
  with new False show ?thesis
    by (auto simp: lookup_var_put split: if_splits)
qed

lemma dgo_slack_model_origin:
  assumes sm: "dgo_slack_model env tm ign s = Inr sm"
    and new: "lookup_var k i (variables sm) \<noteq> None"
    and k: "k = NegSlackVariable \<or> k = PosSlackVariable"
  shows "lookup_var k i (variables tm) \<noteq> None \<or>
         (i \<in> set (map c_id (get_constraints_of_type NegativeDeltaG tm)) \<and> i \<notin> set ign \<and>
          lookup_var DeltaGstd i (variables tm) \<noteq> None)"
proof -
  let ?my = "get_constraints_of_type NegativeDeltaG tm"
  let ?dgo = "get_variables_of_type DeltaGstd tm"
  let ?I = "\<lambda>st. lookup_var k i (variables (fst st)) \<noteq> None \<longrightarrow>
               lookup_var k i (variables tm) \<noteq> None \<or>
               (i \<in> set (map c_id ?my) \<and> i \<notin> set ign \<and> contains_id ?dgo i)"
  have views: "get_variables_of_type DeltaGstd (tm\<lparr>solver := s\<rparr>) = ?dgo"
    "get_constraints_of_type NegativeDeltaG (tm\<lparr>solver := s\<rparr>) = ?my"
    by (simp_all add: get_variables_of_type_def get_constraints_of_type_def)
  from sm obtain sm1 obj where
    loop: "for_each (dgo_inject_step env ign ?dgo) ?my (tm\<lparr>solver := s\<rparr>, zero_expr) = Inr (sm1, obj)"
    and sm_eq: "sm = (repair (set_objective sm1 obj))\<lparr>obj_direction := ''min''\<rparr>"
    unfolding dgo_slack_model_def Let_def views by (auto split: sum.splits)
  have "?I (sm1, obj)"
    using loop
  proof (rule for_each_invariant [where I = ?I])
    show "?I (tm\<lparr>solver := s\<rparr>, zero_expr)" by simp
  next
    fix c st st'
    assume c: "c \<in> set ?my" and inv: "?I st"
      and step: "dgo_inject_step env ign ?dgo c st = Inr st'"
    show "?I st'"
    proof
      assume "lookup_var k i (variables (fst st')) \<noteq> None"
      from dgo_inject_step_origin [OF step this k] inv c
      show "lookup_var k i (variables tm) \<noteq> None \<or>
               (i \<in> set (map c_id ?my) \<and> i \<notin> set ign \<and> contains_id ?dgo i)"
        by auto
    qed
  qed
  with new show ?thesis
    by (simp add: sm_eq repair_def set_objective_def contains_id_lookup)
qed

text \<open>
  In \<^verbatim>\<open>relax_dgo\<close>, on a model that holds no slack variable yet and whose constraints
  belong to reactions of the model, an entity has a row exactly when it has slack
  variables in the slack model and one of their two values is strictly positive.
\<close>

lemma relax_dgo_row_iff_positive_slack:
  assumes run: "relax_dgo env tm ign s = (lg, Inr (rm, sm, tab))"
    and fresh: "list_all (\<lambda>v. \<not> is_slack_kind (v_kind v)) (variables tm)"
    and owned: "list_all (\<lambda>c. c_id c \<in> set (map r_id (reactions tm)))
                  (get_constraints_of_type NegativeDeltaG tm)"
  obtains relaxation where "optimize env sm = Inr relaxation"
    "\<And>i. i \<in> set (df_index tab) \<longleftrightarrow>
           lookup_var NegSlackVariable i (variables sm) \<noteq> None \<and>
           lookup_var PosSlackVariable i (variables sm) \<noteq> None \<and>
           (0 < relaxation (name_of env NegSlackVariable i) \<or>
            0 < relaxation (name_of env PosSlackVariable i))"
proof -
  from run obtain sol ch where
    sm: "dgo_slack_model env tm ign s = Inr sm"
    and sol: "optimize env sm = Inr sol"
    and loop: "read_loop env DeltaGstd NegSlackVariable PosSlackVariable ign sm sol
             (map r_id (reactions tm)) (tm\<lparr>solver := s\<rparr>, []) = Inr (rm, ch)"
    and tab: "set_columns (from_dict ch) report_columns = Inr tab"
    by (rule relax_dgo_Inr)
  have none: "lookup_var NegSlackVariable i (variables tm) = None" for i
    using fresh by (auto simp: lookup_var_def find_None_iff list_all_iff is_slack_kind_def)
  have row: "i \<in> set (df_index tab) \<longleftrightarrow>
           i \<in> set (map r_id (reactions tm)) \<and> i \<notin> set ign \<and>
           lookup_var DeltaGstd i (variables tm) \<noteq> None \<and>
           (0 < sol (name_of env NegSlackVariable i) \<or> 0 < sol (name_of env PosSlackVariable i))" for i
    using read_loop_report [OF loop tab, of i] by (simp add: positive_slack_def)
  have "i \<in> set (df_index tab) \<longleftrightarrow>
           lookup_var NegSlackVariable i (variables sm) \<noteq> None \<and>
           lookup_var PosSlackVariable i (variables sm) \<noteq> None \<and>
           (0 < sol (name_of env NegSlackVariable i) \<or> 0 < sol (name_of env PosSlackVariable i))" for i
  proof
    assume i: "i \<in> set (df_index tab)"
    with row [of i] have "i \<in> set (map r_id (reactions tm))" "i \<notin> set ign"
      "lookup_var DeltaGstd i (variables (tm\<lparr>solver := s\<rparr>)) \<noteq> None" by simp_all
    from read_loop_slack_present [OF loop this] i row [of i]
    show "lookup_var NegSlackVariable i (variables sm) \<noteq> None \<and>
           lookup_var PosSlackVariable i (variables sm) \<noteq> None \<and>
           (0 < sol (name_of env NegSlackVariable i) \<or> 0 < sol (name_of env PosSlackVariable i))"
      by simp
  next
    assume a: "lookup_var NegSlackVariable i (variables sm) \<noteq> None \<and>
           lookup_var PosSlackVariable i (variables sm) \<noteq> None \<and>
           (0 < sol (name_of env NegSlackVariable i) \<or> 0 < sol (name_of env PosSlackVariable i))"
    then have "lookup_var NegSlackVariable i (variables sm) \<noteq> None" by simp
    from dgo_slack_model_origin [OF sm this] none [of i]
    have o: "i \<in> set (map c_id (get_constraints_of_type NegativeDeltaG tm))" "i \<notin> set ign"
      "lookup_var DeltaGstd i (variables tm) \<noteq> None" by simp_all
    from o(1) owned have "i \<in> set (map r_id (reactions tm))"
      by (auto simp: list_all_iff)
    with o a row [of i] show "i \<in> set (df_index tab)" by simp
  qed
  with sol show ?thesis by (rule that)
qed

text \<open>
  What decides a row, in both procedures: the read-back pass reads slack values for the
  entity (it is in the entity list, not in the ignore set, and has its thermodynamic
  variable) and at least one of the two values is strictly positive. The columns are
  \<open>lb_in\<close>, \<open>ub_in\<close>, \<open>lb_change\<close>, \<open>ub_change\<close>, \<open>lb_out\<close>, \<open>ub_out\<close>, in this order.
\<close>

lemma report_row_decided:
  "(relax_dgo env tm to_ignore solver_name = (lg, Inr (relaxed_model, slack_model, relax_table)) \<longrightarrow>
      df_columns relax_table =
        [Name ''lb_in'', Name ''ub_in'', Name ''lb_change'', Name ''ub_change'',
         Name ''lb_out'', Name ''ub_out''] \<and>
      (\<exists>relaxation. optimize env slack_model = Inr relaxation \<and>
         (\<forall>i. i \<in> set (df_index relax_table) \<longleftrightarrow>
            i \<in> set (map r_id (reactions tm)) \<and> i \<notin> set to_ignore \<and>
            lookup_var DeltaGstd i (variables tm) \<noteq> None \<and>
            (0 < relaxation (name_of env NegSlackVariable i) \<or>
             0 < relaxation (name_of env PosSlackVariable i))))) \<and>
   (relax_lc env tm to_ignore solver_name = (lg, Inr (relaxed_model, slack_model, relax_table)) \<longrightarrow>
      df_columns relax_table =
        [Name ''lb_in'', Name ''ub_in'', Name ''lb_change'', Name ''ub_change'',
         Name ''lb_out'', Name ''ub_out''] \<and>
      (\<exists>relaxation. optimize env slack_model = Inr relaxation \<and>
         (\<forall>i. i \<in> set (df_index relax_table) \<longleftrightarrow>
            i \<in> set (map m_id (metabolites tm)) \<and> i \<notin> set to_ignore \<and>
            lookup_var LogConcentration i (variables tm) \<noteq> None \<and>
            (0 < relaxation (name_of env NegSlackLC i) \<or>
             0 < relaxation (name_of env PosSlackLC i)))))"
proof (intro conjI impI)
  assume run: "relax_dgo env tm to_ignore solver_name = (lg, Inr (relaxed_model, slack_model, relax_table))"
  from run obtain sol ch where
    sol: "optimize env slack_model = Inr sol"
    and loop: "read_loop env DeltaGstd NegSlackVariable PosSlackVariable to_ignore slack_model sol
             (map r_id (reactions tm)) (tm\<lparr>solver := solver_name\<rparr>, []) = Inr (relaxed_model, ch)"
    and tab: "set_columns (from_dict ch) report_columns = Inr relax_table"
    by (rule relax_dgo_Inr)
  show "df_columns relax_table =
        [Name ''lb_in'', Name ''ub_in'', Name ''lb_change'', Name ''ub_change'',
         Name ''lb_out'', Name ''ub_out'']"
    using from_dict_columns [OF tab] by (simp add: report_columns_def)
  have "\<forall>i. i \<in> set (df_index relax_table) \<longleftrightarrow>
            i \<in> set (map r_id (reactions tm)) \<and> i \<notin> set to_ignore \<and>
            lookup_var DeltaGstd i (variables tm) \<noteq> None \<and>
            (0 < sol (name_of env NegSlackVariable i) \<or> 0 < sol (name_of env PosSlackVariable i))"
    using read_loop_report [OF loop tab] by (simp add: positive_slack_def)
  with sol show "\<exists>relaxation. optimize env slack_model = Inr relaxation \<and>
         (\<forall>i. i \<in> set (df_index relax_table) \<longleftrightarrow>
            i \<in> set (map r_id (reactions tm)) \<and> i \<notin> set to_ignore \<and>
            lookup_var DeltaGstd i (variables tm) \<noteq> None \<and>
            (0 < relaxation (name_of env NegSlackVariable i) \<or>
             0 < relaxation (name_of env PosSlackVariable i)))" by blast
next
  assume run: "relax_lc env tm to_ignore solver_name = (lg, Inr (relaxed_model, slack_model, relax_table))"
  from run obtain sol ch where
    sol: "optimize env slack_model = Inr sol"
    and loop: "read_loop env LogConcentration NegSlackLC PosSlackLC to_ignore slack_model sol
             (map m_id (metabolites tm)) (tm\<lparr>solver := solver_name\<rparr>, []) = Inr (relaxed_model, ch)"
    and tab: "set_columns (from_dict ch) report_columns = Inr relax_table"
    by (rule relax_lc_Inr)
  show "df_columns relax_table =
        [Name ''lb_in'', Name ''ub_in'', Name ''lb_change'', Name ''ub_change'',
         Name ''lb_out'', Name ''ub_out'']"
    using from_dict_columns [OF tab] by (simp add: report_columns_def)
  have "\<forall>i. i \<in> set (df_index relax_table) \<longleftrightarrow>
            i \<in> set (map m_id (metabolites tm)) \<and> i \<notin> set to_ignore \<and>
            lookup_var LogConcentration i (variables tm) \<noteq> None \<and>
            (0 < sol (name_of env NegSlackLC i) \<or> 0 < sol (name_of env PosSlackLC i))"
    using read_loop_report [OF loop tab] by (simp add: positive_slack_def)
  with sol show "\<exists>relaxation. optimize env slack_model = Inr relaxation \<and>
         (\<forall>i. i \<in> set (df_index relax_table) \<longleftrightarrow>
            i \<in> set (map m_id (metabolites tm)) \<and> i \<notin> set to_ignore \<and>
            lookup_var LogConcentration i (variables tm) \<noteq> None \<and>
            (0 < relaxation (name_of env NegSlackLC i) \<or>
             0 < relaxation (name_of env PosSlackLC i)))" by blast
qed

section \<open>Running the procedures on the model\<close>

text \<open>The definitions unfolded to evaluate a run.\<close>

lemma contains_id_simps:
  "contains_id [] i = False" "contains_id (v # vs) i = (v_id v = i \<or> contains_id vs i)"
  by (auto simp: contains_id_def)

lemma contains_cid_simps:
  "contains_cid [] i = False" "contains_cid (c # cs) i = (c_id c = i \<or> contains_cid cs i)"
  by (auto simp: contains_cid_def)

lemmas model_defs = contains_id_simps contains_cid_simps
  zero_expr_def var_expr_def sub_expr_def coeff_def expr_variables_def c_id_def v_name_def
  get_variables_of_type_def get_constraints_of_type_def get_by_id_def
  add_variable_def remove_constraint_def add_constraint_def set_objective_def repair_def
  variables_get_def get_solution_value_for_variables_def getitem_def from_dict_def
  set_columns_def report_columns_def row_of_def probe_def widen_step_def read_back_def finish_def
  dgo_inject_step_def dgo_slack_model_def relax_dgo_body_def relax_dgo_def
  metabolites_get_by_id_def lc_slack_step_def lc_term_step_def lc_rewrite_def
  lc_rewrite_step_def lc_slack_model_def relax_lc_body_def relax_lc_def

lemmas ex_defs =
  ex_name_of_def ex_R1_def ex_R2_def ex_variables_def ex_C1_def ex_C2_def ex_model_def ex_sol_def
  ex_optimize_def ex_status_def ex_env_def


lemmas ex_run_defs = ex_dgo_table_def ex_dgo_relaxed_def ex_dgo_slack_def ex_probe_log_def
  ex_lc_table_def ex_lc_relaxed_def ex_lc_slack_def

lemma ex_dgo_run:
  "relax_dgo ex_env ex_model [''R2''] ''optlang-glpk'' =
     (ex_probe_log @ [LogInfo ex_dgo_table], Inr (ex_dgo_relaxed, ex_dgo_slack, ex_dgo_table))"
  by (simp add: model_defs ex_defs ex_run_defs Let_def)

lemma ex_lc_run:
  "relax_lc ex_env ex_model [''M1''] ''optlang-glpk'' =
     (ex_probe_log @ [LogInfo ex_lc_table], Inr (ex_lc_relaxed, ex_lc_slack, ex_lc_table))"
  by (simp add: model_defs ex_defs ex_run_defs Let_def)

lemma ex_dgo_hyps:
  "optimize ex_env ex_dgo_slack = Inr ex_sol" "within_bounds ex_env ex_dgo_slack ex_sol"
  "slack_lbs_nonneg ex_model" "distinct (map r_id (reactions ex_model))"
  "distinct (map m_id (metabolites ex_model))"
  "optimize ex_env ex_lc_slack = Inr ex_sol" "within_bounds ex_env ex_lc_slack ex_sol"
        apply (simp add: ex_defs ex_run_defs)
       apply (simp add: within_bounds_def v_name_def ex_defs ex_run_defs)
      apply (simp add: slack_lbs_nonneg_def is_slack_kind_def ex_defs)
     apply (simp add: ex_defs)
    apply (simp add: ex_defs)
   apply (simp add: ex_defs ex_run_defs)
  apply (simp add: within_bounds_def v_name_def ex_defs ex_run_defs)
  done

lemma ex_names:
  "name_of ex_env NegSlackVariable i = ''NegSlack_'' @ i"
  "name_of ex_env PosSlackVariable i = ''PosSlack_'' @ i"
  "name_of ex_env NegSlackLC i = ''NegSlackLC_'' @ i"
  "name_of ex_env PosSlackLC i = ''PosSlackLC_'' @ i"
  "name_of ex_env LogConcentration i = ''LC_'' @ i"
  "name_of ex_env DeltaGstd i = ''DGo_'' @ i"
  "EPSILON ex_env = 1 / 1000000" "BIGM_DG ex_env = 1000" "optimize ex_env = ex_optimize"
  by (simp_all add: ex_env_def ex_name_of_def)

lemma ex_slack_solves:
  "optimize ex_env ex_dgo_slack = Inr ex_sol" "optimize ex_env ex_lc_slack = Inr ex_sol"
  by (simp_all add: ex_names ex_optimize_def ex_dgo_slack_def ex_lc_slack_def ex_model_def)

lemmas ex_env_defs = ex_failing_optimize_def ex_env_failing_def ex_min_only_optimize_def
  ex_env_min_only_def ex_failing_log_def ex_dgo_changes_def ex_lc_changes_def

lemma ex_probe: "optimize ex_env ex_model = Inl (SolverError ''infeasible'')"
  "ex_probe_log = [LogError (SolverError ''infeasible''),
                   LogWarning (''Solver status: '' @ status ex_env ex_model)]"
  by (simp_all add: ex_defs ex_run_defs)

lemma ex_failing:
  "probe ex_env_failing ex_model = Inr ex_failing_log"
  "dgo_slack_model ex_env_failing ex_model [''R2''] ''optlang-glpk'' = Inr ex_dgo_slack"
  "optimize ex_env_failing ex_dgo_slack = Inl (SolverError ''no solution'')"
  "lc_slack_model ex_env_failing ex_model [''M1''] ''optlang-glpk'' = Inr ex_lc_slack"
  "optimize ex_env_failing ex_lc_slack = Inl (SolverError ''no solution'')"
  by (simp_all add: model_defs ex_defs ex_run_defs ex_env_defs Let_def)

lemma ex_min_only:
  "probe ex_env_min_only ex_model = Inr ex_probe_log"
  "dgo_slack_model ex_env_min_only ex_model [''R2''] ''optlang-glpk'' = Inr ex_dgo_slack"
  "optimize ex_env_min_only ex_dgo_slack = Inr ex_sol"
  "read_back ex_env_min_only DeltaGstd NegSlackVariable PosSlackVariable [''R2''] ex_dgo_slack ex_sol
     (map r_id (reactions ex_model)) (ex_model\<lparr>solver := ''optlang-glpk''\<rparr>)
   = Inr (ex_dgo_relaxed, ex_dgo_changes)"
  "optimize ex_env_min_only ex_dgo_relaxed = Inl (SolverError ''infeasible'')"
  "lc_slack_model ex_env_min_only ex_model [''M1''] ''optlang-glpk'' = Inr ex_lc_slack"
  "optimize ex_env_min_only ex_lc_slack = Inr ex_sol"
  "read_back ex_env_min_only LogConcentration NegSlackLC PosSlackLC [''M1''] ex_lc_slack ex_sol
     (map m_id (metabolites ex_model)) (ex_model\<lparr>solver := ''optlang-glpk''\<rparr>)
   = Inr (ex_lc_relaxed, ex_lc_changes)"
  "optimize ex_env_min_only ex_lc_relaxed = Inl (SolverError ''infeasible'')"
  by (simp_all add: model_defs ex_defs ex_run_defs ex_env_defs Let_def)

lemmas ex_lc_defs = ex_neg_slack_def ex_pos_slack_def ex_new_expr_def ex_rewritten_def
  ex_zero_sol_def ex_feasible_optimize_def ex_env_feasible_def

lemma ex_rewrite_step:
  "lc_rewrite_step ex_env [ex_C1, ex_C2] ex_pos_slack ex_neg_slack ex_C2 ex_model = Inr ex_rewritten"
  by (simp add: model_defs ex_defs ex_lc_defs Let_def)

text \<open>The dictionaries are those that lines 218-233 build on the model.\<close>

lemma ex_dicts:
  "for_each (lc_slack_step ex_env []) (get_variables_of_type LogConcentration ex_model)
     (ex_model, zero_expr, [], []) =
   Inr (ex_lc_slack\<lparr>constraints := [ex_C1, ex_C2], obj_expression := Expr 0 [],
          obj_direction := ''max''\<rparr>,
        Expr 0 [(1, ''NegSlackLC_M1''), (1, ''PosSlackLC_M1''),
                (1, ''NegSlackLC_M2''), (1, ''PosSlackLC_M2'')],
        ex_pos_slack, ex_neg_slack)"
  by (simp add: model_defs ex_defs ex_lc_defs ex_run_defs Let_def)

text \<open>The slack model of the run of \<^verbatim>\<open>relax_lc\<close>, and the constraints before and after.\<close>

lemma ex_lc_slack_model:
  "lc_slack_model ex_env ex_model [''M1''] ''optlang-glpk'' = Inr ex_lc_slack"
  using ex_lc_run by (rule relax_lc_Inr)

lemma ex_constraints:
  "get_constraints_of_type NegativeDeltaG ex_model = [ex_C1, ex_C2]"
  "get_constraints_of_type NegativeDeltaG (ex_model\<lparr>solver := ''optlang-glpk''\<rparr>) = [ex_C1, ex_C2]"
  "distinct (map c_id (get_constraints_of_type NegativeDeltaG ex_model))"
  "filter (\<lambda>d. c_kind d \<noteq> NegativeDeltaG) (constraints ex_model) = []"
  "constraints ex_lc_slack =
     [ex_C1\<lparr>c_expression :=
        Expr 0 [(- 1, ''DGo_R1''), (2, ''LC_M1''), (- 2, ''LC_M2''),
                (- 2, ''PosSlackLC_M1''), (2, ''NegSlackLC_M1''),
                (2, ''PosSlackLC_M2''), (- 2, ''NegSlackLC_M2'')]\<rparr>,
      ex_C2\<lparr>c_expression := ex_new_expr\<rparr>]"
  by (simp_all add: get_constraints_of_type_def c_id_def ex_model_def ex_C1_def ex_C2_def
      ex_R1_def ex_R2_def ex_lc_slack_def ex_new_expr_def)

text \<open>The run of \<^verbatim>\<open>relax_dgo\<close> with the solver that leaves the bounds of the slacks.\<close>

lemma ex_negative_run:
  "relax_dgo ex_env_negative ex_model [''R2''] ''optlang-glpk'' =
     ([LogInfo
         \<lparr>df_index = [''R1''],
          df_columns = [Name ''lb_in'', Name ''ub_in'', Name ''lb_change'', Name ''ub_change'',
                        Name ''lb_out'', Name ''ub_out''],
          df_rows = [[- 50, 50, - (1 / 2), 2, - (49500001 / 1000000), 52000001 / 1000000]]\<rparr>],
      Inr (ex_model\<lparr>variables :=
             [\<lparr>v_kind = DeltaGstd, v_id = ''R1'', v_lb = - (49500001 / 1000000),
               v_ub = 52000001 / 1000000\<rparr>,
              \<lparr>v_kind = DeltaGstd, v_id = ''R2'', v_lb = - 10, v_ub = 10\<rparr>,
              \<lparr>v_kind = LogConcentration, v_id = ''M1'', v_lb = - 5, v_ub = 5\<rparr>,
              \<lparr>v_kind = LogConcentration, v_id = ''M2'', v_lb = - 5, v_ub = 5\<rparr>]\<rparr>,
           ex_dgo_slack,
           \<lparr>df_index = [''R1''],
            df_columns = [Name ''lb_in'', Name ''ub_in'', Name ''lb_change'', Name ''ub_change'',
                          Name ''lb_out'', Name ''ub_out''],
            df_rows = [[- 50, 50, - (1 / 2), 2, - (49500001 / 1000000), 52000001 / 1000000]]\<rparr>))"
  by (simp add: model_defs ex_defs ex_run_defs ex_neg_sol_def ex_negative_optimize_def
      ex_env_negative_def Let_def)

text \<open>The run of \<^verbatim>\<open>relax_lc\<close> with nothing excluded.\<close>

lemma ex_lc_run_all:
  "relax_lc ex_env ex_model [] ''optlang-glpk'' =
     (ex_probe_log @ [LogInfo ex_lc_table_all],
      Inr (ex_lc_relaxed_all, ex_lc_slack, ex_lc_table_all))"
  by (simp add: model_defs ex_defs ex_run_defs ex_lc_table_all_def ex_lc_relaxed_all_def Let_def)

section \<open>Properties of the relaxation procedures\<close>

text \<open>
  C10. The rows of the returned report come in the order of the entity list of the
  relaxed model: the index of the table of \<^verbatim>\<open>relax_dgo\<close> is a subsequence of the ids of
  \<^verbatim>\<open>relaxed_model.reactions\<close>, the index of the table of \<^verbatim>\<open>relax_lc\<close> a subsequence of
  the ids of \<^verbatim>\<open>relaxed_model.metabolites\<close>, and no entity has two rows.
\<close>

theorem report_rows_in_entity_order:
  "(relax_dgo env tm to_ignore solver_name = (lg, Inr (relaxed_model, slack_model, relax_table)) \<longrightarrow>
      subseq (df_index relax_table) (map r_id (reactions relaxed_model)) \<and>
      distinct (df_index relax_table)) \<and>
   (relax_lc env tm to_ignore solver_name = (lg, Inr (relaxed_model, slack_model, relax_table)) \<longrightarrow>
      subseq (df_index relax_table) (map m_id (metabolites relaxed_model)) \<and>
      distinct (df_index relax_table))"
proof (intro conjI impI)
  assume run: "relax_dgo env tm to_ignore solver_name = (lg, Inr (relaxed_model, slack_model, relax_table))"
  from run obtain sol ch where
    loop: "read_loop env DeltaGstd NegSlackVariable PosSlackVariable to_ignore slack_model sol
             (map r_id (reactions tm)) (tm\<lparr>solver := solver_name\<rparr>, []) = Inr (relaxed_model, ch)"
    and tab: "set_columns (from_dict ch) report_columns = Inr relax_table"
    by (rule relax_dgo_Inr)
  from read_loop_index_order [OF loop tab] read_loop_entities(1) [OF loop]
  show "subseq (df_index relax_table) (map r_id (reactions relaxed_model))"
    and "distinct (df_index relax_table)" by simp_all
next
  assume run: "relax_lc env tm to_ignore solver_name = (lg, Inr (relaxed_model, slack_model, relax_table))"
  from run obtain sol ch where
    loop: "read_loop env LogConcentration NegSlackLC PosSlackLC to_ignore slack_model sol
             (map m_id (metabolites tm)) (tm\<lparr>solver := solver_name\<rparr>, []) = Inr (relaxed_model, ch)"
    and tab: "set_columns (from_dict ch) report_columns = Inr relax_table"
    by (rule relax_lc_Inr)
  from read_loop_index_order [OF loop tab] read_loop_entities(2) [OF loop]
  show "subseq (df_index relax_table) (map m_id (metabolites relaxed_model))"
    and "distinct (df_index relax_table)" by simp_all
qed


text \<open>
  On the model above: the run of \<^verbatim>\<open>relax_dgo\<close>, the run of \<^verbatim>\<open>relax_lc\<close> with \<open>M1\<close>
  excluded, and the run of \<^verbatim>\<open>relax_lc\<close> with nothing excluded, whose report has the two
  rows \<open>M1\<close>, \<open>M2\<close> in the order of the metabolites.
\<close>

theorem report_rows_in_entity_order_witness:
  "relax_dgo ex_env ex_model [''R2''] ''optlang-glpk'' =
     (ex_probe_log @ [LogInfo ex_dgo_table], Inr (ex_dgo_relaxed, ex_dgo_slack, ex_dgo_table)) \<and>
   subseq (df_index ex_dgo_table) (map r_id (reactions ex_dgo_relaxed)) \<and>
   distinct (df_index ex_dgo_table) \<and>
   relax_lc ex_env ex_model [''M1''] ''optlang-glpk'' =
     (ex_probe_log @ [LogInfo ex_lc_table], Inr (ex_lc_relaxed, ex_lc_slack, ex_lc_table)) \<and>
   subseq (df_index ex_lc_table) (map m_id (metabolites ex_lc_relaxed)) \<and>
   distinct (df_index ex_lc_table) \<and>
   relax_lc ex_env ex_model [] ''optlang-glpk'' =
     (ex_probe_log @ [LogInfo ex_lc_table_all],
      Inr (ex_lc_relaxed_all, ex_lc_slack, ex_lc_table_all)) \<and>
   df_index ex_lc_table_all = [''M1'', ''M2''] \<and>
   map m_id (metabolites ex_lc_relaxed_all) = [''M1'', ''M2''] \<and>
   subseq (df_index ex_lc_table_all) (map m_id (metabolites ex_lc_relaxed_all)) \<and>
   distinct (df_index ex_lc_table_all)"
proof -
  have ids: "df_index ex_lc_table_all = [''M1'', ''M2'']"
    "map m_id (metabolites ex_lc_relaxed_all) = [''M1'', ''M2'']"
    by (simp_all add: ex_lc_table_all_def ex_lc_relaxed_all_def ex_model_def)
  from ids ex_dgo_run ex_lc_run ex_lc_run_all
    report_rows_in_entity_order [of ex_env ex_model "[''R2'']" "''optlang-glpk''"
      "ex_probe_log @ [LogInfo ex_dgo_table]" ex_dgo_relaxed ex_dgo_slack ex_dgo_table]
    report_rows_in_entity_order [of ex_env ex_model "[''M1'']" "''optlang-glpk''"
      "ex_probe_log @ [LogInfo ex_lc_table]" ex_lc_relaxed ex_lc_slack ex_lc_table]
    report_rows_in_entity_order [of ex_env ex_model "[]" "''optlang-glpk''"
      "ex_probe_log @ [LogInfo ex_lc_table_all]" ex_lc_relaxed_all ex_lc_slack ex_lc_table_all]
  show ?thesis by blast
qed

text \<open>
  C1, as amended. For every entity with a row in the report of \<^verbatim>\<open>relax_dgo\<close> (and
  likewise \<^verbatim>\<open>relax_lc\<close>), the bounds of its variable in the relaxed model are exactly
  the old lower bound minus (negative slack + \<open>EPSILON\<close>) and the old upper bound plus
  (positive slack + \<open>EPSILON\<close>), and the row records the old bounds, the two slack values
  and the new bounds; the entity list has distinct ids (it is a \<^verbatim>\<open>DictList\<close>). The two
  deltas are non-negative when the point the solver returns lies within the bounds of
  the variables of the slack model and the slack variables the input may already hold
  have non-negative lower bounds: the code gives the slack variables it creates the
  lower bound \<open>0\<close> (lines 76-83, 222-230) and does not test the sign of what it reads.
\<close>

theorem relaxed_bounds_exact:
  "(relax_dgo env tm to_ignore solver_name = (lg, Inr (relaxed_model, slack_model, relax_table)) \<and>
    optimize env slack_model = Inr relaxation \<and> distinct (map r_id (reactions tm)) \<and>
    i \<in> set (df_index relax_table) \<longrightarrow>
      (\<exists>old. lookup_var DeltaGstd i (variables tm) = Some old \<and>
         var_bounds DeltaGstd i relaxed_model =
           Some (v_lb old - (relaxation (name_of env NegSlackVariable i) + EPSILON env),
                 v_ub old + (relaxation (name_of env PosSlackVariable i) + EPSILON env)) \<and>
         row_of relax_table i =
           Some [v_lb old, v_ub old,
                 relaxation (name_of env NegSlackVariable i),
                 relaxation (name_of env PosSlackVariable i),
                 v_lb old - (relaxation (name_of env NegSlackVariable i) + EPSILON env),
                 v_ub old + (relaxation (name_of env PosSlackVariable i) + EPSILON env)] \<and>
         (within_bounds env slack_model relaxation \<and> slack_lbs_nonneg tm \<longrightarrow>
            0 \<le> relaxation (name_of env NegSlackVariable i) \<and>
            0 \<le> relaxation (name_of env PosSlackVariable i)))) \<and>
   (relax_lc env tm to_ignore solver_name = (lg, Inr (relaxed_model, slack_model, relax_table)) \<and>
    optimize env slack_model = Inr relaxation \<and> distinct (map m_id (metabolites tm)) \<and>
    i \<in> set (df_index relax_table) \<longrightarrow>
      (\<exists>old. lookup_var LogConcentration i (variables tm) = Some old \<and>
         var_bounds LogConcentration i relaxed_model =
           Some (v_lb old - (relaxation (name_of env NegSlackLC i) + EPSILON env),
                 v_ub old + (relaxation (name_of env PosSlackLC i) + EPSILON env)) \<and>
         row_of relax_table i =
           Some [v_lb old, v_ub old,
                 relaxation (name_of env NegSlackLC i),
                 relaxation (name_of env PosSlackLC i),
                 v_lb old - (relaxation (name_of env NegSlackLC i) + EPSILON env),
                 v_ub old + (relaxation (name_of env PosSlackLC i) + EPSILON env)] \<and>
         (within_bounds env slack_model relaxation \<and> slack_lbs_nonneg tm \<longrightarrow>
            0 \<le> relaxation (name_of env NegSlackLC i) \<and>
            0 \<le> relaxation (name_of env PosSlackLC i))))"
proof (intro conjI impI; elim conjE)
  assume run: "relax_dgo env tm to_ignore solver_name = (lg, Inr (relaxed_model, slack_model, relax_table))"
    and sol: "optimize env slack_model = Inr relaxation"
    and dist: "distinct (map r_id (reactions tm))" and row: "i \<in> set (df_index relax_table)"
  from run obtain sol' ch where
    sm: "dgo_slack_model env tm to_ignore solver_name = Inr slack_model"
    and sol': "optimize env slack_model = Inr sol'"
    and loop: "read_loop env DeltaGstd NegSlackVariable PosSlackVariable to_ignore slack_model sol'
             (map r_id (reactions tm)) (tm\<lparr>solver := solver_name\<rparr>, []) = Inr (relaxed_model, ch)"
    and tab: "set_columns (from_dict ch) report_columns = Inr relax_table"
    by (rule relax_dgo_Inr)
  from sol sol' have eq: "sol' = relaxation" by simp
  have sk: "is_slack_kind NegSlackVariable" "is_slack_kind PosSlackVariable"
    by (simp_all add: is_slack_kind_def)
  have nn: "slack_lbs_nonneg tm \<Longrightarrow> slack_lbs_nonneg slack_model"
    by (rule dgo_slack_model_nonneg [OF sm])
  from read_loop_exact [OF loop [unfolded eq] tab dist sk row] nn
  show "\<exists>old. lookup_var DeltaGstd i (variables tm) = Some old \<and>
         var_bounds DeltaGstd i relaxed_model =
           Some (v_lb old - (relaxation (name_of env NegSlackVariable i) + EPSILON env),
                 v_ub old + (relaxation (name_of env PosSlackVariable i) + EPSILON env)) \<and>
         row_of relax_table i =
           Some [v_lb old, v_ub old,
                 relaxation (name_of env NegSlackVariable i),
                 relaxation (name_of env PosSlackVariable i),
                 v_lb old - (relaxation (name_of env NegSlackVariable i) + EPSILON env),
                 v_ub old + (relaxation (name_of env PosSlackVariable i) + EPSILON env)] \<and>
         (within_bounds env slack_model relaxation \<and> slack_lbs_nonneg tm \<longrightarrow>
            0 \<le> relaxation (name_of env NegSlackVariable i) \<and>
            0 \<le> relaxation (name_of env PosSlackVariable i))"
    by auto
next
  assume run: "relax_lc env tm to_ignore solver_name = (lg, Inr (relaxed_model, slack_model, relax_table))"
    and sol: "optimize env slack_model = Inr relaxation"
    and dist: "distinct (map m_id (metabolites tm))" and row: "i \<in> set (df_index relax_table)"
  from run obtain sol' ch where
    sm: "lc_slack_model env tm to_ignore solver_name = Inr slack_model"
    and sol': "optimize env slack_model = Inr sol'"
    and loop: "read_loop env LogConcentration NegSlackLC PosSlackLC to_ignore slack_model sol'
             (map m_id (metabolites tm)) (tm\<lparr>solver := solver_name\<rparr>, []) = Inr (relaxed_model, ch)"
    and tab: "set_columns (from_dict ch) report_columns = Inr relax_table"
    by (rule relax_lc_Inr)
  from sol sol' have eq: "sol' = relaxation" by simp
  have sk: "is_slack_kind NegSlackLC" "is_slack_kind PosSlackLC"
    by (simp_all add: is_slack_kind_def)
  have nn: "slack_lbs_nonneg tm \<Longrightarrow> slack_lbs_nonneg slack_model"
    by (rule lc_slack_model_nonneg [OF sm])
  from read_loop_exact [OF loop [unfolded eq] tab dist sk row] nn
  show "\<exists>old. lookup_var LogConcentration i (variables tm) = Some old \<and>
         var_bounds LogConcentration i relaxed_model =
           Some (v_lb old - (relaxation (name_of env NegSlackLC i) + EPSILON env),
                 v_ub old + (relaxation (name_of env PosSlackLC i) + EPSILON env)) \<and>
         row_of relax_table i =
           Some [v_lb old, v_ub old,
                 relaxation (name_of env NegSlackLC i),
                 relaxation (name_of env PosSlackLC i),
                 v_lb old - (relaxation (name_of env NegSlackLC i) + EPSILON env),
                 v_ub old + (relaxation (name_of env PosSlackLC i) + EPSILON env)] \<and>
         (within_bounds env slack_model relaxation \<and> slack_lbs_nonneg tm \<longrightarrow>
            0 \<le> relaxation (name_of env NegSlackLC i) \<and>
            0 \<le> relaxation (name_of env PosSlackLC i))"
    by auto
qed

text \<open>On the model above: \<open>R1\<close> in the run of \<^verbatim>\<open>relax_dgo\<close>, \<open>M2\<close> in the run of
  \<^verbatim>\<open>relax_lc\<close>.\<close>

theorem relaxed_bounds_exact_witness:
  "(relax_dgo ex_env ex_model [''R2''] ''optlang-glpk'' =
      (ex_probe_log @ [LogInfo ex_dgo_table], Inr (ex_dgo_relaxed, ex_dgo_slack, ex_dgo_table)) \<and>
    optimize ex_env ex_dgo_slack = Inr ex_sol \<and> distinct (map r_id (reactions ex_model)) \<and>
    ''R1'' \<in> set (df_index ex_dgo_table)) \<and>
   (var_bounds DeltaGstd ''R1'' ex_model = Some (- 50, 50) \<and>
    var_bounds DeltaGstd ''R1'' ex_dgo_relaxed =
      Some (- 50 - (3 + 1 / 1000000), 50 + (0 + 1 / 1000000))) \<and>
   (within_bounds ex_env ex_dgo_slack ex_sol \<and> slack_lbs_nonneg ex_model) \<and>
   (0 \<le> ex_sol ''NegSlack_R1'' \<and> 0 \<le> ex_sol ''PosSlack_R1'') \<and>
   (relax_lc ex_env ex_model [''M1''] ''optlang-glpk'' =
      (ex_probe_log @ [LogInfo ex_lc_table], Inr (ex_lc_relaxed, ex_lc_slack, ex_lc_table)) \<and>
    optimize ex_env ex_lc_slack = Inr ex_sol \<and> distinct (map m_id (metabolites ex_model)) \<and>
    ''M2'' \<in> set (df_index ex_lc_table)) \<and>
   (var_bounds LogConcentration ''M2'' ex_model = Some (- 5, 5) \<and>
    var_bounds LogConcentration ''M2'' ex_lc_relaxed =
      Some (- 5 - (0 + 1 / 1000000), 5 + (1 + 1 / 1000000))) \<and>
   (within_bounds ex_env ex_lc_slack ex_sol \<and> slack_lbs_nonneg ex_model) \<and>
   (0 \<le> ex_sol ''NegSlackLC_M2'' \<and> 0 \<le> ex_sol ''PosSlackLC_M2'')"
proof -
  have r1: "''R1'' \<in> set (df_index ex_dgo_table)" by (simp add: ex_dgo_table_def)
  have m2: "''M2'' \<in> set (df_index ex_lc_table)" by (simp add: ex_lc_table_def)
  note dgo = relaxed_bounds_exact [THEN conjunct1, rule_format,
      OF conjI [OF ex_dgo_run conjI [OF ex_dgo_hyps(1) conjI [OF ex_dgo_hyps(4) r1]]]]
  note lc = relaxed_bounds_exact [THEN conjunct2, rule_format,
      OF conjI [OF ex_lc_run conjI [OF ex_dgo_hyps(6) conjI [OF ex_dgo_hyps(5) m2]]]]
  have names: "name_of ex_env NegSlackVariable ''R1'' = ''NegSlack_R1''"
    "name_of ex_env PosSlackVariable ''R1'' = ''PosSlack_R1''"
    "name_of ex_env NegSlackLC ''M2'' = ''NegSlackLC_M2''"
    "name_of ex_env PosSlackLC ''M2'' = ''PosSlackLC_M2''"
    "EPSILON ex_env = 1 / 1000000"
    by (simp_all add: ex_env_def ex_name_of_def)
  have vals: "ex_sol ''NegSlack_R1'' = 3" "ex_sol ''PosSlack_R1'' = 0"
    "ex_sol ''NegSlackLC_M2'' = 0" "ex_sol ''PosSlackLC_M2'' = 1"
    by (simp_all add: ex_sol_def)
  have olds: "lookup_var DeltaGstd ''R1'' (variables ex_model)
               = Some \<lparr>v_kind = DeltaGstd, v_id = ''R1'', v_lb = - 50, v_ub = 50\<rparr>"
    "lookup_var LogConcentration ''M2'' (variables ex_model)
               = Some \<lparr>v_kind = LogConcentration, v_id = ''M2'', v_lb = - 5, v_ub = 5\<rparr>"
    by (simp_all add: lookup_var_def ex_model_def ex_variables_def)
  from dgo ex_dgo_hyps(2,3)
  have 1: "var_bounds DeltaGstd ''R1'' ex_dgo_relaxed =
      Some (- 50 - (3 + 1 / 1000000), 50 + (0 + 1 / 1000000)) \<and>
      0 \<le> ex_sol ''NegSlack_R1'' \<and> 0 \<le> ex_sol ''PosSlack_R1''"
    unfolding names olds by (auto simp: vals)
  from lc ex_dgo_hyps(7,3)
  have 2: "var_bounds LogConcentration ''M2'' ex_lc_relaxed =
      Some (- 5 - (0 + 1 / 1000000), 5 + (1 + 1 / 1000000)) \<and>
      0 \<le> ex_sol ''NegSlackLC_M2'' \<and> 0 \<le> ex_sol ''PosSlackLC_M2''"
    unfolding names olds by (auto simp: vals)
  have 3: "var_bounds DeltaGstd ''R1'' ex_model = Some (- 50, 50)"
    "var_bounds LogConcentration ''M2'' ex_model = Some (- 5, 5)"
    by (simp_all add: var_bounds_def olds)
  from 1 2 3 ex_dgo_run ex_lc_run ex_dgo_hyps r1 m2 show ?thesis by blast
qed


text \<open>
  C1, as stated, fails: with a solver whose point gives the negative slack of \<open>R1\<close> the
  value \<open>-1/2\<close>, below its lower bound \<open>0\<close>, and the positive slack the value \<open>2\<close>, the
  test of line 142 passes, \<open>R1\<close> has a row, the lower-bound delta it records is \<open>-1/2\<close>,
  and the lower bound moves inward, from \<open>-50\<close> to \<open>-49.500001\<close>.
\<close>

theorem relaxed_bounds_negative_delta_counterexample:
  "report_row_of (relax_dgo ex_env_negative ex_model [''R2''] ''optlang-glpk'') ''R1'' =
     Some [- 50, 50, - (1 / 2), 2, - (49500001 / 1000000), 52000001 / 1000000] \<and>
   slack_var_of (relax_dgo ex_env_negative ex_model [''R2''] ''optlang-glpk'') NegSlackVariable ''R1'' =
     Some \<lparr>v_kind = NegSlackVariable, v_id = ''R1'', v_lb = 0, v_ub = 1000\<rparr> \<and>
   optimize ex_env_negative ex_dgo_slack = Inr ex_neg_sol \<and>
   ex_neg_sol (name_of ex_env_negative NegSlackVariable ''R1'') = - (1 / 2) \<and>
   \<not> 0 \<le> ex_neg_sol (name_of ex_env_negative NegSlackVariable ''R1'') \<and>
   var_bounds DeltaGstd ''R1'' ex_model = Some (- 50, 50) \<and>
   \<not> within_bounds ex_env_negative ex_dgo_slack ex_neg_sol"
  unfolding report_row_of_def slack_var_of_def ex_negative_run
  by (simp add: row_of_def lookup_var_def var_bounds_def within_bounds_def v_name_def
      ex_dgo_slack_def ex_model_def ex_variables_def
      ex_env_negative_def ex_negative_optimize_def ex_neg_sol_def ex_env_def ex_name_of_def)

text \<open>
  C4. In the run of \<^verbatim>\<open>relax_lc\<close> with \<open>M1\<close> in the ignore set, the slack model holds
  a slack pair for \<open>M1\<close> (line 219 tests the name of the variable, \<open>LC_M1\<close>, where line
  292 tests the id), the slack solution gives its negative slack the value \<open>2\<close>, and
  the returned report has no row for \<open>M1\<close>: an entity with a strictly positive slack
  value and no row. In the run of \<^verbatim>\<open>relax_dgo\<close> with \<open>R2\<close> in the ignore set, both passes
  test the id, and \<open>R2\<close> has no slack variable and no row.
\<close>

theorem excluded_metabolite_positive_slack_no_row:
  "relax_lc ex_env ex_model [''M1''] ''optlang-glpk'' =
     (ex_probe_log @ [LogInfo ex_lc_table], Inr (ex_lc_relaxed, ex_lc_slack, ex_lc_table)) \<and>
   optimize ex_env ex_lc_slack = Inr ex_sol \<and>
   lookup_var NegSlackLC ''M1'' (variables ex_lc_slack) =
     Some \<lparr>v_kind = NegSlackLC, v_id = ''M1'', v_lb = 0, v_ub = 1000\<rparr> \<and>
   lookup_var PosSlackLC ''M1'' (variables ex_lc_slack) =
     Some \<lparr>v_kind = PosSlackLC, v_id = ''M1'', v_lb = 0, v_ub = 1000\<rparr> \<and>
   0 < ex_sol (name_of ex_env NegSlackLC ''M1'') \<and>
   ''M1'' \<notin> set (df_index ex_lc_table) \<and>
   relax_dgo ex_env ex_model [''R2''] ''optlang-glpk'' =
     (ex_probe_log @ [LogInfo ex_dgo_table], Inr (ex_dgo_relaxed, ex_dgo_slack, ex_dgo_table)) \<and>
   lookup_var NegSlackVariable ''R2'' (variables ex_dgo_slack) = None \<and>
   lookup_var PosSlackVariable ''R2'' (variables ex_dgo_slack) = None \<and>
   ''R2'' \<notin> set (df_index ex_dgo_table)"
  using ex_lc_run ex_dgo_run ex_slack_solves(2)
  by (simp add: ex_names ex_sol_def lookup_var_def ex_lc_slack_def ex_lc_table_def ex_model_def
        ex_variables_def ex_dgo_slack_def ex_dgo_table_def)

text \<open>
  C5. For every entity in the ignore set (\<^verbatim>\<open>reactions_to_ignore\<close> of \<^verbatim>\<open>relax_dgo\<close>,
  \<^verbatim>\<open>metabolites_to_ignore\<close> of \<^verbatim>\<open>relax_lc\<close>), the returned report has no row for it and
  every variable it owns is in the relaxed model what it is in the input model, whatever
  the solver returned.
\<close>

theorem ignored_entity_untouched:
  "(relax_dgo env tm reactions_to_ignore solver_name =
      (lg, Inr (relaxed_model, slack_model, relax_table)) \<and> e \<in> set reactions_to_ignore \<longrightarrow>
      e \<notin> set (df_index relax_table) \<and> row_of relax_table e = None \<and>
      (\<forall>k. lookup_var k e (variables relaxed_model) = lookup_var k e (variables tm))) \<and>
   (relax_lc env tm metabolites_to_ignore solver_name =
      (lg, Inr (relaxed_model, slack_model, relax_table)) \<and> e \<in> set metabolites_to_ignore \<longrightarrow>
      e \<notin> set (df_index relax_table) \<and> row_of relax_table e = None \<and>
      (\<forall>k. lookup_var k e (variables relaxed_model) = lookup_var k e (variables tm)))"
proof (rule conjI; rule impI; elim conjE)
  assume run: "relax_dgo env tm reactions_to_ignore solver_name =
      (lg, Inr (relaxed_model, slack_model, relax_table))" and e: "e \<in> set reactions_to_ignore"
  from run obtain sol ch where
    loop: "read_loop env DeltaGstd NegSlackVariable PosSlackVariable reactions_to_ignore slack_model sol
             (map r_id (reactions tm)) (tm\<lparr>solver := solver_name\<rparr>, []) = Inr (relaxed_model, ch)"
    and tab: "set_columns (from_dict ch) report_columns = Inr relax_table"
    by (rule relax_dgo_Inr)
  from read_loop_ignored [OF loop tab e]
  show "e \<notin> set (df_index relax_table) \<and> row_of relax_table e = None \<and>
      (\<forall>k. lookup_var k e (variables relaxed_model) = lookup_var k e (variables tm))" by simp
next
  assume run: "relax_lc env tm metabolites_to_ignore solver_name =
      (lg, Inr (relaxed_model, slack_model, relax_table))" and e: "e \<in> set metabolites_to_ignore"
  from run obtain sol ch where
    loop: "read_loop env LogConcentration NegSlackLC PosSlackLC metabolites_to_ignore slack_model sol
             (map m_id (metabolites tm)) (tm\<lparr>solver := solver_name\<rparr>, []) = Inr (relaxed_model, ch)"
    and tab: "set_columns (from_dict ch) report_columns = Inr relax_table"
    by (rule relax_lc_Inr)
  from read_loop_ignored [OF loop tab e]
  show "e \<notin> set (df_index relax_table) \<and> row_of relax_table e = None \<and>
      (\<forall>k. lookup_var k e (variables relaxed_model) = lookup_var k e (variables tm))" by simp
qed

text \<open>On the model above: \<open>R2\<close> is excluded from \<^verbatim>\<open>relax_dgo\<close>; \<open>M1\<close> is excluded from
  \<^verbatim>\<open>relax_lc\<close>, where the slack solution gives it the slack \<open>2\<close>.\<close>

theorem ignored_entity_untouched_witness:
  "relax_dgo ex_env ex_model [''R2''] ''optlang-glpk'' =
     (ex_probe_log @ [LogInfo ex_dgo_table], Inr (ex_dgo_relaxed, ex_dgo_slack, ex_dgo_table)) \<and>
   ''R2'' \<in> set [''R2''] \<and> ''R2'' \<notin> set (df_index ex_dgo_table) \<and>
   row_of ex_dgo_table ''R2'' = None \<and>
   lookup_var DeltaGstd ''R2'' (variables ex_dgo_relaxed) = lookup_var DeltaGstd ''R2'' (variables ex_model) \<and>
   relax_lc ex_env ex_model [''M1''] ''optlang-glpk'' =
     (ex_probe_log @ [LogInfo ex_lc_table], Inr (ex_lc_relaxed, ex_lc_slack, ex_lc_table)) \<and>
   ''M1'' \<in> set [''M1''] \<and> ''M1'' \<notin> set (df_index ex_lc_table) \<and>
   row_of ex_lc_table ''M1'' = None \<and>
   lookup_var LogConcentration ''M1'' (variables ex_lc_relaxed) =
     lookup_var LogConcentration ''M1'' (variables ex_model)"
proof -
  have r2: "''R2'' \<in> set [''R2'']" and m1: "''M1'' \<in> set [''M1'']" by simp_all
  from ignored_entity_untouched [THEN conjunct1, rule_format, OF conjI [OF ex_dgo_run r2]]
    ignored_entity_untouched [THEN conjunct2, rule_format, OF conjI [OF ex_lc_run m1]]
    ex_dgo_run ex_lc_run r2 m1
  show ?thesis by blast
qed

text \<open>
  C7, as amended. In every row of the report, the new lower bound (\<open>lb_out\<close>) is the
  original lower bound (\<open>lb_in\<close>) minus the recorded delta (\<open>lb_change\<close>) and \<open>EPSILON\<close>,
  and the new upper bound (\<open>ub_out\<close>) is the original upper bound (\<open>ub_in\<close>) plus the
  recorded delta (\<open>ub_change\<close>) and \<open>EPSILON\<close>: the recorded deltas are the slack values,
  the applied changes exceed them by the margin of lines 149-150.
\<close>

theorem report_row_consistent:
  "(relax_dgo env tm to_ignore solver_name = (lg, Inr (relaxed_model, slack_model, relax_table)) \<and>
    row_of relax_table i = Some r \<longrightarrow>
      (\<exists>lb_in ub_in lb_change ub_change.
         r = [lb_in, ub_in, lb_change, ub_change,
              lb_in - (lb_change + EPSILON env), ub_in + (ub_change + EPSILON env)])) \<and>
   (relax_lc env tm to_ignore solver_name = (lg, Inr (relaxed_model, slack_model, relax_table)) \<and>
    row_of relax_table i = Some r \<longrightarrow>
      (\<exists>lb_in ub_in lb_change ub_change.
         r = [lb_in, ub_in, lb_change, ub_change,
              lb_in - (lb_change + EPSILON env), ub_in + (ub_change + EPSILON env)]))"
proof (intro conjI impI; elim conjE)
  assume run: "relax_dgo env tm to_ignore solver_name = (lg, Inr (relaxed_model, slack_model, relax_table))"
    and row: "row_of relax_table i = Some r"
  from run obtain sol ch where
    loop: "read_loop env DeltaGstd NegSlackVariable PosSlackVariable to_ignore slack_model sol
             (map r_id (reactions tm)) (tm\<lparr>solver := solver_name\<rparr>, []) = Inr (relaxed_model, ch)"
    and tab: "set_columns (from_dict ch) report_columns = Inr relax_table"
    by (rule relax_dgo_Inr)
  from read_loop_row_shape [OF loop tab row]
  show "\<exists>lb_in ub_in lb_change ub_change.
         r = [lb_in, ub_in, lb_change, ub_change,
              lb_in - (lb_change + EPSILON env), ub_in + (ub_change + EPSILON env)]" .
next
  assume run: "relax_lc env tm to_ignore solver_name = (lg, Inr (relaxed_model, slack_model, relax_table))"
    and row: "row_of relax_table i = Some r"
  from run obtain sol ch where
    loop: "read_loop env LogConcentration NegSlackLC PosSlackLC to_ignore slack_model sol
             (map m_id (metabolites tm)) (tm\<lparr>solver := solver_name\<rparr>, []) = Inr (relaxed_model, ch)"
    and tab: "set_columns (from_dict ch) report_columns = Inr relax_table"
    by (rule relax_lc_Inr)
  from read_loop_row_shape [OF loop tab row]
  show "\<exists>lb_in ub_in lb_change ub_change.
         r = [lb_in, ub_in, lb_change, ub_change,
              lb_in - (lb_change + EPSILON env), ub_in + (ub_change + EPSILON env)]" .
qed


text \<open>On the model above: the row of \<open>R1\<close> and the row of \<open>M2\<close>.\<close>

theorem report_row_consistent_witness:
  "relax_dgo ex_env ex_model [''R2''] ''optlang-glpk'' =
     (ex_probe_log @ [LogInfo ex_dgo_table], Inr (ex_dgo_relaxed, ex_dgo_slack, ex_dgo_table)) \<and>
   row_of ex_dgo_table ''R1'' = Some [- 50, 50, 3, 0, - (53000001 / 1000000), 50000001 / 1000000] \<and>
   - (53000001 / 1000000) = - 50 - (3 + EPSILON ex_env) \<and>
   50000001 / 1000000 = 50 + (0 + EPSILON ex_env) \<and>
   relax_lc ex_env ex_model [''M1''] ''optlang-glpk'' =
     (ex_probe_log @ [LogInfo ex_lc_table], Inr (ex_lc_relaxed, ex_lc_slack, ex_lc_table)) \<and>
   row_of ex_lc_table ''M2'' = Some [- 5, 5, 0, 1, - (5000001 / 1000000), 6000001 / 1000000] \<and>
   - (5000001 / 1000000) = - 5 - (0 + EPSILON ex_env) \<and>
   6000001 / 1000000 = 5 + (1 + EPSILON ex_env)"
proof -
  have row1: "row_of ex_dgo_table ''R1'' =
      Some [- 50, 50, 3, 0, - (53000001 / 1000000), 50000001 / 1000000]"
    by (simp add: row_of_def ex_dgo_table_def)
  have row2: "row_of ex_lc_table ''M2'' =
      Some [- 5, 5, 0, 1, - (5000001 / 1000000), 6000001 / 1000000]"
    by (simp add: row_of_def ex_lc_table_def)
  from report_row_consistent [THEN conjunct1, rule_format, OF conjI [OF ex_dgo_run row1]]
  have 1: "- (53000001 / 1000000) = - 50 - (3 + EPSILON ex_env) \<and>
           50000001 / 1000000 = 50 + (0 + EPSILON ex_env)" by auto
  from report_row_consistent [THEN conjunct2, rule_format, OF conjI [OF ex_lc_run row2]]
  have 2: "- (5000001 / 1000000) = - 5 - (0 + EPSILON ex_env) \<and>
           6000001 / 1000000 = 5 + (1 + EPSILON ex_env)" by auto
  from 1 2 row1 row2 ex_dgo_run ex_lc_run show ?thesis by blast
qed

text \<open>
  C7, as stated, fails: in the row of \<open>R1\<close>, with \<open>EPSILON = 1e-6\<close>, \<open>lb_out\<close> is not
  \<open>lb_in - lb_change\<close> and \<open>ub_out\<close> is not \<open>ub_in + ub_change\<close>.
\<close>

theorem report_row_without_margin_counterexample:
  "report_row_of (relax_dgo ex_env ex_model [''R2''] ''optlang-glpk'') ''R1'' =
     Some [- 50, 50, 3, 0, - (53000001 / 1000000), 50000001 / 1000000] \<and>
   \<not> (- (53000001 / 1000000) = (- 50 - 3 :: real) \<and> 50000001 / 1000000 = (50 + 0 :: real))"
  by (simp add: ex_dgo_run report_row_of_def row_of_def ex_dgo_table_def)



text \<open>
  C6. A \<^verbatim>\<open>SolverError\<close> raised by the probe solve of the input model is caught: it is
  logged as an error, the solver status as a warning, and the procedure goes on with
  lines 59-176 (207-340). A failure of the solve of the slack model, or of the final
  solve of the relaxed model, is the result of the procedure: it reaches the caller.
\<close>

theorem solver_failure_handling:
  "(optimize env tm = Inl (SolverError se) \<longrightarrow>
      probe env tm =
        Inr [LogError (SolverError se), LogWarning (''Solver status: '' @ status env tm)] \<and>
      relax_dgo env tm to_ignore solver_name =
        relax_dgo_body env tm to_ignore solver_name
          [LogError (SolverError se), LogWarning (''Solver status: '' @ status env tm)] \<and>
      relax_lc env tm to_ignore solver_name =
        relax_lc_body env tm to_ignore solver_name
          [LogError (SolverError se), LogWarning (''Solver status: '' @ status env tm)]) \<and>
   (probe env tm = Inr lg \<and> dgo_slack_model env tm to_ignore solver_name = Inr slack_model \<and>
    optimize env slack_model = Inl e \<longrightarrow>
      relax_dgo env tm to_ignore solver_name = (lg, Inl e)) \<and>
   (probe env tm = Inr lg \<and> lc_slack_model env tm to_ignore solver_name = Inr slack_model \<and>
    optimize env slack_model = Inl e \<longrightarrow>
      relax_lc env tm to_ignore solver_name = (lg, Inl e)) \<and>
   (probe env tm = Inr lg \<and> dgo_slack_model env tm to_ignore solver_name = Inr slack_model \<and>
    optimize env slack_model = Inr relaxation \<and>
    read_back env DeltaGstd NegSlackVariable PosSlackVariable to_ignore slack_model relaxation
      (map r_id (reactions tm)) (tm\<lparr>solver := solver_name\<rparr>) = Inr (relaxed_model, changes) \<and>
    optimize env relaxed_model = Inl e \<longrightarrow>
      relax_dgo env tm to_ignore solver_name = (lg, Inl e)) \<and>
   (probe env tm = Inr lg \<and> lc_slack_model env tm to_ignore solver_name = Inr slack_model \<and>
    optimize env slack_model = Inr relaxation \<and>
    read_back env LogConcentration NegSlackLC PosSlackLC to_ignore slack_model relaxation
      (map m_id (metabolites tm)) (tm\<lparr>solver := solver_name\<rparr>) = Inr (relaxed_model, changes) \<and>
    optimize env relaxed_model = Inl e \<longrightarrow>
      relax_lc env tm to_ignore solver_name = (lg, Inl e))"
  by (simp add: probe_SolverError relax_dgo_def relax_lc_def relax_dgo_body_def relax_lc_body_def
        finish_def Let_def)


text \<open>
  On the model above: the probe fails and the run completes; with the solver that always
  fails the failure of the slack solve is returned; with the solver that solves the
  minimisation only, the failure of the final solve is returned.
\<close>

theorem solver_failure_handling_witness:
  "(optimize ex_env ex_model = Inl (SolverError ''infeasible'') \<and>
    probe ex_env ex_model = Inr ex_probe_log \<and>
    relax_dgo_body ex_env ex_model [''R2''] ''optlang-glpk'' ex_probe_log =
      (ex_probe_log @ [LogInfo ex_dgo_table], Inr (ex_dgo_relaxed, ex_dgo_slack, ex_dgo_table)) \<and>
    relax_lc_body ex_env ex_model [''M1''] ''optlang-glpk'' ex_probe_log =
      (ex_probe_log @ [LogInfo ex_lc_table], Inr (ex_lc_relaxed, ex_lc_slack, ex_lc_table))) \<and>
   (probe ex_env_failing ex_model = Inr ex_failing_log \<and>
    dgo_slack_model ex_env_failing ex_model [''R2''] ''optlang-glpk'' = Inr ex_dgo_slack \<and>
    optimize ex_env_failing ex_dgo_slack = Inl (SolverError ''no solution'') \<and>
    relax_dgo ex_env_failing ex_model [''R2''] ''optlang-glpk'' =
      (ex_failing_log, Inl (SolverError ''no solution''))) \<and>
   (lc_slack_model ex_env_failing ex_model [''M1''] ''optlang-glpk'' = Inr ex_lc_slack \<and>
    optimize ex_env_failing ex_lc_slack = Inl (SolverError ''no solution'') \<and>
    relax_lc ex_env_failing ex_model [''M1''] ''optlang-glpk'' =
      (ex_failing_log, Inl (SolverError ''no solution''))) \<and>
   (probe ex_env_min_only ex_model = Inr ex_probe_log \<and>
    optimize ex_env_min_only ex_dgo_relaxed = Inl (SolverError ''infeasible'') \<and>
    relax_dgo ex_env_min_only ex_model [''R2''] ''optlang-glpk'' =
      (ex_probe_log, Inl (SolverError ''infeasible''))) \<and>
   (optimize ex_env_min_only ex_lc_relaxed = Inl (SolverError ''infeasible'') \<and>
    relax_lc ex_env_min_only ex_model [''M1''] ''optlang-glpk'' =
      (ex_probe_log, Inl (SolverError ''infeasible'')))"
proof -
  note thm1 = solver_failure_handling [THEN conjunct1, rule_format]
  note thm2 = solver_failure_handling [THEN conjunct2, THEN conjunct1, rule_format]
  note thm3 = solver_failure_handling [THEN conjunct2, THEN conjunct2, THEN conjunct1, rule_format]
  note thm4 = solver_failure_handling [THEN conjunct2, THEN conjunct2, THEN conjunct2,
      THEN conjunct1, rule_format]
  note thm5 = solver_failure_handling [THEN conjunct2, THEN conjunct2, THEN conjunct2,
      THEN conjunct2, rule_format]
  have 1: "probe ex_env ex_model = Inr ex_probe_log"
    "relax_dgo_body ex_env ex_model [''R2''] ''optlang-glpk'' ex_probe_log =
      (ex_probe_log @ [LogInfo ex_dgo_table], Inr (ex_dgo_relaxed, ex_dgo_slack, ex_dgo_table))"
    "relax_lc_body ex_env ex_model [''M1''] ''optlang-glpk'' ex_probe_log =
      (ex_probe_log @ [LogInfo ex_lc_table], Inr (ex_lc_relaxed, ex_lc_slack, ex_lc_table))"
    using thm1 [OF ex_probe(1), of "[''R2'']" "''optlang-glpk''"]
      thm1 [OF ex_probe(1), of "[''M1'']" "''optlang-glpk''"] ex_dgo_run ex_lc_run ex_probe(2)
    by simp_all
  have 2: "relax_dgo ex_env_failing ex_model [''R2''] ''optlang-glpk'' =
      (ex_failing_log, Inl (SolverError ''no solution''))"
    by (rule thm2 [OF conjI [OF ex_failing(1) conjI [OF ex_failing(2) ex_failing(3)]]])
  have 3: "relax_lc ex_env_failing ex_model [''M1''] ''optlang-glpk'' =
      (ex_failing_log, Inl (SolverError ''no solution''))"
    by (rule thm3 [OF conjI [OF ex_failing(1) conjI [OF ex_failing(4) ex_failing(5)]]])
  have 4: "relax_dgo ex_env_min_only ex_model [''R2''] ''optlang-glpk'' =
      (ex_probe_log, Inl (SolverError ''infeasible''))"
    by (rule thm4 [OF conjI [OF ex_min_only(1) conjI [OF ex_min_only(2) conjI [OF ex_min_only(3)
          conjI [OF ex_min_only(4) ex_min_only(5)]]]]])
  have 5: "relax_lc ex_env_min_only ex_model [''M1''] ''optlang-glpk'' =
      (ex_probe_log, Inl (SolverError ''infeasible''))"
    by (rule thm5 [OF conjI [OF ex_min_only(1) conjI [OF ex_min_only(6) conjI [OF ex_min_only(7)
          conjI [OF ex_min_only(8) ex_min_only(9)]]]]])
  from 1 2 3 4 5 ex_probe(1) ex_failing ex_min_only show ?thesis by blast
qed


text \<open>
  C9. In \<^verbatim>\<open>relax_lc\<close>, the collection that the test of line 238 searches,
  \<^verbatim>\<open>my_neg_dg\<close>, is the collection that the loop of line 235 iterates: the test
  \<^verbatim>\<open>this_neg_dg.id not in my_neg_dg\<close> is false for every constraint the loop visits,
  the body is lines 242-267 for each of them, and the slack model is the one that the
  loop without lines 238-239 builds. Every constraint of the kind \<^verbatim>\<open>NegativeDeltaG\<close> is
  rewritten, with no exclusion at this point: each is removed and a constraint of the
  same reaction, with the bounds \<open>[0, 0]\<close>, is added in its turn, so that the constraints
  of this kind of the slack model are the rebuilt ones, one per constraint of the
  input, in the same order, after the constraints of the other kinds. The ids of the
  constraints are distinct, as the container of the model has them.
\<close>

theorem lc_guard_never_skips:
  "lc_slack_model env tm metabolites_to_ignore solver_name =
     lc_slack_model_unguarded env tm metabolites_to_ignore solver_name \<and>
   (this_neg_dg \<in> set (get_constraints_of_type NegativeDeltaG (tm\<lparr>solver := solver_name\<rparr>)) \<longrightarrow>
      (\<not> contains_cid (get_constraints_of_type NegativeDeltaG (tm\<lparr>solver := solver_name\<rparr>))
           (c_id this_neg_dg)) = False \<and>
      lc_rewrite_step env (get_constraints_of_type NegativeDeltaG (tm\<lparr>solver := solver_name\<rparr>))
          pos_slack neg_slack this_neg_dg slack_model =
        lc_rewrite env pos_slack neg_slack this_neg_dg slack_model) \<and>
   (lc_slack_model env tm metabolites_to_ignore solver_name = Inr sm \<and>
    distinct (map c_id (get_constraints_of_type NegativeDeltaG tm)) \<longrightarrow>
      constraints sm =
        filter (\<lambda>d. c_kind d \<noteq> NegativeDeltaG) (constraints tm) @
        get_constraints_of_type NegativeDeltaG sm \<and>
      map c_reaction (get_constraints_of_type NegativeDeltaG sm) =
        map c_reaction (get_constraints_of_type NegativeDeltaG tm) \<and>
      list_all (\<lambda>c'. c_lb c' = 0 \<and> c_ub c' = 0) (get_constraints_of_type NegativeDeltaG sm))"
proof (intro conjI impI)
  show "lc_slack_model env tm metabolites_to_ignore solver_name =
     lc_slack_model_unguarded env tm metabolites_to_ignore solver_name"
    by (rule lc_slack_model_unguarded_eq)
next
  assume "this_neg_dg \<in> set (get_constraints_of_type NegativeDeltaG (tm\<lparr>solver := solver_name\<rparr>))"
  then show "(\<not> contains_cid (get_constraints_of_type NegativeDeltaG (tm\<lparr>solver := solver_name\<rparr>))
           (c_id this_neg_dg)) = False"
    and "lc_rewrite_step env (get_constraints_of_type NegativeDeltaG (tm\<lparr>solver := solver_name\<rparr>))
          pos_slack neg_slack this_neg_dg slack_model =
        lc_rewrite env pos_slack neg_slack this_neg_dg slack_model"
    by (simp_all add: lc_rewrite_step_def lc_guard_false)
next
  assume a: "lc_slack_model env tm metabolites_to_ignore solver_name = Inr sm \<and>
    distinct (map c_id (get_constraints_of_type NegativeDeltaG tm))"
  from lc_slack_model_constraints [OF a [THEN conjunct1] a [THEN conjunct2]]
  obtain rebuilt where
    cs: "constraints sm = filter (\<lambda>d. c_kind d \<noteq> NegativeDeltaG) (constraints tm) @ rebuilt"
    and all: "list_all2
       (rewritten env (RT tm) metabolites_to_ignore (get_variables_of_type LogConcentration tm))
       (get_constraints_of_type NegativeDeltaG tm) rebuilt"
    by blast
  note rb = rewritten_all [OF all]
  from rb have "filter (\<lambda>c. c_kind c = NegativeDeltaG) rebuilt = rebuilt"
    by (simp add: list_all_iff)
  then have my: "get_constraints_of_type NegativeDeltaG sm = rebuilt"
    by (simp add: get_constraints_of_type_def cs)
  show "constraints sm =
        filter (\<lambda>d. c_kind d \<noteq> NegativeDeltaG) (constraints tm) @
        get_constraints_of_type NegativeDeltaG sm"
    unfolding my by (rule cs)
  show "map c_reaction (get_constraints_of_type NegativeDeltaG sm) =
        map c_reaction (get_constraints_of_type NegativeDeltaG tm)"
    unfolding my using rb by simp
  show "list_all (\<lambda>c'. c_lb c' = 0 \<and> c_ub c' = 0) (get_constraints_of_type NegativeDeltaG sm)"
    unfolding my using rb by (simp add: list_all_iff)
qed

text \<open>
  On the model above, with \<open>M1\<close> excluded: the slack model of the run, the constraint of
  \<open>R2\<close> in the loop, and the two rebuilt constraints.
\<close>

theorem lc_guard_never_skips_witness:
  "lc_slack_model ex_env ex_model [''M1''] ''optlang-glpk'' = Inr ex_lc_slack \<and>
   lc_slack_model_unguarded ex_env ex_model [''M1''] ''optlang-glpk'' = Inr ex_lc_slack \<and>
   ex_C2 \<in> set (get_constraints_of_type NegativeDeltaG (ex_model\<lparr>solver := ''optlang-glpk''\<rparr>)) \<and>
   (\<not> contains_cid (get_constraints_of_type NegativeDeltaG (ex_model\<lparr>solver := ''optlang-glpk''\<rparr>))
        (c_id ex_C2)) = False \<and>
   lc_rewrite_step ex_env (get_constraints_of_type NegativeDeltaG (ex_model\<lparr>solver := ''optlang-glpk''\<rparr>))
       ex_pos_slack ex_neg_slack ex_C2 ex_model =
     lc_rewrite ex_env ex_pos_slack ex_neg_slack ex_C2 ex_model \<and>
   lc_rewrite ex_env ex_pos_slack ex_neg_slack ex_C2 ex_model = Inr ex_rewritten \<and>
   distinct (map c_id (get_constraints_of_type NegativeDeltaG ex_model)) \<and>
   constraints ex_lc_slack = [] @ get_constraints_of_type NegativeDeltaG ex_lc_slack \<and>
   map c_reaction (get_constraints_of_type NegativeDeltaG ex_lc_slack) = [ex_R1, ex_R2] \<and>
   map c_lb (get_constraints_of_type NegativeDeltaG ex_lc_slack) = [0, 0] \<and>
   map c_ub (get_constraints_of_type NegativeDeltaG ex_lc_slack) = [0, 0]"
proof -
  note inst = lc_guard_never_skips [of ex_env ex_model "[''M1'']" "''optlang-glpk''" ex_C2
      ex_pos_slack ex_neg_slack ex_model ex_lc_slack]
  have mem: "ex_C2 \<in> set (get_constraints_of_type NegativeDeltaG (ex_model\<lparr>solver := ''optlang-glpk''\<rparr>))"
    by (simp add: ex_constraints(2))
  have 1: "lc_slack_model_unguarded ex_env ex_model [''M1''] ''optlang-glpk'' = Inr ex_lc_slack"
    using inst [THEN conjunct1] ex_lc_slack_model by simp
  note 2 = inst [THEN conjunct2, THEN conjunct1, rule_format, OF mem]
  note 3 = inst [THEN conjunct2, THEN conjunct2, rule_format, OF conjI [OF ex_lc_slack_model ex_constraints(3)]]
  have rw: "lc_rewrite ex_env ex_pos_slack ex_neg_slack ex_C2 ex_model = Inr ex_rewritten"
    using 2 ex_rewrite_step by (simp add: ex_constraints(2))
  have my: "get_constraints_of_type NegativeDeltaG ex_lc_slack = constraints ex_lc_slack"
    using 3 by (simp add: ex_constraints(4))
  have 4: "map c_reaction (get_constraints_of_type NegativeDeltaG ex_lc_slack) = [ex_R1, ex_R2]"
    using 3 by (simp add: ex_constraints(1) ex_C1_def ex_C2_def)
  have 5: "map c_lb (get_constraints_of_type NegativeDeltaG ex_lc_slack) = [0, 0]"
    "map c_ub (get_constraints_of_type NegativeDeltaG ex_lc_slack) = [0, 0]"
    using 3 unfolding my ex_constraints(5) by simp_all
  from ex_lc_slack_model 1 mem 2 rw ex_constraints(3) 3 4 5 show ?thesis
    by (simp add: ex_constraints(4))
qed

text \<open>
  C2. In \<^verbatim>\<open>relax_lc\<close>, the slack model that is returned is the one lines 207-277 build
  and, for every constraint of the kind \<^verbatim>\<open>NegativeDeltaG\<close> of the input, holds a rebuilt
  constraint in its place: its expression has the constant of the original and, for
  every variable \<open>y\<close>, the coefficient of the original plus, for each variable \<open>x\<close> of
  the original that is the log-concentration variable of a metabolite with an injected
  slack pair, the coefficient of \<open>y\<close> in \<open>RT \<times> stoichiometric_coefficient \<times>
  (positive_slack - negative_slack)\<close>; a variable without a slack pair adds nothing.
  The slack pairs are those of lines 218-233: one for each log-concentration variable
  that line 219 does not skip. The ids of the constraints are distinct, as the container
  of the model has them.
\<close>

theorem lc_rewritten_expression:
  "(relax_lc env tm metabolites_to_ignore solver_name = (lg, Inr (relaxed_model, slack_model, relax_table))
      \<longrightarrow> lc_slack_model env tm metabolites_to_ignore solver_name = Inr slack_model) \<and>
   (lc_slack_model env tm metabolites_to_ignore solver_name = Inr slack_model \<and>
    distinct (map c_id (get_constraints_of_type NegativeDeltaG tm)) \<longrightarrow>
      (\<exists>rebuilt.
         constraints slack_model =
           filter (\<lambda>d. c_kind d \<noteq> NegativeDeltaG) (constraints tm) @ rebuilt \<and>
         list_all2
           (rewritten env (RT tm) metabolites_to_ignore (get_variables_of_type LogConcentration tm))
           (get_constraints_of_type NegativeDeltaG tm) rebuilt))"
proof (rule conjI; rule impI)
  assume "relax_lc env tm metabolites_to_ignore solver_name
            = (lg, Inr (relaxed_model, slack_model, relax_table))"
  then show "lc_slack_model env tm metabolites_to_ignore solver_name = Inr slack_model"
    by (rule relax_lc_Inr)
next
  assume "lc_slack_model env tm metabolites_to_ignore solver_name = Inr slack_model \<and>
    distinct (map c_id (get_constraints_of_type NegativeDeltaG tm))"
  then have sm: "lc_slack_model env tm metabolites_to_ignore solver_name = Inr slack_model"
    and dist: "distinct (map c_id (get_constraints_of_type NegativeDeltaG tm))"
    by simp_all
  from lc_slack_model_constraints [OF sm dist]
  show "\<exists>rebuilt.
         constraints slack_model =
           filter (\<lambda>d. c_kind d \<noteq> NegativeDeltaG) (constraints tm) @ rebuilt \<and>
         list_all2
           (rewritten env (RT tm) metabolites_to_ignore (get_variables_of_type LogConcentration tm))
           (get_constraints_of_type NegativeDeltaG tm) rebuilt"
    by blast
qed

text \<open>
  On the model above, with \<open>M1\<close> excluded (line 219 does not skip it, its name is
  \<open>LC_M1\<close>): \<open>M1\<close> has the coefficient \<open>-2\<close> in \<open>R2\<close>, and in the rebuilt constraint of
  \<open>R2\<close> in the returned slack model the positive slack of \<open>M1\<close> has the coefficient
  \<open>-2 \<times> RT\<close>, the negative slack the opposite.
\<close>

theorem lc_rewritten_expression_witness:
  "relax_lc ex_env ex_model [''M1''] ''optlang-glpk'' =
     (ex_probe_log @ [LogInfo ex_lc_table], Inr (ex_lc_relaxed, ex_lc_slack, ex_lc_table)) \<and>
   lc_slack_model ex_env ex_model [''M1''] ''optlang-glpk'' = Inr ex_lc_slack \<and>
   distinct (map c_id (get_constraints_of_type NegativeDeltaG ex_model)) \<and>
   get_constraints_of_type NegativeDeltaG ex_model = [ex_C1, ex_C2] \<and>
   get_constraints_of_type NegativeDeltaG ex_lc_slack ! 1 = ex_C2\<lparr>c_expression := ex_new_expr\<rparr> \<and>
   rewritten ex_env (RT ex_model) [''M1''] (get_variables_of_type LogConcentration ex_model)
     ex_C2 (ex_C2\<lparr>c_expression := ex_new_expr\<rparr>) \<and>
   stoichiometric_coefficient (c_reaction ex_C2) ''M1'' = - 2 \<and>
   coeff ex_new_expr ''PosSlackLC_M1'' = - 2 * RT ex_model \<and>
   coeff ex_new_expr ''NegSlackLC_M1'' = - (- 2 * RT ex_model) \<and>
   coeff ex_new_expr ''DGo_R2'' = - 1"
proof -
  have sm: "lc_slack_model ex_env ex_model [''M1''] ''optlang-glpk'' = Inr ex_lc_slack"
    by (rule lc_rewritten_expression [THEN conjunct1, rule_format, OF ex_lc_run])
  from lc_rewritten_expression [THEN conjunct2, rule_format, OF conjI [OF sm ex_constraints(3)]]
  obtain rebuilt where
    cs: "constraints ex_lc_slack =
           filter (\<lambda>d. c_kind d \<noteq> NegativeDeltaG) (constraints ex_model) @ rebuilt"
    and all: "list_all2
           (rewritten ex_env (RT ex_model) [''M1''] (get_variables_of_type LogConcentration ex_model))
           (get_constraints_of_type NegativeDeltaG ex_model) rebuilt"
    by blast
  from cs have rb: "rebuilt = constraints ex_lc_slack"
    by (simp add: ex_constraints(4))
  from all have rw: "rewritten ex_env (RT ex_model) [''M1'']
      (get_variables_of_type LogConcentration ex_model) ex_C2 (ex_C2\<lparr>c_expression := ex_new_expr\<rparr>)"
    unfolding rb ex_constraints(1) ex_constraints(5) by simp
  then have co: "coeff ex_new_expr y =
      coeff (c_expression ex_C2) y +
      (\<Sum>x\<leftarrow>expr_variables (c_expression ex_C2).
          lc_slack_coeff ex_env (RT ex_model) (c_reaction ex_C2) [''M1'']
            (get_variables_of_type LogConcentration ex_model) x y)" for y
    by (simp add: rewritten_def)
  have nth: "get_constraints_of_type NegativeDeltaG ex_lc_slack ! 1 = ex_C2\<lparr>c_expression := ex_new_expr\<rparr>"
    by (simp add: get_constraints_of_type_def ex_constraints(5) ex_C1_def ex_C2_def)
  have vars: "expr_variables (c_expression ex_C2) = [''DGo_R2'', ''LC_M1'', ''LC_M2'']"
    by (simp add: expr_variables_def coeff_def ex_C2_def)
  have lc: "get_variables_of_type LogConcentration ex_model =
      [\<lparr>v_kind = LogConcentration, v_id = ''M1'', v_lb = - 5, v_ub = 5\<rparr>,
       \<lparr>v_kind = LogConcentration, v_id = ''M2'', v_lb = - 5, v_ub = 5\<rparr>]"
    by (simp add: get_variables_of_type_def ex_model_def ex_variables_def)
  have inj: "injected ex_env [''M1''] (get_variables_of_type LogConcentration ex_model) ''DGo_R2'' = None"
    "injected ex_env [''M1''] (get_variables_of_type LogConcentration ex_model) ''LC_M1'' =
       Some \<lparr>v_kind = LogConcentration, v_id = ''M1'', v_lb = - 5, v_ub = 5\<rparr>"
    "injected ex_env [''M1''] (get_variables_of_type LogConcentration ex_model) ''LC_M2'' =
       Some \<lparr>v_kind = LogConcentration, v_id = ''M2'', v_lb = - 5, v_ub = 5\<rparr>"
    unfolding lc by (simp_all add: injected_def v_name_def ex_names)
  have st: "stoichiometric_coefficient (c_reaction ex_C2) ''M1'' = - 2"
    "stoichiometric_coefficient (c_reaction ex_C2) ''M2'' = 1"
    by (simp_all add: stoichiometric_coefficient_def ex_C2_def ex_R2_def)
  have rt: "RT ex_model = 2" by (simp add: ex_model_def)
  have orig: "coeff (c_expression ex_C2) ''PosSlackLC_M1'' = 0"
    "coeff (c_expression ex_C2) ''NegSlackLC_M1'' = 0"
    "coeff (c_expression ex_C2) ''DGo_R2'' = - 1"
    by (simp_all add: coeff_def ex_C2_def)
  have 1: "coeff ex_new_expr ''PosSlackLC_M1'' = - 2 * RT ex_model"
    unfolding co [of "''PosSlackLC_M1''"] vars orig
    by (simp add: lc_slack_coeff_def inj st ex_names rt)
  have 2: "coeff ex_new_expr ''NegSlackLC_M1'' = - (- 2 * RT ex_model)"
    unfolding co [of "''NegSlackLC_M1''"] vars orig
    by (simp add: lc_slack_coeff_def inj st ex_names rt)
  have 3: "coeff ex_new_expr ''DGo_R2'' = - 1"
    unfolding co [of "''DGo_R2''"] vars orig
    by (simp add: lc_slack_coeff_def inj st ex_names rt)
  from ex_lc_run sm ex_constraints(3) ex_constraints(1) nth rw st(1) 1 2 3 show ?thesis by blast
qed

text \<open>
  C3. When the slack solution is zero everywhere, \<^verbatim>\<open>changes\<close> is empty, the table built
  from it has no column, and the assignment of the six column names (lines 167-172 and
  331-336) raises \<^verbatim>\<open>ValueError\<close>: neither procedure returns a report.
\<close>

theorem all_slacks_zero_raises:
  "relax_dgo ex_env_feasible ex_model [] ''optlang-glpk'' =
     ([], Inl (ValueError ''Length mismatch'')) \<and>
   relax_lc ex_env_feasible ex_model [] ''optlang-glpk'' =
     ([], Inl (ValueError ''Length mismatch''))"
  by (simp add: model_defs ex_defs ex_lc_defs Let_def)

text \<open>
  C8. With the metabolite \<open>M1\<close> excluded, the slack-injection pass of \<^verbatim>\<open>relax_lc\<close> does
  not skip it: line 219 tests the name of the variable, \<open>LC_M1\<close>, and the slack model
  holds a slack pair for \<open>M1\<close>. (\<^verbatim>\<open>relax_dgo\<close>, which tests the id, makes none for the
  excluded \<open>R2\<close>.) With the name \<open>LC_M1\<close> in the set instead, the injection pass skips
  \<open>M1\<close> and the read-back pass, which tests the id, raises \<^verbatim>\<open>KeyError\<close>.
\<close>

theorem ignored_metabolite_gets_slack_pair:
  "slack_var_of (relax_lc ex_env ex_model [''M1''] ''optlang-glpk'') NegSlackLC ''M1'' =
     Some \<lparr>v_kind = NegSlackLC, v_id = ''M1'', v_lb = 0, v_ub = 1000\<rparr> \<and>
   slack_var_of (relax_lc ex_env ex_model [''M1''] ''optlang-glpk'') PosSlackLC ''M1'' =
     Some \<lparr>v_kind = PosSlackLC, v_id = ''M1'', v_lb = 0, v_ub = 1000\<rparr> \<and>
   slack_var_of (relax_dgo ex_env ex_model [''R2''] ''optlang-glpk'') NegSlackVariable ''R2'' = None \<and>
   slack_var_of (relax_dgo ex_env ex_model [''R2''] ''optlang-glpk'') PosSlackVariable ''R2'' = None \<and>
   snd (relax_lc ex_env ex_model [''LC_M1''] ''optlang-glpk'') = Inl (KeyError ''M1'')"
proof -
  have "snd (relax_lc ex_env ex_model [''LC_M1''] ''optlang-glpk'') = Inl (KeyError ''M1'')"
    by (simp add: model_defs ex_defs Let_def)
  then show ?thesis
    unfolding slack_var_of_def ex_dgo_run ex_lc_run
    by (simp add: lookup_var_def ex_lc_slack_def ex_dgo_slack_def ex_model_def ex_variables_def)
qed


end
